theory Spec2Isabelle
  imports Main "HOL-Library.Word"
begin

section \<open>JavaScript string primitives\<close>

text \<open>
  A JavaScript string is a sequence of UTF-16 code units. The model uses \<open>string\<close>
  (a \<open>char list\<close>), each \<open>char\<close> standing for the code unit of the same number, so
  the model covers the texts whose code units are all below 256. Within that range the
  characters that \<open>String.prototype.trim\<close> strips and that the regular expression
  class \<open>\s\<close> matches are TAB, LF, VT, FF, CR, SPACE and NBSP.
\<close>

definition isJsSpace :: "char \<Rightarrow> bool" where
  "isJsSpace c = (c \<in> {CHR 0x09, CHR 0x0A, CHR 0x0B, CHR 0x0C, CHR 0x0D, CHR 0x20, CHR 0xA0})"

definition trim :: "string \<Rightarrow> string" where
  \<comment> \<open>\<open>s.trim()\<close>\<close>
  "trim s = rev (dropWhile isJsSpace (rev (dropWhile isJsSpace s)))"

fun splitLinesFrom :: "string \<Rightarrow> string \<Rightarrow> string list" where
  \<comment> \<open>The accumulator holds the current line, reversed.\<close>
  "splitLinesFrom acc [] = [rev acc]"
| "splitLinesFrom acc [c] =
     (if c = CHR 0x0A then [rev acc, []] else [rev (c # acc)])"
| "splitLinesFrom acc (c # d # cs) =
     (if c = CHR 0x0A then rev acc # splitLinesFrom [] (d # cs)
      else if c = CHR 0x0D \<and> d = CHR 0x0A then rev acc # splitLinesFrom [] cs
      else splitLinesFrom (c # acc) (d # cs))"

definition splitLines :: "string \<Rightarrow> string list" where
  \<comment> \<open>\<open>s.split(/\r?\n/)\<close>: never empty, \<open>"".split(/\r?\n/)\<close> is \<open>[""]\<close>.\<close>
  "splitLines s = splitLinesFrom [] s"

fun joinWith :: "string \<Rightarrow> string list \<Rightarrow> string" where
  \<comment> \<open>\<open>xs.join(sep)\<close>\<close>
  "joinWith sep [] = []"
| "joinWith sep [x] = x"
| "joinWith sep (x # y # ys) = x @ sep @ joinWith sep (y # ys)"

definition startsWith :: "string \<Rightarrow> string \<Rightarrow> bool" where
  \<comment> \<open>\<open>s.startsWith(p)\<close>\<close>
  "startsWith s p = (take (length p) s = p)"

definition endsWith :: "string \<Rightarrow> string \<Rightarrow> bool" where
  \<comment> \<open>\<open>s.endsWith(p)\<close>\<close>
  "endsWith s p = (length p \<le> length s \<and> drop (length s - length p) s = p)"

fun includesStr :: "string \<Rightarrow> string \<Rightarrow> bool" where
  \<comment> \<open>\<open>s.includes(p)\<close>\<close>
  "includesStr [] p = (p = [])"
| "includesStr (c # cs) p = (startsWith (c # cs) p \<or> includesStr cs p)"


section \<open>The Node.js runtime as an interface\<close>

text \<open>
  The resolvers, the installer and the lockfile generator reach the outside world through
  the Node.js runtime: the file system, subprocesses, the network, the clock. The model
  takes the runtime as a record of operations over an abstract world \<open>'w\<close>; every
  theorem about the code holds for every runtime. An operation that can throw returns a
  sum whose left side is the message of the thrown error; an operation that changes the
  world returns the new world, also when it throws.
\<close>

type_synonym byte = "8 word"

datatype node_kind = IsFile | IsDirectory | IsSymbolicLink | IsOther

record stats =
  statKind :: node_kind
  statSize :: nat

text \<open>
  What \<open>fs.readdirSync(dir, { withFileTypes: true })\<close> shows of a directory, with what
  the same call shows of each subdirectory below it: a file carries the result of
  \<open>fs.statSync(path).size\<close>, a directory its own entries, or the message of the
  error that reading it throws. A directory entry's type does not follow symbolic links,
  so the tree is finite.
\<close>

datatype fs_tree =
    FileEntry string "string + nat"
  | DirEntry string "fs_tree list"
  | UnreadableDirEntry string string
  | SymlinkEntry string
  | OtherEntry string

fun entryName :: "fs_tree \<Rightarrow> string" where
  "entryName (FileEntry n _) = n"
| "entryName (DirEntry n _) = n"
| "entryName (UnreadableDirEntry n _) = n"
| "entryName (SymlinkEntry n) = n"
| "entryName (OtherEntry n) = n"

datatype read_result = Chunk "byte list" | ReadRejected string

text \<open>
  A response of \<open>fetch\<close>: \<open>responseBody\<close> is what the reader of \<open>response.body\<close> answers,
  read by read (\<open>None\<close> when the response has no body), \<open>responseText\<close> and
  \<open>responseBytes\<close> are what \<open>response.text()\<close> and \<open>response.arrayBuffer()\<close> resolve to,
  or the message they reject with; the two headers the code reads are \<open>content-type\<close> and
  \<open>docker-content-digest\<close>.
\<close>

record http_response =
  responseOk :: bool
  responseStatus :: nat
  responseStatusText :: string
  responseBody :: "read_result list option"
  responseText :: "string + string"
  responseBytes :: "string + byte list"
  responseContentType :: "string option"
  responseDigest :: "string option"
  responseUrl :: string

text \<open>
  A value as \<open>JSON.parse\<close> and the YAML parser return it: a number is kept as the text
  that \<open>String\<close> gives for it (\<open>NaN\<close> for the YAML number \<open>.nan\<close>), and an object lists each
  of its properties once, in the order of enumeration.
\<close>

datatype json =
    JNull
  | JBool bool
  | JNumber string
  | JString string
  | JArray "json list"
  | JObject "(string \<times> json) list"

record 'w runtime =
  pathResolve :: "string \<Rightarrow> string"
  pathJoin :: "string list \<Rightarrow> string"
  pathBasename :: "string \<Rightarrow> string"
  pathDirname :: "string \<Rightarrow> string"
  pathSep :: string
  osTmpdir :: string
  processCwd :: string
  rtExistsSync :: "string \<Rightarrow> 'w \<Rightarrow> bool"
  rtStatSync :: "string \<Rightarrow> 'w \<Rightarrow> string + stats"
  rtLstatSync :: "string \<Rightarrow> 'w \<Rightarrow> string + stats"
  rtReaddirSync :: "string \<Rightarrow> 'w \<Rightarrow> string + fs_tree list"
  rtReadFileSync :: "string \<Rightarrow> 'w \<Rightarrow> string + string"
  rtMkdirSync :: "string \<Rightarrow> 'w \<Rightarrow> (string + unit) \<times> 'w"
  rtMkdtempSync :: "string \<Rightarrow> 'w \<Rightarrow> (string + string) \<times> 'w"
  rtWriteFileSync :: "string \<Rightarrow> byte list \<Rightarrow> 'w \<Rightarrow> (string + unit) \<times> 'w"
  rtCpSync :: "string \<Rightarrow> string \<Rightarrow> 'w \<Rightarrow> (string + unit) \<times> 'w"
  rtRmSync :: "string \<Rightarrow> 'w \<Rightarrow> (string + unit) \<times> 'w"
  rtRenameSync :: "string \<Rightarrow> string \<Rightarrow> 'w \<Rightarrow> (string + unit) \<times> 'w"
  rtSymlinkSync :: "string \<Rightarrow> string \<Rightarrow> 'w \<Rightarrow> (string + unit) \<times> 'w"
  rtExecFileSync :: "string \<Rightarrow> string list \<Rightarrow> 'w \<Rightarrow> (string option + string) \<times> 'w"
  rtFetch :: "string \<Rightarrow> 'w \<Rightarrow> (string + http_response) \<times> 'w"
  rtDateNow :: "'w \<Rightarrow> string \<times> 'w"
  rtMathRandomHex :: "'w \<Rightarrow> string \<times> 'w"
  sha256Hex :: "string \<Rightarrow> string"
  jsonParse :: "string \<Rightarrow> json option"
  yamlParse :: "string \<Rightarrow> string + json"
  yamlStringify :: "json \<Rightarrow> string"
  localeCompare :: "string \<Rightarrow> string \<Rightarrow> int"

text \<open>
  The calls that change the world are recorded, in order, in a trace beside the world, so
  that a theorem can say which of them a run has made.
\<close>

datatype event =
    EvMkdir string
  | EvMkdtemp string
  | EvWriteFile string
  | EvCp string string
  | EvRm string
  | EvRename string string
  | EvSymlink string string
  | EvExec string "string list"
  | EvFetch string
  | EvRead

text \<open>
  The errors the code throws: one constructor for each error class of the source, and
  below it one constructor for each \<open>throw\<close> site of the two resolvers, carrying what
  the message of that site interpolates. \<open>InstallConflictError\<close> carries its message and
  its \<open>path\<close>, \<open>SkillParseError\<close> its message and the optional offending field,
  \<open>PlainError\<close> is \<open>new Error(message)\<close>, and \<open>NodeError\<close> is any
  error thrown by the runtime itself (a failed file-system call, a rejected stream read).
\<close>

datatype archive_error =
    FetchFailed string
  | RequestFailed nat string
  | NoBody
  | DownloadExceedsLimit nat
  | UndetectableFormat
  | CommandFailed string
  | EntryCountExceedsLimit nat
  | AbsoluteEntryPath string
  | EntryEscapesRoot string
  | ExtractedSizeExceedsLimit nat

datatype oci_error =
    ReferenceWithoutScheme
  | InvalidReference string
  | InvalidDigestReference string
  | ReferenceWithoutTag string
  | OciRequestThrew string string
  | OciRequestStatus nat string string
  | ManifestNotJson
  | ManifestNotObject
  | UnsupportedArtifactType "json option"
  | ManifestWithoutLayers
  | InvalidLayerEntry
  | InvalidLayerDigest
  | TarFailed string
  | UnsafeAbsolutePath string
  | UnsafeTraversalPath string
  | NotExactlyOneSkill nat

datatype SkillParseError = SkillParseError string "string option"

datatype exn =
    ArchiveResolveError archive_error
  | OciResolveError oci_error
  | ThrownSkillParseError SkillParseError
  | InstallConflictError string string
  | PlainError string
  | NodeError string

type_synonym 'w state = "'w \<times> event list"

type_synonym ('w, 'a) prog = "'w state \<Rightarrow> (exn + 'a) \<times> 'w state"

definition ret :: "'a \<Rightarrow> ('w, 'a) prog" where
  "ret x s = (Inr x, s)"

definition throw :: "exn \<Rightarrow> ('w, 'a) prog" where
  "throw e s = (Inl e, s)"

definition andThen :: "('w, 'a) prog \<Rightarrow> ('a \<Rightarrow> ('w, 'b) prog) \<Rightarrow> ('w, 'b) prog" where
  "andThen m f s = (case m s of (Inl e, s') \<Rightarrow> (Inl e, s') | (Inr a, s') \<Rightarrow> f a s')"

definition effectCatch :: "event \<Rightarrow> ('w \<Rightarrow> ('m + 'a) \<times> 'w) \<Rightarrow> ('m \<Rightarrow> exn) \<Rightarrow> ('w, 'a) prog" where
  \<comment> \<open>A traced runtime call inside \<open>try { ... } catch (error) { throw wrap(error) }\<close>.\<close>
  "effectCatch ev call wrap s =
     (case call (fst s) of
        (Inl m, w') \<Rightarrow> (Inl (wrap m), (w', snd s @ [ev]))
      | (Inr a, w') \<Rightarrow> (Inr a, (w', snd s @ [ev])))"

definition effect :: "event \<Rightarrow> ('w \<Rightarrow> (string + 'a) \<times> 'w) \<Rightarrow> ('w, 'a) prog" where
  \<comment> \<open>A traced runtime call outside any \<open>try\<close>: the error thrown is the runtime's.\<close>
  "effect ev call = effectCatch ev call NodeError"

definition liftE :: "exn + 'a \<Rightarrow> ('w, 'a) prog" where
  \<comment> \<open>A computation that touches neither the world nor the trace.\<close>
  "liftE r s = (r, s)"

definition observe :: "('w \<Rightarrow> string + 'a) \<Rightarrow> ('w, 'a) prog" where
  \<comment> \<open>A runtime call that only reads the world.\<close>
  "observe call s = (case call (fst s) of Inl m \<Rightarrow> (Inl (NodeError m), s) | Inr a \<Rightarrow> (Inr a, s))"

definition mkdirSync :: "'w runtime \<Rightarrow> string \<Rightarrow> ('w, unit) prog" where
  \<comment> \<open>\<open>fs.mkdirSync(p, { recursive: true })\<close>\<close>
  "mkdirSync rt p = effect (EvMkdir p) (rtMkdirSync rt p)"

definition mkdtempSync :: "'w runtime \<Rightarrow> string \<Rightarrow> ('w, string) prog" where
  "mkdtempSync rt prefix = effect (EvMkdtemp prefix) (rtMkdtempSync rt prefix)"

definition writeFileSync :: "'w runtime \<Rightarrow> string \<Rightarrow> byte list \<Rightarrow> ('w, unit) prog" where
  "writeFileSync rt p buffer = effect (EvWriteFile p) (rtWriteFileSync rt p buffer)"


section \<open>Skill descriptor parser: the frontmatter block\<close>

text \<open>The two messages of \<open>splitFrontmatter\<close> are kept as the source writes them.\<close>

definition msgMustStart :: string where
  "msgMustStart = ''SKILL.md must start with frontmatter '' @ [CHR 0x27] @ ''---'' @ [CHR 0x27] @ '' delimiter''"

definition msgMustClose :: string where
  "msgMustClose = ''SKILL.md frontmatter must be closed with '' @ [CHR 0x27] @ ''---'' @ [CHR 0x27] @ '' delimiter''"

record frontmatter_split =
  frontmatterText :: string
  body :: string

fun findEndIndex :: "string list \<Rightarrow> nat \<Rightarrow> nat option" where
  \<comment> \<open>The loop \<open>for (let i = 1; i < lines.length; i += 1)\<close>, started at index \<open>i\<close> on
      the lines from \<open>i\<close> on; \<open>None\<close> is \<open>endIndex === -1\<close>.\<close>
  "findEndIndex [] i = None"
| "findEndIndex (l # ls) i = (if trim l = ''---'' then Some i else findEndIndex ls (Suc i))"

definition splitFrontmatter :: "string \<Rightarrow> SkillParseError + frontmatter_split" where
  "splitFrontmatter markdown =
     (let lines = splitLines markdown in
      if length lines = 0 \<or> trim (hd lines) \<noteq> ''---''
      then Inl (SkillParseError msgMustStart None)
      else (case findEndIndex (drop 1 lines) 1 of
              None \<Rightarrow> Inl (SkillParseError msgMustClose None)
            | Some endIndex \<Rightarrow>
                Inr \<lparr> frontmatterText = joinWith [CHR 0x0A] (take (endIndex - 1) (drop 1 lines)),
                      body = joinWith [CHR 0x0A] (drop (endIndex + 1) lines) \<rparr>))"

section \<open>HTTP archive resolver\<close>

datatype ArchiveFormat = Zip | TarGz

record ResolveHttpArchiveOptions =
  tempRoot :: "string option"
  maxDownloadBytes :: "nat option"
  maxEntries :: "nat option"
  maxExtractedBytes :: "nat option"

record ResolvedHttpArchive =
  format :: ArchiveFormat
  archivePath :: string
  extractPath :: string
  contentPath :: string
  finalUrl :: string

definition DEFAULT_MAX_DOWNLOAD_BYTES :: nat where
  "DEFAULT_MAX_DOWNLOAD_BYTES = 50 * 1024 * 1024"

definition DEFAULT_MAX_ENTRIES :: nat where
  "DEFAULT_MAX_ENTRIES = 10000"

definition DEFAULT_MAX_EXTRACTED_BYTES :: nat where
  "DEFAULT_MAX_EXTRACTED_BYTES = 250 * 1024 * 1024"

record DownloadedArchive =
  buffer :: "byte list"
  contentType :: string
  downloadedUrl :: string

fun readLoop :: "nat \<Rightarrow> read_result list \<Rightarrow> byte list list \<Rightarrow> nat \<Rightarrow> ('w, byte list list) prog" where
  \<comment> \<open>The \<open>while (true)\<close> loop of \<open>downloadArchive\<close> over the reads the body stream
      still has to answer; the end of the list is \<open>done\<close>. Each \<open>reader.read()\<close> is
      traced.\<close>
  "readLoop limit [] chunks totalBytes s = (Inr chunks, (fst s, snd s @ [EvRead]))"
| "readLoop limit (ReadRejected m # rest) chunks totalBytes s =
     (Inl (NodeError m), (fst s, snd s @ [EvRead]))"
| "readLoop limit (Chunk v # rest) chunks totalBytes s =
     (let counted = totalBytes + length v in
      if counted > limit
      then (Inl (ArchiveResolveError (DownloadExceedsLimit limit)), (fst s, snd s @ [EvRead]))
      else readLoop limit rest (chunks @ [v]) counted (fst s, snd s @ [EvRead]))"

definition downloadArchive :: "'w runtime \<Rightarrow> string \<Rightarrow> nat \<Rightarrow> ('w, DownloadedArchive) prog" where
  "downloadArchive rt url limit =
     andThen (effectCatch (EvFetch url) (rtFetch rt url) (\<lambda>m. ArchiveResolveError (FetchFailed m)))
       (\<lambda>response.
          if \<not> responseOk response
          then throw (ArchiveResolveError
                        (RequestFailed (responseStatus response) (responseStatusText response)))
          else (case responseBody response of
                  None \<Rightarrow> throw (ArchiveResolveError NoBody)
                | Some stream \<Rightarrow>
                    andThen (readLoop limit stream [] 0)
                      (\<lambda>chunks. ret \<lparr> buffer = concat chunks,
                                      contentType = (case responseContentType response of
                                                       Some c \<Rightarrow> c | None \<Rightarrow> []),
                                      downloadedUrl = responseUrl response \<rparr>)))"

definition toLowerChar :: "char \<Rightarrow> char" where
  \<comment> \<open>The letters with an upper case below code unit 256: A-Z, and the Latin-1 letters
      0xC0-0xDE without the multiplication sign 0xD7.\<close>
  "toLowerChar c =
     (let n = (of_char c :: nat) in
      if (0x41 \<le> n \<and> n \<le> 0x5A) \<or> (0xC0 \<le> n \<and> n \<le> 0xDE \<and> n \<noteq> 0xD7)
      then char_of (n + 0x20) else c)"

definition toLowerCase :: "string \<Rightarrow> string" where
  "toLowerCase s = map toLowerChar s"

definition detectArchiveFormat :: "string \<Rightarrow> string \<Rightarrow> byte list \<Rightarrow> exn + ArchiveFormat" where
  "detectArchiveFormat url ctype buf =
     (let lowerUrl = toLowerCase url; lowerContentType = toLowerCase ctype in
      if endsWith lowerUrl ''.tar.gz'' \<or> endsWith lowerUrl ''.tgz'' then Inr TarGz
      else if endsWith lowerUrl ''.zip'' then Inr Zip
      else if includesStr lowerContentType ''application/zip'' then Inr Zip
      else if includesStr lowerContentType ''application/gzip''
              \<or> includesStr lowerContentType ''application/x-gzip'' then Inr TarGz
      else if length buf \<ge> 2 \<and> buf ! 0 = 0x1f \<and> buf ! 1 = 0x8b then Inr TarGz
      else if length buf \<ge> 4 \<and> buf ! 0 = 0x50 \<and> buf ! 1 = 0x4b
              \<and> (buf ! 2 = 0x03 \<or> buf ! 2 = 0x05 \<or> buf ! 2 = 0x07)
              \<and> (buf ! 3 = 0x04 \<or> buf ! 3 = 0x06 \<or> buf ! 3 = 0x08) then Inr Zip
      else Inl (ArchiveResolveError UndetectableFormat))"

definition runCommand :: "'w runtime \<Rightarrow> string \<Rightarrow> string list \<Rightarrow> string \<Rightarrow> ('w, string) prog" where
  \<comment> \<open>\<open>execFileSync\<close> inside \<open>try\<close>: the runtime's failure carries the child's standard
      error when that is a string.\<close>
  "runCommand rt cmd args errorPrefix =
     andThen
       (effectCatch (EvExec cmd args) (rtExecFileSync rt cmd args)
          (\<lambda>err. let stderr = (case err of Some t \<Rightarrow> trim t | None \<Rightarrow> []);
                      details = (if stderr \<noteq> [] then '': '' @ stderr else [])
                  in ArchiveResolveError (CommandFailed (errorPrefix @ details))))
       (\<lambda>out. ret (trim out))"

definition entryLines :: "string \<Rightarrow> string list" where
  \<comment> \<open>\<open>output.split(/\r?\n/).map((entry) => entry.trim()).filter((entry) => entry.length > 0)\<close>\<close>
  "entryLines output = filter (\<lambda>entry. length entry > 0) (map trim (splitLines output))"

definition listArchiveEntries :: "'w runtime \<Rightarrow> string \<Rightarrow> ArchiveFormat \<Rightarrow> ('w, string list) prog" where
  "listArchiveEntries rt path fmt =
     (let args = (if fmt = Zip then [''-Z1'', path] else [''-tzf'', path]);
          cmd = (if fmt = Zip then ''unzip'' else ''tar'')
      in andThen (runCommand rt cmd args ''Failed to inspect archive contents'')
           (\<lambda>output. ret (entryLines output)))"

definition extractArchive :: "'w runtime \<Rightarrow> string \<Rightarrow> ArchiveFormat \<Rightarrow> string \<Rightarrow> ('w, unit) prog" where
  "extractArchive rt path fmt target =
     (if fmt = Zip
      then andThen (runCommand rt ''unzip'' [''-q'', path, ''-d'', target] ''Failed to extract zip archive'')
             (\<lambda>_. ret ())
      else andThen (runCommand rt ''tar'' [''-xzf'', path, ''-C'', target] ''Failed to extract tar.gz archive'')
             (\<lambda>_. ret ()))"

subsection \<open>Entry paths\<close>

text \<open>
  \<open>path.posix.normalize\<close> belongs to the Node.js runtime. It works segment by
  segment on the text between slashes: an empty segment and \<open>.\<close> are dropped, \<open>..\<close>
  removes the segment before it unless there is none or it is itself \<open>..\<close>, in which
  case a relative path keeps the \<open>..\<close> and an absolute path drops it. A trailing slash
  is kept, and the empty result is \<open>.\<close> (\<open>./\<close> with a trailing slash, \<open>/\<close> for an
  absolute path).
\<close>

fun splitOnFrom :: "char \<Rightarrow> string \<Rightarrow> string \<Rightarrow> string list" where
  "splitOnFrom sep acc [] = [rev acc]"
| "splitOnFrom sep acc (c # cs) =
     (if c = sep then rev acc # splitOnFrom sep [] cs else splitOnFrom sep (c # acc) cs)"

definition splitOn :: "char \<Rightarrow> string \<Rightarrow> string list" where
  \<comment> \<open>\<open>s.split(sep)\<close> for a separator of one character\<close>
  "splitOn sep s = splitOnFrom sep [] s"

fun normalizeSegments :: "bool \<Rightarrow> string list \<Rightarrow> string list \<Rightarrow> string list" where
  \<comment> \<open>\<open>allowAboveRoot\<close>, the segments kept so far, the segments still to read\<close>
  "normalizeSegments allowAboveRoot res [] = res"
| "normalizeSegments allowAboveRoot res (seg # segs) =
     (if seg = [] \<or> seg = ''.'' then normalizeSegments allowAboveRoot res segs
      else if seg = ''..'' then
        (if res \<noteq> [] \<and> last res \<noteq> ''..'' then normalizeSegments allowAboveRoot (butlast res) segs
         else if allowAboveRoot then normalizeSegments allowAboveRoot (res @ [''..'']) segs
         else normalizeSegments allowAboveRoot res segs)
      else normalizeSegments allowAboveRoot (res @ [seg]) segs)"

definition posixNormalize :: "string \<Rightarrow> string" where
  "posixNormalize path =
     (if path = [] then ''.''
      else
        let isAbsolute = (hd path = CHR ''/'');
            trailingSeparator = (last path = CHR ''/'');
            normalized = joinWith ''/'' (normalizeSegments (\<not> isAbsolute) [] (splitOn (CHR ''/'') path))
        in if normalized = []
           then (if isAbsolute then ''/'' else if trailingSeparator then ''./'' else ''.'')
           else (if isAbsolute then ''/'' else []) @ normalized
                  @ (if trailingSeparator then ''/'' else []))"

definition backslashesToSlashes :: "string \<Rightarrow> string" where
  \<comment> \<open>\<open>s.replace(/\\\\/g, "/")\<close>\<close>
  "backslashesToSlashes s = map (\<lambda>c. if c = CHR 0x5C then CHR ''/'' else c) s"

definition isAsciiLetter :: "char \<Rightarrow> bool" where
  "isAsciiLetter c =
     (let n = (of_char c :: nat) in (0x41 \<le> n \<and> n \<le> 0x5A) \<or> (0x61 \<le> n \<and> n \<le> 0x7A))"

fun hasDriveLetterPrefix :: "string \<Rightarrow> bool" where
  \<comment> \<open>\<open>/^[a-zA-Z]:/.test(s)\<close>\<close>
  "hasDriveLetterPrefix (a # b # _) = (isAsciiLetter a \<and> b = CHR '':'')"
| "hasDriveLetterPrefix _ = False"

definition escapesRoot :: "string \<Rightarrow> bool" where
  \<comment> \<open>the test both validators make on the normalized path\<close>
  "escapesRoot normalized =
     (normalized = ''..'' \<or> startsWith normalized ''../'' \<or> includesStr normalized ''/../'')"

definition validateArchiveEntryPath :: "string \<Rightarrow> exn + unit" where
  "validateArchiveEntryPath entryPath =
     (let sanitized = backslashesToSlashes entryPath in
      if length sanitized = 0 then Inr ()
      else if startsWith sanitized ''/'' \<or> hasDriveLetterPrefix sanitized
      then Inl (ArchiveResolveError (AbsoluteEntryPath entryPath))
      else
        let normalized = posixNormalize sanitized in
        if escapesRoot normalized
        then Inl (ArchiveResolveError (EntryEscapesRoot entryPath))
        else Inr ())"

fun validateArchiveEntries :: "string list \<Rightarrow> exn + unit" where
  \<comment> \<open>\<open>for (const entry of entries) { validateArchiveEntryPath(entry); }\<close>\<close>
  "validateArchiveEntries [] = Inr ()"
| "validateArchiveEntries (entry # entries) =
     (case validateArchiveEntryPath entry of
        Inl e \<Rightarrow> Inl e
      | Inr _ \<Rightarrow> validateArchiveEntries entries)"

subsection \<open>The extracted tree\<close>

fun scanEntries ::
  "fs_tree list \<Rightarrow> (string + fs_tree list) list \<Rightarrow> nat \<Rightarrow> exn + (string + fs_tree list) list \<times> nat"
where
  \<comment> \<open>The inner \<open>for\<close> loop of \<open>computeDirectorySize\<close>: a directory is pushed, a file's
      size is added. The stack's top is the head of the list.\<close>
  "scanEntries [] stack bytes = Inr (stack, bytes)"
| "scanEntries (DirEntry n sub # es) stack bytes = scanEntries es (Inr sub # stack) bytes"
| "scanEntries (UnreadableDirEntry n m # es) stack bytes = scanEntries es (Inl m # stack) bytes"
| "scanEntries (FileEntry n sz # es) stack bytes =
     (case sz of
        Inl m \<Rightarrow> Inl (NodeError m)
      | Inr k \<Rightarrow> scanEntries es stack (bytes + k))"
| "scanEntries (SymlinkEntry n # es) stack bytes = scanEntries es stack bytes"
| "scanEntries (OtherEntry n # es) stack bytes = scanEntries es stack bytes"

fun treeWeight :: "fs_tree \<Rightarrow> nat" where
  "treeWeight (DirEntry n sub) = Suc (sum_list (map treeWeight sub))"
| "treeWeight _ = 1"

fun pendingWeight :: "string + fs_tree list \<Rightarrow> nat" where
  "pendingWeight (Inl m) = 1"
| "pendingWeight (Inr es) = Suc (sum_list (map treeWeight es))"

lemma scanEntries_weight:
  "scanEntries es stack bytes = Inr (stack', bytes') \<Longrightarrow>
   sum_list (map pendingWeight stack') \<le> sum_list (map treeWeight es) + sum_list (map pendingWeight stack)"
  by (induction es stack bytes rule: scanEntries.induct) (auto split: sum.splits)

function walkStack :: "(string + fs_tree list) list \<Rightarrow> nat \<Rightarrow> exn + nat" where
  \<comment> \<open>The \<open>while (stack.length > 0)\<close> loop: each stacked directory is held as what
      reading it gives.\<close>
  "walkStack [] bytes = Inr bytes"
| "walkStack (Inl m # stack) bytes = Inl (NodeError m)"
| "walkStack (Inr es # stack) bytes =
     (case scanEntries es stack bytes of
        Inl e \<Rightarrow> Inl e
      | Inr (stack', bytes') \<Rightarrow> walkStack stack' bytes')"
  by pat_completeness auto
termination
proof (relation "measure (\<lambda>(stack, bytes). sum_list (map pendingWeight stack))")
  show "wf (measure (\<lambda>(stack, bytes). sum_list (map pendingWeight stack)))" by simp
next
  fix es stack bytes x2 x y
  assume "scanEntries es stack bytes = Inr x2" and "(x, y) = x2"
  then have "scanEntries es stack bytes = Inr (x, y)" by simp
  from scanEntries_weight [OF this]
  show "((x, y), Inr es # stack, bytes) \<in> measure (\<lambda>(stack, bytes). sum_list (map pendingWeight stack))"
    by simp
qed

definition computeDirectorySize :: "'w runtime \<Rightarrow> string \<Rightarrow> ('w, nat) prog" where
  "computeDirectorySize rt directoryPath s =
     (walkStack [rtReaddirSync rt directoryPath (fst s)] 0, s)"

definition normalizeContentPath :: "'w runtime \<Rightarrow> string \<Rightarrow> ('w, string) prog" where
  "normalizeContentPath rt extractRoot =
     andThen (observe (rtReaddirSync rt extractRoot))
       (\<lambda>listing.
          let entries = filter (\<lambda>entry. entry \<noteq> ''.DS_Store'' \<and> entry \<noteq> ''__MACOSX'')
                          (map entryName listing)
          in if length entries = 1
             then
               let candidate = pathJoin rt [extractRoot, entries ! 0] in
               andThen (observe (rtStatSync rt candidate))
                 (\<lambda>st. if statKind st = IsDirectory then ret candidate else ret extractRoot)
             else ret extractRoot)"

subsection \<open>Resolution\<close>

definition resolveHttpArchive ::
  "'w runtime \<Rightarrow> string \<Rightarrow> ResolveHttpArchiveOptions \<Rightarrow> ('w, ResolvedHttpArchive) prog"
where
  "resolveHttpArchive rt sourceUrl options =
     (let root = pathResolve rt (case tempRoot options of Some t \<Rightarrow> t | None \<Rightarrow> osTmpdir rt) in
      andThen (mkdirSync rt root) (\<lambda>_.
      andThen (mkdtempSync rt (pathJoin rt [root, ''skillet-archive-''])) (\<lambda>workDir.
      let downloadLimit = (case maxDownloadBytes options of Some n \<Rightarrow> n | None \<Rightarrow> DEFAULT_MAX_DOWNLOAD_BYTES);
          entryLimit = (case maxEntries options of Some n \<Rightarrow> n | None \<Rightarrow> DEFAULT_MAX_ENTRIES);
          extractedLimit = (case maxExtractedBytes options of Some n \<Rightarrow> n | None \<Rightarrow> DEFAULT_MAX_EXTRACTED_BYTES)
      in
      andThen (downloadArchive rt sourceUrl downloadLimit) (\<lambda>downloaded.
      andThen (liftE (detectArchiveFormat (downloadedUrl downloaded) (contentType downloaded) (buffer downloaded))) (\<lambda>fmt.
      let archive = pathJoin rt [workDir, if fmt = Zip then ''archive.zip'' else ''archive.tar.gz''] in
      andThen (writeFileSync rt archive (buffer downloaded)) (\<lambda>_.
      andThen (listArchiveEntries rt archive fmt) (\<lambda>entries.
      if length entries > entryLimit
      then throw (ArchiveResolveError (EntryCountExceedsLimit entryLimit))
      else
      andThen (liftE (validateArchiveEntries entries)) (\<lambda>_.
      let extractTo = pathJoin rt [workDir, ''extract''] in
      andThen (mkdirSync rt extractTo) (\<lambda>_.
      andThen (extractArchive rt archive fmt extractTo) (\<lambda>_.
      andThen (computeDirectorySize rt extractTo) (\<lambda>extractedBytes.
      if extractedBytes > extractedLimit
      then throw (ArchiveResolveError (ExtractedSizeExceedsLimit extractedLimit))
      else
      andThen (normalizeContentPath rt extractTo) (\<lambda>content.
      ret \<lparr> format = fmt,
            archivePath = archive,
            extractPath = extractTo,
            contentPath = content,
            finalUrl = downloadedUrl downloaded \<rparr>))))))))))))"

section \<open>OCI resolver: layer entries\<close>

definition validateTarEntry :: "string \<Rightarrow> exn + unit" where
  "validateTarEntry entry =
     (let normalized = backslashesToSlashes entry in
      if startsWith normalized ''/'' \<or> hasDriveLetterPrefix normalized
      then Inl (OciResolveError (UnsafeAbsolutePath entry))
      else
        let safe = posixNormalize normalized in
        if escapesRoot safe
        then Inl (OciResolveError (UnsafeTraversalPath entry))
        else Inr ())"

fun validateTarEntries :: "string list \<Rightarrow> exn + unit" where
  \<comment> \<open>\<open>for (const entry of tarEntries) { validateTarEntry(entry); }\<close>\<close>
  "validateTarEntries [] = Inr ()"
| "validateTarEntries (entry # entries) =
     (case validateTarEntry entry of
        Inl e \<Rightarrow> Inl e
      | Inr _ \<Rightarrow> validateTarEntries entries)"

section \<open>A scripted runtime for concrete runs\<close>

text \<open>
  The theorems below hold for every runtime. To run the code on concrete inputs, this
  runtime keeps as its world the list of the paths that exist, each with its kind, and
  answers the network, the subprocesses and the directory listings from a script. Paths
  are joined with slashes and every symbolic link is taken to point to a directory. Its
  SHA-256 is one fixed value, its JSON and YAML parsers answer from the script, and its
  collation compares code units: a concrete run shows the code on these answers, and
  what is stated for every runtime does not depend on them.
\<close>

record script =
  fetchAnswer :: "string \<Rightarrow> string + http_response"
  execAnswer :: "string \<Rightarrow> string list \<Rightarrow> string option + string"
  readdirAnswer :: "string \<Rightarrow> string + fs_tree list"
  readFileAnswer :: "string \<Rightarrow> string + string"
  jsonAnswer :: "string \<Rightarrow> json option"
  yamlAnswer :: "string \<Rightarrow> string + json"

type_synonym world = "(string \<times> node_kind) list"

fun renderValue :: "json \<Rightarrow> string" where
  \<comment> \<open>A serializer to run with: the value in flow style.\<close>
  "renderValue JNull = ''null''"
| "renderValue (JBool b) = (if b then ''true'' else ''false'')"
| "renderValue (JNumber n) = n"
| "renderValue (JString t) = [CHR 0x22] @ t @ [CHR 0x22]"
| "renderValue (JArray xs) = ''['' @ joinWith '', '' (map renderValue xs) @ '']''"
| "renderValue (JObject props) =
     ''{'' @ joinWith '', '' (map (\<lambda>prop. fst prop @ '': '' @ renderValue (snd prop)) props) @ ''}''"

fun compareCodeUnits :: "string \<Rightarrow> string \<Rightarrow> int" where
  \<comment> \<open>The comparison of two texts code unit by code unit, as a collation to run with.\<close>
  "compareCodeUnits [] [] = 0"
| "compareCodeUnits [] (y # ys) = - 1"
| "compareCodeUnits (x # xs) [] = 1"
| "compareCodeUnits (x # xs) (y # ys) =
     (if (of_char x :: nat) < of_char y then - 1
      else if (of_char y :: nat) < of_char x then 1
      else compareCodeUnits xs ys)"

definition scriptedRuntime :: "script \<Rightarrow> world runtime" where
  "scriptedRuntime sc =
     \<lparr> pathResolve = (\<lambda>p. p),
       pathJoin = joinWith ''/'',
       pathBasename = (\<lambda>p. last (splitOn (CHR ''/'') p)),
       pathDirname = (\<lambda>p. joinWith ''/'' (butlast (splitOn (CHR ''/'') p))),
       pathSep = ''/'',
       osTmpdir = ''/tmp'',
       processCwd = ''/proj'',
       rtExistsSync = (\<lambda>p w. map_of w p \<noteq> None),
       rtStatSync = (\<lambda>p w. case map_of w p of
                               None \<Rightarrow> Inl ''ENOENT''
                             | Some k \<Rightarrow> Inr \<lparr> statKind = (if k = IsSymbolicLink then IsDirectory else k),
                                               statSize = 0 \<rparr>),
       rtLstatSync = (\<lambda>p w. case map_of w p of
                                None \<Rightarrow> Inl ''ENOENT''
                              | Some k \<Rightarrow> Inr \<lparr> statKind = k, statSize = 0 \<rparr>),
       rtReaddirSync = (\<lambda>p w. readdirAnswer sc p),
       rtReadFileSync = (\<lambda>p w. readFileAnswer sc p),
       rtMkdirSync = (\<lambda>p w. (Inr (), if map_of w p = None then (p, IsDirectory) # w else w)),
       rtMkdtempSync = (\<lambda>prefix w. (Inr (prefix @ ''XXXXXX''), (prefix @ ''XXXXXX'', IsDirectory) # w)),
       rtWriteFileSync = (\<lambda>p b w. (Inr (), (p, IsFile) # w)),
       rtCpSync = (\<lambda>src dst w. case map_of w src of
                                  None \<Rightarrow> (Inl ''ENOENT'', w)
                                | Some k \<Rightarrow> (Inr (), (dst, k) # w)),
       rtRmSync = (\<lambda>p w. (Inr (), filter (\<lambda>e. fst e \<noteq> p) w)),
       rtRenameSync = (\<lambda>src dst w. case map_of w src of
                                      None \<Rightarrow> (Inl ''ENOENT'', w)
                                    | Some k \<Rightarrow> (Inr (), (dst, k) # filter (\<lambda>e. fst e \<noteq> src) w)),
       rtSymlinkSync = (\<lambda>target link w. (Inr (), (link, IsSymbolicLink) # w)),
       rtExecFileSync = (\<lambda>cmd args w. (execAnswer sc cmd args, w)),
       rtFetch = (\<lambda>url w. (fetchAnswer sc url, w)),
       rtDateNow = (\<lambda>w. (''1700000000000'', w)),
       rtMathRandomHex = (\<lambda>w. (''0.8c3f2a1b9d4e'', w)),
       sha256Hex = (\<lambda>s. ''9f86d081884c7d659a2feaa0c55ad015a3bf4f1b2b0b822cd15d6c15b0f00a08''),
       jsonParse = jsonAnswer sc,
       yamlParse = yamlAnswer sc,
       yamlStringify = renderValue,
       localeCompare = compareCodeUnits \<rparr>"

definition archiveScript :: "read_result list \<Rightarrow> string \<Rightarrow> script" where
  \<comment> \<open>The server answers 200 with the given body; listing the archive prints the given
      text; extraction succeeds and leaves two files, of five and of seven bytes.\<close>
  "archiveScript stream listing =
     \<lparr> fetchAnswer = (\<lambda>url. Inr \<lparr> responseOk = True, responseStatus = 200, responseStatusText = ''OK'',
                                  responseBody = Some stream, responseText = Inl ''body used'',
                                  responseBytes = Inl ''body used'',
                                  responseContentType = Some ''application/gzip'',
                                  responseDigest = None, responseUrl = url \<rparr>),
       execAnswer = (\<lambda>cmd args. if take 1 args = [''-tzf''] then Inr listing else Inr []),
       readdirAnswer = (\<lambda>p. Inr [FileEntry ''SKILL.md'' (Inr 5), FileEntry ''notes.txt'' (Inr 7)]),
       readFileAnswer = (\<lambda>p. Inl ''ENOENT''),
       jsonAnswer = (\<lambda>t. None),
       yamlAnswer = (\<lambda>t. Inl ''not YAML'') \<rparr>"

section \<open>Installer\<close>

datatype InstallMethod = Symlink | Copy

record 'w InstallSkillOptions =
  sourceId :: string
  sourceSkillPath :: string
  storageRoot :: string
  targetSkillsDir :: string
  preferCopy :: "bool option"
  symlinkFn :: "(string \<Rightarrow> string \<Rightarrow> 'w \<Rightarrow> (string + unit) \<times> 'w) option"

text \<open>The field \<open>method\<close> of the result is written \<open>method'\<close>.\<close>

record InstallSkillResult =
  skillName :: string
  storagePath :: string
  installedPath :: string
  method' :: InstallMethod
  changed :: bool
  message :: string

definition tryCatch :: "('w, 'a) prog \<Rightarrow> (exn \<Rightarrow> ('w, 'a) prog) \<Rightarrow> ('w, 'a) prog" where
  \<comment> \<open>\<open>try { m } catch (error) { handler(error) }\<close>\<close>
  "tryCatch m handler s = (case m s of (Inl e, s') \<Rightarrow> handler e s' | (Inr a, s') \<Rightarrow> (Inr a, s'))"

definition sample :: "('w \<Rightarrow> 'a \<times> 'w) \<Rightarrow> ('w, 'a) prog" where
  \<comment> \<open>A runtime call that cannot throw and leaves no trace: the clock, the random source.\<close>
  "sample call s = (case call (fst s) of (a, w') \<Rightarrow> (Inr a, (w', snd s)))"

definition isDirectory :: "'w runtime \<Rightarrow> string \<Rightarrow> 'w \<Rightarrow> bool" where
  \<comment> \<open>\<open>try { return fs.statSync(p).isDirectory(); } catch { return false; }\<close>\<close>
  "isDirectory rt p w = (case rtStatSync rt p w of Inl _ \<Rightarrow> False | Inr st \<Rightarrow> statKind st = IsDirectory)"

definition digestSourceId :: "'w runtime \<Rightarrow> string \<Rightarrow> string" where
  "digestSourceId rt source = take 16 (sha256Hex rt source)"

definition randomSuffix :: "'w runtime \<Rightarrow> ('w, string) prog" where
  \<comment> \<open>\<open>`${Date.now()}-${Math.random().toString(16).slice(2, 10)}`\<close>\<close>
  "randomSuffix rt =
     andThen (sample (rtDateNow rt)) (\<lambda>now.
     andThen (sample (rtMathRandomHex rt)) (\<lambda>hex.
     ret (now @ ''-'' @ take 8 (drop 2 hex))))"

definition removePathIfExists :: "'w runtime \<Rightarrow> string \<Rightarrow> ('w, unit) prog" where
  "removePathIfExists rt targetPath s =
     (if \<not> rtExistsSync rt targetPath (fst s) then ret () s
      else effect (EvRm targetPath) (rtRmSync rt targetPath) s)"

definition replaceDirectoryAtomically :: "'w runtime \<Rightarrow> string \<Rightarrow> string \<Rightarrow> ('w, unit) prog" where
  "replaceDirectoryAtomically rt sourcePath destinationPath =
     (let destinationParent = pathDirname rt destinationPath in
      andThen (mkdirSync rt destinationParent) (\<lambda>_.
      andThen (randomSuffix rt) (\<lambda>suffix.
      let tempPath = pathJoin rt [destinationParent, pathBasename rt destinationPath @ ''.tmp-'' @ suffix] in
      andThen (effect (EvCp sourcePath tempPath) (rtCpSync rt sourcePath tempPath)) (\<lambda>_.
      tryCatch
        (andThen (removePathIfExists rt destinationPath) (\<lambda>_.
         effect (EvRename tempPath destinationPath) (rtRenameSync rt tempPath destinationPath)))
        (\<lambda>error. andThen (removePathIfExists rt tempPath) (\<lambda>_. throw error))))))"

definition replaceSymlinkAtomically ::
  "'w runtime \<Rightarrow> string \<Rightarrow> string \<Rightarrow> (string \<Rightarrow> string \<Rightarrow> 'w \<Rightarrow> (string + unit) \<times> 'w) \<Rightarrow> ('w, unit) prog"
where
  "replaceSymlinkAtomically rt targetPath linkPath symlink =
     (let linkParent = pathDirname rt linkPath in
      andThen (mkdirSync rt linkParent) (\<lambda>_.
      andThen (randomSuffix rt) (\<lambda>suffix.
      let tempLinkPath = pathJoin rt [linkParent, pathBasename rt linkPath @ ''.tmp-link-'' @ suffix] in
      andThen (effect (EvSymlink targetPath tempLinkPath) (symlink targetPath tempLinkPath)) (\<lambda>_.
      tryCatch
        (andThen (removePathIfExists rt linkPath) (\<lambda>_.
         effect (EvRename tempLinkPath linkPath) (rtRenameSync rt tempLinkPath linkPath)))
        (\<lambda>error. andThen (removePathIfExists rt tempLinkPath) (\<lambda>_. throw error))))))"

definition installIntoTarget ::
  "'w runtime \<Rightarrow> string \<Rightarrow> string \<Rightarrow> bool
     \<Rightarrow> (string \<Rightarrow> string \<Rightarrow> 'w \<Rightarrow> (string + unit) \<times> 'w) option \<Rightarrow> ('w, InstallMethod) prog"
where
  "installIntoTarget rt storage installed copyPreferred symlink =
     (if copyPreferred
      then andThen (replaceDirectoryAtomically rt storage installed) (\<lambda>_. ret Copy)
      else tryCatch
             (andThen (replaceSymlinkAtomically rt storage installed
                         (case symlink of Some f \<Rightarrow> f | None \<Rightarrow> rtSymlinkSync rt))
                (\<lambda>_. ret Symlink))
             (\<lambda>_. andThen (replaceDirectoryAtomically rt storage installed) (\<lambda>_. ret Copy)))"

definition installConflictMessage :: "string \<Rightarrow> string" where
  "installConflictMessage installPath =
     ''Install conflict at '' @ installPath @ '': existing path is not a directory or symlink''"

definition assertReplaceableInstallPath :: "'w runtime \<Rightarrow> string \<Rightarrow> ('w, unit) prog" where
  "assertReplaceableInstallPath rt installPath s =
     (if \<not> rtExistsSync rt installPath (fst s) then ret () s
      else andThen (observe (rtLstatSync rt installPath))
             (\<lambda>entry.
                if statKind entry = IsDirectory \<or> statKind entry = IsSymbolicLink then ret ()
                else throw (InstallConflictError (installConflictMessage installPath) installPath)) s)"

definition installSkill :: "'w runtime \<Rightarrow> 'w InstallSkillOptions \<Rightarrow> ('w, InstallSkillResult) prog" where
  "installSkill rt options s =
     (let source = pathResolve rt (sourceSkillPath options);
          storage = pathResolve rt (storageRoot options);
          target = pathResolve rt (targetSkillsDir options)
      in
      if \<not> isDirectory rt source (fst s)
      then throw (InstallConflictError (''Source skill path is not a directory: '' @ source) source) s
      else if rtExistsSync rt target (fst s) \<and> \<not> isDirectory rt target (fst s)
      then throw (InstallConflictError (''Target skills directory must be a directory: '' @ target) target) s
      else
        let name = pathBasename rt source;
            sourceDigest = digestSourceId rt (sourceId options);
            stored = pathJoin rt [storage, sourceDigest, name];
            installed = pathJoin rt [target, name]
        in
        (andThen (assertReplaceableInstallPath rt installed) (\<lambda>_.
         andThen (mkdirSync rt target) (\<lambda>_.
         andThen (replaceDirectoryAtomically rt source stored) (\<lambda>_.
         andThen (installIntoTarget rt stored installed (preferCopy options = Some True) (symlinkFn options))
           (\<lambda>how.
              let action = (if how = Symlink then ''symlinked'' else ''copied'') in
              ret \<lparr> skillName = name,
                    storagePath = stored,
                    installedPath = installed,
                    method' = how,
                    changed = True,
                    message = action @ '' '' @ name @ '' to '' @ installed \<rparr>))))) s)"

subsection \<open>Concrete installs\<close>

definition installWorld :: world where
  "installWorld = [(''/src/alpha'', IsDirectory)]"

definition installOptions :: "world InstallSkillOptions" where
  "installOptions =
     \<lparr> sourceId = ''git:https://example.com/r.git:main:abc'',
       sourceSkillPath = ''/src/alpha'',
       storageRoot = ''/store'',
       targetSkillsDir = ''/proj/.claude/skills'',
       preferCopy = None,
       symlinkFn = None \<rparr>"

definition idleScript :: script where
  "idleScript =
     \<lparr> fetchAnswer = (\<lambda>url. Inl ''offline''),
       execAnswer = (\<lambda>cmd args. Inl None),
       readdirAnswer = (\<lambda>p. Inl ''ENOENT''),
       readFileAnswer = (\<lambda>p. Inl ''ENOENT''),
       jsonAnswer = (\<lambda>t. None),
       yamlAnswer = (\<lambda>t. Inl ''not YAML'') \<rparr>"

section \<open>Sorting with a comparator\<close>

text \<open>
  \<open>Array.prototype.sort\<close> is stable. With a comparator that orders the elements
  consistently, its result is the one of this insertion sort: each element goes before the
  first later-sorted element it does not compare greater than.
\<close>

fun insertBy :: "('a \<Rightarrow> 'a \<Rightarrow> int) \<Rightarrow> 'a \<Rightarrow> 'a list \<Rightarrow> 'a list" where
  "insertBy cmp x [] = [x]"
| "insertBy cmp x (y # ys) = (if cmp x y \<le> 0 then x # y # ys else y # insertBy cmp x ys)"

fun sortBy :: "('a \<Rightarrow> 'a \<Rightarrow> int) \<Rightarrow> 'a list \<Rightarrow> 'a list" where
  "sortBy cmp [] = []"
| "sortBy cmp (x # xs) = insertBy cmp x (sortBy cmp xs)"


section \<open>OCI resolver\<close>

text \<open>
  The options and the result of the OCI resolver have fields named like those of the HTTP
  archive resolver; here they carry the prefix \<open>oci\<close>.
\<close>

datatype ReferenceType = TagReference | DigestReference

record ParsedOciReference =
  registry :: string
  repository :: string
  referenceType :: ReferenceType
  reference :: string

record ResolveOciSourceOptions =
  ociTempRoot :: "string option"
  insecureHttp :: "bool option"

record ResolvedOciSource =
  parsed :: ParsedOciReference
  resolvedDigest :: string
  ociExtractPath :: string
  ociContentPath :: string

definition SKILLET_ARTIFACT_TYPE :: string where
  "SKILLET_ARTIFACT_TYPE = ''application/vnd.skillet.skill.v1+tar''"

fun indexOfChar :: "char \<Rightarrow> string \<Rightarrow> nat option" where
  \<comment> \<open>\<open>s.indexOf(c)\<close>, \<open>None\<close> for \<open>-1\<close>\<close>
  "indexOfChar c [] = None"
| "indexOfChar c (x # xs) = (if x = c then Some 0 else map_option Suc (indexOfChar c xs))"

definition lastIndexOfChar :: "char \<Rightarrow> string \<Rightarrow> nat option" where
  \<comment> \<open>\<open>s.lastIndexOf(c)\<close>, \<open>None\<close> for \<open>-1\<close>\<close>
  "lastIndexOfChar c s =
     (case indexOfChar c (rev s) of None \<Rightarrow> None | Some i \<Rightarrow> Some (length s - 1 - i))"

definition parseOciReference :: "string \<Rightarrow> exn + ParsedOciReference" where
  "parseOciReference source =
     (let trimmed = trim source in
      if \<not> startsWith trimmed ''oci://'' then Inl (OciResolveError ReferenceWithoutScheme)
      else
        let withoutScheme = drop (length ''oci://'') trimmed in
        (case indexOfChar (CHR ''/'') withoutScheme of
           None \<Rightarrow> Inl (OciResolveError (InvalidReference source))
         | Some slashIndex \<Rightarrow>
             if slashIndex = 0 then Inl (OciResolveError (InvalidReference source))
             else
               let registryPart = take slashIndex withoutScheme;
                   remainder = drop (slashIndex + 1) withoutScheme
               in
               if registryPart = [] \<or> remainder = [] then Inl (OciResolveError (InvalidReference source))
               else if CHR ''@'' \<in> set remainder
               then (case take 2 (splitOn (CHR ''@'') remainder) of
                       [repositoryPart, digest] \<Rightarrow>
                         if repositoryPart = [] \<or> digest = []
                         then Inl (OciResolveError (InvalidDigestReference source))
                         else Inr \<lparr> registry = registryPart, repository = repositoryPart,
                                    referenceType = DigestReference, reference = digest \<rparr>
                     | _ \<Rightarrow> Inl (OciResolveError (InvalidDigestReference source)))
               else (case lastIndexOfChar (CHR '':'') remainder of
                       None \<Rightarrow> Inl (OciResolveError (ReferenceWithoutTag source))
                     | Some tagIndex \<Rightarrow>
                         if tagIndex = 0 \<or> tagIndex = length remainder - 1
                         then Inl (OciResolveError (ReferenceWithoutTag source))
                         else Inr \<lparr> registry = registryPart, repository = take tagIndex remainder,
                                    referenceType = TagReference,
                                    reference = drop (tagIndex + 1) remainder \<rparr>)))"

definition isLocalRegistry :: "string \<Rightarrow> bool" where
  "isLocalRegistry r = (startsWith r ''localhost'' \<or> startsWith r ''127.0.0.1'')"

definition fetchWithErrors :: "'w runtime \<Rightarrow> string \<Rightarrow> ('w, http_response) prog" where
  "fetchWithErrors rt url =
     andThen (effectCatch (EvFetch url) (rtFetch rt url) (\<lambda>m. OciResolveError (OciRequestThrew url m)))
       (\<lambda>response.
          if \<not> responseOk response
          then throw (OciResolveError
                        (OciRequestStatus (responseStatus response) (responseStatusText response) url))
          else ret response)"

definition runTar :: "'w runtime \<Rightarrow> string list \<Rightarrow> string \<Rightarrow> ('w, string) prog" where
  "runTar rt args errorPrefix =
     andThen
       (effectCatch (EvExec ''tar'' args) (rtExecFileSync rt ''tar'' args)
          (\<lambda>err. let stderr = (case err of Some t \<Rightarrow> trim t | None \<Rightarrow> []);
                      details = (if stderr \<noteq> [] then '': '' @ stderr else [])
                  in OciResolveError (TarFailed (errorPrefix @ details))))
       (\<lambda>out. ret (trim out))"

definition listTarEntries :: "'w runtime \<Rightarrow> string \<Rightarrow> ('w, string list) prog" where
  "listTarEntries rt path =
     andThen (runTar rt [''-tf'', path] ''Failed to list OCI tar entries'')
       (\<lambda>output. ret (entryLines output))"

fun scanForSkills ::
  "'w runtime \<Rightarrow> string \<Rightarrow> fs_tree list \<Rightarrow> (string \<times> (string + fs_tree list)) list \<Rightarrow> string list
     \<Rightarrow> (string \<times> (string + fs_tree list)) list \<times> string list"
where
  \<comment> \<open>The inner \<open>for\<close> loop of \<open>findSkillDirectories\<close> over the entries of \<open>current\<close>:
      a directory is pushed with its path, a file named \<open>SKILL.md\<close> adds the directory
      of its path to the set, kept in insertion order.\<close>
  "scanForSkills rt current [] stack found = (stack, found)"
| "scanForSkills rt current (DirEntry n sub # es) stack found =
     scanForSkills rt current es ((pathJoin rt [current, n], Inr sub) # stack) found"
| "scanForSkills rt current (UnreadableDirEntry n m # es) stack found =
     scanForSkills rt current es ((pathJoin rt [current, n], Inl m) # stack) found"
| "scanForSkills rt current (FileEntry n sz # es) stack found =
     (if n = ''SKILL.md''
      then let dir = pathDirname rt (pathJoin rt [current, n]) in
           scanForSkills rt current es stack (if dir \<in> set found then found else found @ [dir])
      else scanForSkills rt current es stack found)"
| "scanForSkills rt current (SymlinkEntry n # es) stack found = scanForSkills rt current es stack found"
| "scanForSkills rt current (OtherEntry n # es) stack found = scanForSkills rt current es stack found"

lemma scanForSkills_weight:
  "scanForSkills rt current es stack found = (stack', found') \<Longrightarrow>
   sum_list (map (pendingWeight \<circ> snd) stack')
     \<le> sum_list (map treeWeight es) + sum_list (map (pendingWeight \<circ> snd) stack)"
  by (induction rt current es stack found rule: scanForSkills.induct) (auto simp: Let_def split: if_splits)

function findSkillWalk ::
  "'w runtime \<Rightarrow> (string \<times> (string + fs_tree list)) list \<Rightarrow> string list \<Rightarrow> exn + string list"
where
  "findSkillWalk rt [] found = Inr found"
| "findSkillWalk rt ((current, Inl m) # stack) found = Inl (NodeError m)"
| "findSkillWalk rt ((current, Inr es) # stack) found =
     (case scanForSkills rt current es stack found of
        (stack', found') \<Rightarrow> findSkillWalk rt stack' found')"
  by pat_completeness auto
termination
proof (relation "measure (\<lambda>(rt, stack, found). sum_list (map (pendingWeight \<circ> snd) stack))")
  show "wf (measure (\<lambda>(rt :: 'w runtime, stack, found :: string list).
              sum_list (map (pendingWeight \<circ> snd) stack)))"
    by simp
next
  fix rt :: "'w runtime" and current es stack found x y
  assume "(x, y) = scanForSkills rt current es stack found"
  then have "scanForSkills rt current es stack found = (x, y)" by simp
  from scanForSkills_weight [OF this]
  show "((rt, x, y), rt, (current, Inr es) # stack, found)
          \<in> measure (\<lambda>(rt, stack, found). sum_list (map (pendingWeight \<circ> snd) stack))"
    by simp
qed

definition findSkillDirectories :: "'w runtime \<Rightarrow> string \<Rightarrow> ('w, string list) prog" where
  "findSkillDirectories rt root s =
     (case findSkillWalk rt [(root, rtReaddirSync rt root (fst s))] [] of
        Inl e \<Rightarrow> (Inl e, s)
      | Inr found \<Rightarrow> (Inr (sortBy (localeCompare rt) found), s))"

definition digestManifest :: "'w runtime \<Rightarrow> string \<Rightarrow> string" where
  "digestManifest rt manifestJson = ''sha256:'' @ sha256Hex rt manifestJson"

definition resolveOciSource ::
  "'w runtime \<Rightarrow> string \<Rightarrow> ResolveOciSourceOptions \<Rightarrow> ('w, ResolvedOciSource) prog"
where
  "resolveOciSource rt source options =
     andThen (liftE (parseOciReference source)) (\<lambda>ref.
     let scheme = (if insecureHttp options = Some True \<or> isLocalRegistry (registry ref)
                   then ''http'' else ''https'');
         root = pathResolve rt (case ociTempRoot options of Some t \<Rightarrow> t | None \<Rightarrow> osTmpdir rt)
     in
     andThen (mkdirSync rt root) (\<lambda>_.
     andThen (mkdtempSync rt (pathJoin rt [root, ''skillet-oci-''])) (\<lambda>workDir.
     let manifestUrl = scheme @ ''://'' @ registry ref @ ''/v2/'' @ repository ref
                         @ ''/manifests/'' @ reference ref
     in
     andThen (fetchWithErrors rt manifestUrl) (\<lambda>manifestResponse.
     andThen (observe (\<lambda>_. responseText manifestResponse)) (\<lambda>manifestText.
     case jsonParse rt manifestText of
       None \<Rightarrow> throw (OciResolveError ManifestNotJson)
     | Some manifest \<Rightarrow>
     (case manifest of
        JObject manifestRecord \<Rightarrow>
          let artifactType = map_of manifestRecord ''artifactType'' in
          if artifactType \<noteq> Some (JString SKILLET_ARTIFACT_TYPE)
          then throw (OciResolveError (UnsupportedArtifactType artifactType))
          else
          (case map_of manifestRecord ''layers'' of
             Some (JArray (firstLayer # _)) \<Rightarrow>
               (case firstLayer of
                  JObject layerRecord \<Rightarrow>
                    (case map_of layerRecord ''digest'' of
                       Some (JString layerDigest) \<Rightarrow>
                         if \<not> startsWith layerDigest ''sha256:''
                         then throw (OciResolveError InvalidLayerDigest)
                         else
                         let blobUrl = scheme @ ''://'' @ registry ref @ ''/v2/'' @ repository ref
                                         @ ''/blobs/'' @ layerDigest
                         in
                         andThen (fetchWithErrors rt blobUrl) (\<lambda>blobResponse.
                         andThen (observe (\<lambda>_. responseBytes blobResponse)) (\<lambda>blobBuffer.
                         let archive = pathJoin rt [workDir, ''layer.tar''] in
                         andThen (writeFileSync rt archive blobBuffer) (\<lambda>_.
                         andThen (listTarEntries rt archive) (\<lambda>tarEntries.
                         andThen (liftE (validateTarEntries tarEntries)) (\<lambda>_.
                         let extractTo = pathJoin rt [workDir, ''extract''] in
                         andThen (mkdirSync rt extractTo) (\<lambda>_.
                         andThen (runTar rt [''-xf'', archive, ''-C'', extractTo]
                                    ''Failed to extract OCI layer tar'') (\<lambda>_.
                         andThen (findSkillDirectories rt extractTo) (\<lambda>skillPaths.
                         if length skillPaths \<noteq> 1
                         then throw (OciResolveError (NotExactlyOneSkill (length skillPaths)))
                         else
                         ret \<lparr> parsed = ref,
                               resolvedDigest =
                                 (if referenceType ref = DigestReference then reference ref
                                  else (case responseDigest manifestResponse of
                                          Some d \<Rightarrow> d
                                        | None \<Rightarrow> digestManifest rt manifestText)),
                               ociExtractPath = extractTo,
                               ociContentPath = skillPaths ! 0 \<rparr>))))))))
                     | _ \<Rightarrow> throw (OciResolveError InvalidLayerDigest))
                | _ \<Rightarrow> throw (OciResolveError InvalidLayerEntry))
           | _ \<Rightarrow> throw (OciResolveError ManifestWithoutLayers))
      | _ \<Rightarrow> throw (OciResolveError ManifestNotObject)))))))"

subsection \<open>A registry that serves a manifest\<close>

definition ociScript :: "json \<Rightarrow> script" where
  \<comment> \<open>Every request is answered 200 with the same text, which parses to the given manifest.\<close>
  "ociScript manifest =
     \<lparr> fetchAnswer = (\<lambda>url. Inr \<lparr> responseOk = True, responseStatus = 200, responseStatusText = ''OK'',
                                  responseBody = None, responseText = Inr ''{manifest}'',
                                  responseBytes = Inr [],
                                  responseContentType = Some ''application/vnd.oci.image.manifest.v1+json'',
                                  responseDigest = None, responseUrl = url \<rparr>),
       execAnswer = (\<lambda>cmd args. Inr []),
       readdirAnswer = (\<lambda>p. Inr [FileEntry ''SKILL.md'' (Inr 5)]),
       readFileAnswer = (\<lambda>p. Inl ''ENOENT''),
       jsonAnswer = (\<lambda>t. Some manifest),
       yamlAnswer = (\<lambda>t. Inl ''not YAML'') \<rparr>"

definition imageManifest :: json where
  "imageManifest =
     JObject [(''schemaVersion'', JNumber ''2''),
              (''artifactType'', JString ''application/vnd.oci.image.config.v1+json''),
              (''layers'', JArray [JObject [(''digest'', JString ''sha256:0123abcd'')]])]"

section \<open>Skill descriptor parser: frontmatter fields\<close>

text \<open>
  The body of a parsed skill file is the field \<open>body\<close> of the source; it is written
  \<open>fileBody\<close> here, \<open>body\<close> being taken by the result of \<open>splitFrontmatter\<close>.
\<close>

record SkillFrontmatter =
  name :: string
  description :: string
  license :: "string option"
  compatibility :: "string option"
  metadata :: "(string \<times> (string + bool)) list option"
  allowedTools :: "string option"

record SkillFile =
  frontmatter :: SkillFrontmatter
  fileBody :: string
  isInternal :: bool

record ParseOptions =
  path :: "string option"
  expectedName :: "string option"

definition parseError :: "string \<Rightarrow> string option \<Rightarrow> exn + 'a" where
  \<comment> \<open>\<open>throw new SkillParseError(message, field)\<close>\<close>
  "parseError msg field = Inl (ThrownSkillParseError (SkillParseError msg field))"

definition readStringField :: "(string \<times> json) list \<Rightarrow> string \<Rightarrow> bool \<Rightarrow> exn + string option" where
  "readStringField props key required =
     (case map_of props key of
        Some (JString v) \<Rightarrow>
          if required \<and> length (trim v) = 0
          then parseError (''Field '' @ key @ '' must not be empty'') (Some key)
          else Inr (Some v)
      | Some JNull \<Rightarrow>
          if required then parseError (''Missing required field: '' @ key) (Some key) else Inr None
      | None \<Rightarrow>
          if required then parseError (''Missing required field: '' @ key) (Some key) else Inr None
      | Some _ \<Rightarrow> parseError (''Field '' @ key @ '' must be a string'') (Some key))"

fun strictlyEqual :: "json \<Rightarrow> json \<Rightarrow> bool" where
  \<comment> \<open>\<open>a === b\<close> on two parsed values: primitives by value, \<open>NaN\<close> differing from itself,
      while two arrays or two objects of the parsed document are two different objects.\<close>
  "strictlyEqual JNull JNull = True"
| "strictlyEqual (JBool a) (JBool b) = (a = b)"
| "strictlyEqual (JNumber a) (JNumber b) = (a = b \<and> a \<noteq> ''NaN'')"
| "strictlyEqual (JString a) (JString b) = (a = b)"
| "strictlyEqual _ _ = False"

definition readAllowedTools :: "(string \<times> json) list \<Rightarrow> exn + string option" where
  "readAllowedTools props =
     (let legacy = map_of props ''allowedTools'';
          dashed = map_of props ''allowed-tools''
      in
      if legacy \<noteq> None \<and> dashed \<noteq> None
         \<and> \<not> (case (legacy, dashed) of (Some a, Some b) \<Rightarrow> strictlyEqual a b | _ \<Rightarrow> False)
      then parseError ''Use only one of allowedTools or allowed-tools'' (Some ''allowed-tools'')
      else
        (case (case dashed of None \<Rightarrow> legacy | Some JNull \<Rightarrow> legacy | Some d \<Rightarrow> Some d) of
           None \<Rightarrow> Inr None
         | Some JNull \<Rightarrow> Inr None
         | Some (JString v) \<Rightarrow> Inr (Some v)
         | Some _ \<Rightarrow> parseError ''allowed-tools must be a string'' (Some ''allowed-tools'')))"

fun normalizeEntries :: "(string \<times> json) list \<Rightarrow> exn + (string \<times> (string + bool)) list" where
  \<comment> \<open>The loop over \<open>Object.entries(record)\<close> of \<open>normalizeMetadata\<close>.\<close>
  "normalizeEntries [] = Inr []"
| "normalizeEntries ((key, v) # rest) =
     (if key = ''internal''
      then (case v of
              JBool b \<Rightarrow>
                (case normalizeEntries rest of
                   Inl e \<Rightarrow> Inl e
                 | Inr normalized \<Rightarrow> Inr ((key, Inr b) # normalized))
            | _ \<Rightarrow> parseError ''metadata.internal must be a boolean'' (Some ''metadata.internal''))
      else (case v of
              JString t \<Rightarrow>
                (case normalizeEntries rest of
                   Inl e \<Rightarrow> Inl e
                 | Inr normalized \<Rightarrow> Inr ((key, Inl t) # normalized))
            | _ \<Rightarrow> parseError (''metadata.'' @ key @ '' must be a string'') (Some (''metadata.'' @ key))))"

definition normalizeMetadata :: "json option \<Rightarrow> exn + (string \<times> (string + bool)) list option" where
  "normalizeMetadata meta =
     (case meta of
        None \<Rightarrow> Inr None
      | Some JNull \<Rightarrow> Inr None
      | Some (JObject entries) \<Rightarrow>
          (case normalizeEntries entries of Inl e \<Rightarrow> Inl e | Inr normalized \<Rightarrow> Inr (Some normalized))
      | Some _ \<Rightarrow> parseError ''metadata must be a mapping'' (Some ''metadata''))"

definition isLowerAlnum :: "char \<Rightarrow> bool" where
  "isLowerAlnum c =
     (let n = (of_char c :: nat) in (0x61 \<le> n \<and> n \<le> 0x7A) \<or> (0x30 \<le> n \<and> n \<le> 0x39))"

definition matchesNamePattern :: "string \<Rightarrow> bool" where
  \<comment> \<open>\<open>/^[a-z0-9]+(?:-[a-z0-9]+)*$/.test(s)\<close>: segments between hyphens, none of them empty\<close>
  "matchesNamePattern s = list_all (\<lambda>seg. seg \<noteq> [] \<and> list_all isLowerAlnum seg) (splitOn (CHR ''-'') s)"

definition validateName :: "string \<Rightarrow> string option \<Rightarrow> exn + unit" where
  "validateName skill expected =
     (if length skill < 1 \<or> length skill > 64
      then parseError ''name must be 1-64 characters'' (Some ''name'')
      else if \<not> matchesNamePattern skill
      then parseError ''name must be lowercase alphanumeric with optional single hyphens'' (Some ''name'')
      else (case expected of
              Some e \<Rightarrow>
                if e \<noteq> [] \<and> skill \<noteq> e
                then parseError (''name must match parent directory ('' @ e @ '')'') (Some ''name'')
                else Inr ()
            | None \<Rightarrow> Inr ()))"

definition validateDescription :: "string \<Rightarrow> exn + unit" where
  "validateDescription d =
     (if length d < 1 \<or> length d > 1024
      then parseError ''description must be 1-1024 characters'' (Some ''description'')
      else Inr ())"

definition validateCompatibility :: "string option \<Rightarrow> exn + unit" where
  "validateCompatibility c =
     (case c of
        None \<Rightarrow> Inr ()
      | Some t \<Rightarrow>
          if length t < 1 \<or> length t > 500
          then parseError ''compatibility must be 1-500 characters'' (Some ''compatibility'')
          else Inr ())"

definition deriveExpectedName :: "'w runtime \<Rightarrow> string option \<Rightarrow> string option" where
  "deriveExpectedName rt filePath =
     (case filePath of
        None \<Rightarrow> None
      | Some p \<Rightarrow>
          if p = [] then None
          else
            let dirName = pathBasename rt (pathDirname rt p) in
            if dirName = [] \<or> dirName = pathSep rt then None else Some dirName)"

definition bindE :: "exn + 'a \<Rightarrow> ('a \<Rightarrow> exn + 'b) \<Rightarrow> exn + 'b" where
  \<comment> \<open>Sequencing of two steps that touch neither the world nor the trace.\<close>
  "bindE r f = (case r of Inl e \<Rightarrow> Inl e | Inr a \<Rightarrow> f a)"

definition parseSkillMarkdown :: "'w runtime \<Rightarrow> string \<Rightarrow> ParseOptions \<Rightarrow> exn + SkillFile" where
  "parseSkillMarkdown rt markdown options =
     (case splitFrontmatter markdown of
        Inl e \<Rightarrow> Inl (ThrownSkillParseError e)
      | Inr parts \<Rightarrow>
     (case yamlParse rt (frontmatterText parts) of
        Inl m \<Rightarrow> Inl (NodeError m)
      | Inr (JObject props) \<Rightarrow>
          bindE (readStringField props ''name'' True) (\<lambda>nameField.
          bindE (readStringField props ''description'' True) (\<lambda>descriptionField.
          bindE (readStringField props ''license'' False) (\<lambda>licenseField.
          bindE (readStringField props ''compatibility'' False) (\<lambda>compatibilityField.
          bindE (readAllowedTools props) (\<lambda>tools.
          bindE (normalizeMetadata (map_of props ''metadata'')) (\<lambda>meta.
          let expected = (case expectedName options of
                            Some e \<Rightarrow> Some e
                          | None \<Rightarrow> deriveExpectedName rt (path options))
          in
          (case (nameField, descriptionField) of
             (Some skill, Some d) \<Rightarrow>
               bindE (validateName skill expected) (\<lambda>_.
               bindE (validateDescription d) (\<lambda>_.
               bindE (validateCompatibility compatibilityField) (\<lambda>_.
               Inr \<lparr> frontmatter = \<lparr> name = skill, description = d, license = licenseField,
                                     compatibility = compatibilityField, metadata = meta,
                                     allowedTools = tools \<rparr>,
                     fileBody = body parts,
                     isInternal = (case meta of
                                     Some entries \<Rightarrow> map_of entries ''internal'' = Some (Inr True)
                                   | None \<Rightarrow> False) \<rparr>)))
           | _ \<Rightarrow> parseError ''Missing required field: name'' (Some ''name''))))))))
      | Inr _ \<Rightarrow> parseError ''Frontmatter must be a YAML object'' None))"

section \<open>Messages of the errors\<close>

function showNat :: "nat \<Rightarrow> string" where
  \<comment> \<open>A natural number in a template literal: its decimal digits.\<close>
  "showNat n = (if n < 10 then [char_of (48 + n)] else showNat (n div 10) @ [char_of (48 + n mod 10)])"
  by pat_completeness auto
termination
  by (relation "measure id") auto

fun jsString :: "json \<Rightarrow> string" where
  \<comment> \<open>\<open>String(value)\<close>\<close>
  "jsString JNull = ''null''"
| "jsString (JBool b) = (if b then ''true'' else ''false'')"
| "jsString (JNumber n) = n"
| "jsString (JString t) = t"
| "jsString (JArray xs) = joinWith '','' (map (\<lambda>x. if x = JNull then [] else jsString x) xs)"
| "jsString (JObject props) = ''[object Object]''"

fun archiveMessage :: "archive_error \<Rightarrow> string" where
  "archiveMessage (FetchFailed m) = ''Failed to fetch archive: '' @ m"
| "archiveMessage (RequestFailed code reason) =
     ''HTTP archive request failed: '' @ showNat code @ '' '' @ reason"
| "archiveMessage NoBody = ''HTTP archive response did not include a body''"
| "archiveMessage (DownloadExceedsLimit n) = ''Archive download exceeds limit ('' @ showNat n @ '' bytes)''"
| "archiveMessage UndetectableFormat = ''Unable to detect archive format (expected .zip or .tar.gz)''"
| "archiveMessage (CommandFailed m) = m"
| "archiveMessage (EntryCountExceedsLimit n) = ''Archive entry count exceeds limit ('' @ showNat n @ '')''"
| "archiveMessage (AbsoluteEntryPath e) = ''Archive entry uses absolute path: '' @ e"
| "archiveMessage (EntryEscapesRoot e) = ''Archive entry escapes extraction root: '' @ e"
| "archiveMessage (ExtractedSizeExceedsLimit n) =
     ''Extracted archive size exceeds limit ('' @ showNat n @ '' bytes)''"

fun ociMessage :: "oci_error \<Rightarrow> string" where
  "ociMessage ReferenceWithoutScheme = ''OCI reference must start with oci://''"
| "ociMessage (InvalidReference s) = ''Invalid OCI reference: '' @ s"
| "ociMessage (InvalidDigestReference s) = ''Invalid OCI digest reference: '' @ s"
| "ociMessage (ReferenceWithoutTag s) = ''OCI tag reference must include :tag or @digest: '' @ s"
| "ociMessage (OciRequestThrew address m) = ''OCI request failed for '' @ address @ '': '' @ m"
| "ociMessage (OciRequestStatus code reason address) =
     ''OCI request failed ('' @ showNat code @ '' '' @ reason @ '') for '' @ address"
| "ociMessage ManifestNotJson = ''Manifest response was not valid JSON''"
| "ociMessage ManifestNotObject = ''Manifest body must be a JSON object''"
| "ociMessage (UnsupportedArtifactType v) =
     ''Unsupported OCI artifact type: ''
       @ (case v of None \<Rightarrow> ''missing'' | Some JNull \<Rightarrow> ''missing'' | Some x \<Rightarrow> jsString x)"
| "ociMessage ManifestWithoutLayers = ''Manifest must include at least one layer''"
| "ociMessage InvalidLayerEntry = ''Manifest layer entry is invalid''"
| "ociMessage InvalidLayerDigest = ''Manifest layer digest is invalid''"
| "ociMessage (TarFailed m) = m"
| "ociMessage (UnsafeAbsolutePath e) = ''Unsafe absolute path in OCI layer: '' @ e"
| "ociMessage (UnsafeTraversalPath e) = ''Unsafe traversal path in OCI layer: '' @ e"
| "ociMessage (NotExactlyOneSkill n) = ''OCI artifact must contain exactly one skill, found '' @ showNat n"

fun errorMessage :: "exn \<Rightarrow> string" where
  \<comment> \<open>\<open>error instanceof Error ? error.message : String(error)\<close>\<close>
  "errorMessage (ArchiveResolveError e) = archiveMessage e"
| "errorMessage (OciResolveError e) = ociMessage e"
| "errorMessage (ThrownSkillParseError (SkillParseError m field)) = m"
| "errorMessage (InstallConflictError m p) = m"
| "errorMessage (PlainError m) = m"
| "errorMessage (NodeError m) = m"


section \<open>Lock sources and the check for updates\<close>

text \<open>
  \<open>LockfileSource\<close> of the generator and \<open>LockfileSourceEntry\<close> of the check are the same
  type. Its first five fields, the provenance of a source, are also what the generator
  keeps for each group (\<open>Omit<LockfileSource, "skills" | "agents">\<close>).
\<close>

record SourceIdentity =
  type :: string
  url :: string
  ref :: "string option"
  digest :: "string option"
  installMethod :: string

record LockfileSource = SourceIdentity +
  skills :: "string list"
  agents :: "string list"

type_synonym LockfileSourceEntry = LockfileSource

datatype CheckStatus = UpToDate | Outdated | Unsupported | CheckFailed

text \<open>
  The result of \<open>checkSource\<close>; its field \<open>message\<close> is written \<open>statusMessage\<close>. The
  fields of \<open>CheckResult\<close> that repeat these names carry the prefix \<open>result\<close>, and its
  field \<open>source\<close> is written \<open>checkedSource\<close>.
\<close>

record SourceStatus =
  status :: CheckStatus
  latestDigest :: "string option"
  statusMessage :: "string option"

record CheckResult =
  checkedSource :: LockfileSource
  skill :: string
  resultStatus :: CheckStatus
  currentDigest :: "string option"
  resultLatestDigest :: "string option"
  resultMessage :: "string option"

definition runGit :: "'w runtime \<Rightarrow> string list \<Rightarrow> ('w, string) prog" where
  "runGit rt args =
     andThen
       (effectCatch (EvExec ''git'' args) (rtExecFileSync rt ''git'' args)
          (\<lambda>err. let stderr = (case err of Some t \<Rightarrow> trim t | None \<Rightarrow> []);
                      details = (if stderr \<noteq> [] then '': '' @ stderr else [])
                  in PlainError (''git '' @ joinWith '' '' args @ '' failed'' @ details)))
       (\<lambda>out. ret (trim out))"

definition getLatestGitDigest :: "'w runtime \<Rightarrow> string \<Rightarrow> string option \<Rightarrow> ('w, string) prog" where
  "getLatestGitDigest rt remote pinned =
     (let requestedRef = (case pinned of
                            Some r \<Rightarrow> if length r > 0 then r else ''HEAD''
                          | None \<Rightarrow> ''HEAD'')
      in
      andThen (runGit rt [''ls-remote'', remote, requestedRef]) (\<lambda>output.
      case find (\<lambda>line. length (trim line) > 0) (splitLines output) of
        None \<Rightarrow>
          throw (PlainError (''Unable to resolve latest git digest for '' @ remote
                               @ '' ('' @ requestedRef @ '')''))
      | Some firstLine \<Rightarrow>
          let hash = takeWhile (\<lambda>c. \<not> isJsSpace c) firstLine in
          if hash = [] \<or> length hash < 40
          then throw (PlainError (''Unexpected git ls-remote output for '' @ remote))
          else ret hash))"

definition getLatestOciDigest :: "'w runtime \<Rightarrow> string \<Rightarrow> ('w, string) prog" where
  "getLatestOciDigest rt source =
     andThen (liftE (parseOciReference source)) (\<lambda>parsedRef.
     if referenceType parsedRef = DigestReference then ret (reference parsedRef)
     else
       let scheme = (if startsWith (registry parsedRef) ''localhost''
                        \<or> startsWith (registry parsedRef) ''127.0.0.1''
                     then ''http'' else ''https'');
           address = scheme @ ''://'' @ registry parsedRef @ ''/v2/'' @ repository parsedRef
                       @ ''/manifests/'' @ reference parsedRef
       in
       andThen (effect (EvFetch address) (rtFetch rt address)) (\<lambda>response.
       if \<not> responseOk response
       then throw (PlainError (''OCI manifest request failed: '' @ showNat (responseStatus response)
                                 @ '' '' @ responseStatusText response))
       else
         (case responseDigest response of
            Some headerDigest \<Rightarrow>
              if headerDigest \<noteq> [] then ret headerDigest
              else andThen (observe (\<lambda>_. responseText response))
                     (\<lambda>bodyText. ret (''sha256:'' @ sha256Hex rt bodyText))
          | None \<Rightarrow>
              andThen (observe (\<lambda>_. responseText response))
                (\<lambda>bodyText. ret (''sha256:'' @ sha256Hex rt bodyText)))))"

definition digestRecorded :: "string option \<Rightarrow> bool" where
  \<comment> \<open>the truthiness of \<open>source.digest\<close>: present and not the empty string\<close>
  "digestRecorded d = (case d of Some t \<Rightarrow> t \<noteq> [] | None \<Rightarrow> False)"

definition checkSource :: "'w runtime \<Rightarrow> LockfileSource \<Rightarrow> ('w, SourceStatus) prog" where
  "checkSource rt source =
     (if type source = ''git''
      then tryCatch
             (andThen (getLatestGitDigest rt (url source) (ref source)) (\<lambda>latest.
                if digestRecorded (digest source) \<and> Some latest \<noteq> digest source
                then ret \<lparr> status = Outdated, latestDigest = Some latest, statusMessage = None \<rparr>
                else ret \<lparr> status = UpToDate, latestDigest = Some latest, statusMessage = None \<rparr>))
             (\<lambda>error. ret \<lparr> status = CheckFailed, latestDigest = None,
                             statusMessage = Some (errorMessage error) \<rparr>)
      else if type source = ''oci''
      then tryCatch
             (andThen (getLatestOciDigest rt (url source)) (\<lambda>latest.
                if digestRecorded (digest source) \<and> Some latest \<noteq> digest source
                then ret \<lparr> status = Outdated, latestDigest = Some latest, statusMessage = None \<rparr>
                else ret \<lparr> status = UpToDate, latestDigest = Some latest, statusMessage = None \<rparr>))
             (\<lambda>error. ret \<lparr> status = CheckFailed, latestDigest = None,
                             statusMessage = Some (errorMessage error) \<rparr>)
      else ret \<lparr> status = Unsupported, latestDigest = None,
                 statusMessage = Some (''Source type '' @ [CHR 0x27] @ type source @ [CHR 0x27]
                                         @ '' is not checked for updates'') \<rparr>)"

fun collectLoop :: "'w runtime \<Rightarrow> LockfileSource list \<Rightarrow> CheckResult list \<Rightarrow> ('w, CheckResult list) prog" where
  \<comment> \<open>\<open>for (const source of sources)\<close> of \<open>collectCheckResults\<close>\<close>
  "collectLoop rt [] results s = (Inr results, s)"
| "collectLoop rt (source # rest) results s =
     (case checkSource rt source s of
        (Inl e, s') \<Rightarrow> (Inl e, s')
      | (Inr outcome, s') \<Rightarrow>
          collectLoop rt rest
            (results @ map (\<lambda>sk. \<lparr> checkedSource = source, skill = sk, resultStatus = status outcome,
                                    currentDigest = digest source,
                                    resultLatestDigest = latestDigest outcome,
                                    resultMessage = statusMessage outcome \<rparr>)
                         (skills source))
            s')"

definition collectCheckResults :: "'w runtime \<Rightarrow> LockfileSource list \<Rightarrow> ('w, CheckResult list) prog" where
  "collectCheckResults rt entries =
     andThen (collectLoop rt entries [])
       (\<lambda>results. ret (sortBy (\<lambda>left right. localeCompare rt (skill left) (skill right)) results))"

subsection \<open>A remote that answers ls-remote\<close>

definition gitScript :: "string option + string \<Rightarrow> script" where
  \<comment> \<open>\<open>git\<close> ends as given, printing a text or failing with what it wrote to the standard
      error; every other request fails.\<close>
  "gitScript answer =
     \<lparr> fetchAnswer = (\<lambda>address. Inl ''offline''),
       execAnswer = (\<lambda>cmd args. if cmd = ''git'' then answer else Inl None),
       readdirAnswer = (\<lambda>p. Inl ''ENOENT''),
       readFileAnswer = (\<lambda>p. Inl ''ENOENT''),
       jsonAnswer = (\<lambda>t. None),
       yamlAnswer = (\<lambda>t. Inl ''not YAML'') \<rparr>"

definition upstreamHead :: string where
  "upstreamHead = ''4b825dc642cb6eb9a060e54bf8d69288fbee4904''"

definition unpinnedSource :: LockfileSource where
  "unpinnedSource =
     \<lparr> type = ''git'', url = ''https://example.com/skills.git'', ref = None, digest = None,
       installMethod = ''symlink'', skills = [''alpha''], agents = [''claude''] \<rparr>"

definition staleSource :: LockfileSource where
  "staleSource =
     \<lparr> type = ''git'', url = ''https://example.com/skills.git'', ref = Some ''main'',
       digest = Some ''0000000000000000000000000000000000000000'',
       installMethod = ''symlink'', skills = [''alpha''], agents = [''claude''] \<rparr>"

section \<open>Lockfile generator\<close>

datatype Scope = ProjectScope | GlobalScope

record GenerateLockfileOptions =
  scope :: Scope
  cwd :: "string option"
  homeDir :: "string option"

record LockfileDocument =
  version :: nat
  sources :: "LockfileSource list"

record GenerateLockfileResult =
  outputPath :: string
  yaml :: string
  lockfile :: LockfileDocument

definition SOURCE_METADATA_FILENAME :: string where
  "SOURCE_METADATA_FILENAME = ''.skillet-source.json''"

definition AGENT_SKILL_DIRS :: "(string \<times> string) list" where
  \<comment> \<open>each agent with its \<open>relativePath\<close>\<close>
  "AGENT_SKILL_DIRS =
     [(''claude'', ''.claude/skills''),
      (''codex'', ''.codex/skills''),
      (''opencode'', ''.opencode/skills''),
      (''cursor'', ''.cursor/skills''),
      (''windsurf'', ''.windsurf/skills'')]"

text \<open>
  The fields of \<open>SourceMetadata\<close> carry the prefix \<open>meta\<close>. A group of the map
  \<open>groupedSources\<close> holds its two sets as lists without repetition, in insertion order,
  and the map itself is the list of its entries in insertion order.
\<close>

record SourceMetadata =
  metaType :: "string option"
  metaUrl :: "string option"
  metaRef :: "string option"
  metaDigest :: "string option"
  metaInstallMethod :: "string option"

record SourceGroup =
  groupSource :: SourceIdentity
  groupSkills :: "string list"
  groupAgents :: "string list"

definition isFile :: "'w runtime \<Rightarrow> string \<Rightarrow> 'w \<Rightarrow> bool" where
  \<comment> \<open>\<open>try { return fs.statSync(p).isFile(); } catch { return false; }\<close>\<close>
  "isFile rt p w = (case rtStatSync rt p w of Inl _ \<Rightarrow> False | Inr st \<Rightarrow> statKind st = IsFile)"

definition readOptionalString :: "json option \<Rightarrow> string option" where
  "readOptionalString v =
     (case v of
        Some (JString t) \<Rightarrow> if length (trim t) = 0 then None else Some t
      | _ \<Rightarrow> None)"

definition noMetadata :: SourceMetadata where
  \<comment> \<open>\<open>{}\<close>\<close>
  "noMetadata = \<lparr> metaType = None, metaUrl = None, metaRef = None, metaDigest = None,
                   metaInstallMethod = None \<rparr>"

definition readSourceMetadata :: "'w runtime \<Rightarrow> string \<Rightarrow> 'w \<Rightarrow> SourceMetadata" where
  \<comment> \<open>Reading a property of \<open>null\<close> throws inside the \<open>try\<close>; a parsed value that is
      not an object has none of the five properties.\<close>
  "readSourceMetadata rt skillDir w =
     (let metadataPath = pathJoin rt [skillDir, SOURCE_METADATA_FILENAME] in
      if \<not> isFile rt metadataPath w then noMetadata
      else
        (case rtReadFileSync rt metadataPath w of
           Inl _ \<Rightarrow> noMetadata
         | Inr content \<Rightarrow>
             (case jsonParse rt content of
                Some (JObject props) \<Rightarrow>
                  \<lparr> metaType = readOptionalString (map_of props ''type''),
                    metaUrl = readOptionalString (map_of props ''url''),
                    metaRef = readOptionalString (map_of props ''ref''),
                    metaDigest = readOptionalString (map_of props ''digest''),
                    metaInstallMethod = readOptionalString (map_of props ''installMethod'') \<rparr>
              | _ \<Rightarrow> noMetadata)))"

fun isDirectoryEntry :: "fs_tree \<Rightarrow> bool" where
  \<comment> \<open>\<open>entry.isDirectory()\<close>\<close>
  "isDirectoryEntry (DirEntry n sub) = True"
| "isDirectoryEntry (UnreadableDirEntry n m) = True"
| "isDirectoryEntry _ = False"

fun isSymbolicLinkEntry :: "fs_tree \<Rightarrow> bool" where
  \<comment> \<open>\<open>entry.isSymbolicLink()\<close>\<close>
  "isSymbolicLinkEntry (SymlinkEntry n) = True"
| "isSymbolicLinkEntry _ = False"

definition listSkillDirectories :: "'w runtime \<Rightarrow> string \<Rightarrow> 'w \<Rightarrow> exn + string list" where
  "listSkillDirectories rt agentSkillsDir w =
     (case rtReaddirSync rt agentSkillsDir w of
        Inl m \<Rightarrow> Inl (NodeError m)
      | Inr entries \<Rightarrow>
          Inr (sortBy (localeCompare rt)
                 (map (\<lambda>entry. pathJoin rt [agentSkillsDir, entryName entry])
                    (filter (\<lambda>entry. isDirectoryEntry entry
                                        \<or> (isSymbolicLinkEntry entry
                                            \<and> isDirectory rt (pathJoin rt [agentSkillsDir, entryName entry]) w))
                       entries))))"

definition setAdd :: "'a \<Rightarrow> 'a list \<Rightarrow> 'a list" where
  \<comment> \<open>\<open>set.add(x)\<close>\<close>
  "setAdd x xs = (if x \<in> set xs then xs else xs @ [x])"

fun mapSet :: "'k \<Rightarrow> 'v \<Rightarrow> ('k \<times> 'v) list \<Rightarrow> ('k \<times> 'v) list" where
  \<comment> \<open>\<open>map.set(key, value)\<close>: an existing key keeps its place\<close>
  "mapSet k v [] = [(k, v)]"
| "mapSet k v ((k', v') # rest) = (if k' = k then (k, v) # rest else (k', v') # mapSet k v rest)"

definition orEmpty :: "string option \<Rightarrow> string" where
  \<comment> \<open>\<open>value ?? ""\<close>\<close>
  "orEmpty v = (case v of Some t \<Rightarrow> t | None \<Rightarrow> [])"

definition groupKey :: "SourceIdentity \<Rightarrow> string" where
  "groupKey s =
     joinWith ''|'' [type s, url s, orEmpty (ref s), orEmpty (digest s), installMethod s]"

definition processSkillDir ::
  "'w runtime \<Rightarrow> string \<Rightarrow> string \<Rightarrow> 'w \<Rightarrow> (string \<times> SourceGroup) list \<Rightarrow> exn + (string \<times> SourceGroup) list"
where
  \<comment> \<open>The body of the inner loop of \<open>generateLockfile\<close> for one skill directory of one agent;
      \<open>continue\<close> returns the map as it is.\<close>
  "processSkillDir rt agent skillDir w grouped =
     (let skillFile = pathJoin rt [skillDir, ''SKILL.md''] in
      if \<not> isFile rt skillFile w then Inr grouped
      else
        (case bindE (case rtReadFileSync rt skillFile w of
                       Inl m \<Rightarrow> Inl (NodeError m)
                     | Inr content \<Rightarrow> Inr content)
                (\<lambda>content. parseSkillMarkdown rt content \<lparr> path = Some skillFile, expectedName = None \<rparr>)
         of
           Inl _ \<Rightarrow> Inr grouped
         | Inr parsedFile \<Rightarrow>
             let declared = name (frontmatter parsedFile);
                 meta = readSourceMetadata rt skillDir w
             in
             bindE (case metaInstallMethod meta of
                      Some m \<Rightarrow> Inr m
                    | None \<Rightarrow>
                        (case rtLstatSync rt skillDir w of
                           Inl m \<Rightarrow> Inl (NodeError m)
                         | Inr st \<Rightarrow> Inr (if statKind st = IsSymbolicLink then ''symlink'' else ''copy'')))
               (\<lambda>how.
                  let origin = \<lparr> type = (case metaType meta of Some t \<Rightarrow> t | None \<Rightarrow> ''unknown''),
                                 url = (case metaUrl meta of Some u \<Rightarrow> u | None \<Rightarrow> ''file://'' @ skillDir),
                                 ref = metaRef meta,
                                 digest = metaDigest meta,
                                 installMethod = how \<rparr>;
                      key = groupKey origin;
                      group = (case map_of grouped key of
                                 Some g \<Rightarrow> g
                               | None \<Rightarrow> \<lparr> groupSource = origin, groupSkills = [], groupAgents = [] \<rparr>)
                  in
                  Inr (mapSet key
                         (group \<lparr> groupSkills := setAdd declared (groupSkills group),
                                  groupAgents := setAdd agent (groupAgents group) \<rparr>)
                         grouped))))"

fun processSkillDirs ::
  "'w runtime \<Rightarrow> string \<Rightarrow> string list \<Rightarrow> 'w \<Rightarrow> (string \<times> SourceGroup) list \<Rightarrow> exn + (string \<times> SourceGroup) list"
where
  \<comment> \<open>\<open>for (const skillDir of listSkillDirectories(agentSkillsDir))\<close>\<close>
  "processSkillDirs rt agent [] w grouped = Inr grouped"
| "processSkillDirs rt agent (skillDir # rest) w grouped =
     (case processSkillDir rt agent skillDir w grouped of
        Inl e \<Rightarrow> Inl e
      | Inr grouped' \<Rightarrow> processSkillDirs rt agent rest w grouped')"

fun scanAgents ::
  "'w runtime \<Rightarrow> string \<Rightarrow> (string \<times> string) list \<Rightarrow> 'w \<Rightarrow> (string \<times> SourceGroup) list
     \<Rightarrow> exn + (string \<times> SourceGroup) list"
where
  \<comment> \<open>\<open>for (const config of AGENT_SKILL_DIRS)\<close>\<close>
  "scanAgents rt scanRoot [] w grouped = Inr grouped"
| "scanAgents rt scanRoot ((agent, relativePath) # rest) w grouped =
     (let agentSkillsDir = pathJoin rt [scanRoot, relativePath] in
      if \<not> isDirectory rt agentSkillsDir w then scanAgents rt scanRoot rest w grouped
      else
        (case bindE (listSkillDirectories rt agentSkillsDir w)
                (\<lambda>dirs. processSkillDirs rt agent dirs w grouped)
         of
           Inl e \<Rightarrow> Inl e
         | Inr grouped' \<Rightarrow> scanAgents rt scanRoot rest w grouped'))"

definition truthy :: "string option \<Rightarrow> string option" where
  \<comment> \<open>the value kept by \<open>if (source.ref) { normalized.ref = source.ref; }\<close>\<close>
  "truthy v = (case v of Some t \<Rightarrow> if t \<noteq> [] then Some t else None | None \<Rightarrow> None)"

definition normalizeGroup :: "'w runtime \<Rightarrow> SourceGroup \<Rightarrow> LockfileSource" where
  "normalizeGroup rt g =
     \<lparr> type = type (groupSource g),
       url = url (groupSource g),
       ref = truthy (ref (groupSource g)),
       digest = truthy (digest (groupSource g)),
       installMethod = installMethod (groupSource g),
       skills = sortBy (localeCompare rt) (groupSkills g),
       agents = sortBy (localeCompare rt) (groupAgents g) \<rparr>"

fun firstNonZero :: "int list \<Rightarrow> int" where
  \<comment> \<open>the loop over \<open>sortKeys\<close>: the first comparison that is not 0, else 0\<close>
  "firstNonZero [] = 0"
| "firstNonZero (c # cs) = (if c \<noteq> 0 then c else firstNonZero cs)"

definition compareSources :: "'w runtime \<Rightarrow> LockfileSource \<Rightarrow> LockfileSource \<Rightarrow> int" where
  "compareSources rt left right =
     firstNonZero
       [localeCompare rt (type left) (type right),
        localeCompare rt (url left) (url right),
        localeCompare rt (orEmpty (ref left)) (orEmpty (ref right)),
        localeCompare rt (orEmpty (digest left)) (orEmpty (digest right)),
        localeCompare rt (installMethod left) (installMethod right)]"

definition sourceValue :: "LockfileSource \<Rightarrow> json" where
  \<comment> \<open>The object \<open>normalized\<close>, its properties in the order the code sets them.\<close>
  "sourceValue s =
     JObject ([(''type'', JString (type s)),
               (''url'', JString (url s)),
               (''installMethod'', JString (installMethod s)),
               (''skills'', JArray (map JString (skills s))),
               (''agents'', JArray (map JString (agents s)))]
              @ (case ref s of Some r \<Rightarrow> [(''ref'', JString r)] | None \<Rightarrow> [])
              @ (case digest s of Some d \<Rightarrow> [(''digest'', JString d)] | None \<Rightarrow> []))"

definition documentValue :: "LockfileDocument \<Rightarrow> json" where
  "documentValue doc =
     JObject [(''version'', JNumber (showNat (version doc))),
              (''sources'', JArray (map sourceValue (sources doc)))]"

definition utf8Encode :: "string \<Rightarrow> byte list" where
  \<comment> \<open>UTF-8 of code units below 256\<close>
  "utf8Encode t =
     concat (map (\<lambda>c. let n = (of_char c :: nat) in
                       if n < 128 then [of_nat n]
                       else [of_nat (192 + n div 64), of_nat (128 + n mod 64)]) t)"

definition generateLockfile ::
  "'w runtime \<Rightarrow> GenerateLockfileOptions \<Rightarrow> ('w, GenerateLockfileResult) prog"
where
  "generateLockfile rt options s =
     (let base = pathResolve rt (case cwd options of Some c \<Rightarrow> c | None \<Rightarrow> processCwd rt);
          home = pathResolve rt (case homeDir options of Some h \<Rightarrow> h | None \<Rightarrow> base);
          scanRoot = (if scope options = ProjectScope then base else home);
          out = (if scope options = ProjectScope
                 then pathJoin rt [base, ''skillet.lock.yaml'']
                 else pathJoin rt [home, ''.skillet'', ''skillet.lock.yaml''])
      in
      (case scanAgents rt scanRoot AGENT_SKILL_DIRS (fst s) [] of
         Inl e \<Rightarrow> (Inl e, s)
       | Inr groupedSources \<Rightarrow>
           let entries = sortBy (compareSources rt) (map (\<lambda>kv. normalizeGroup rt (snd kv)) groupedSources);
               doc = \<lparr> version = 1, sources = entries \<rparr>;
               rendered = yamlStringify rt (documentValue doc)
           in
           andThen (mkdirSync rt (pathDirname rt out)) (\<lambda>_.
           andThen (writeFileSync rt out (utf8Encode rendered)) (\<lambda>_.
           ret \<lparr> outputPath = out, yaml = rendered, lockfile = doc \<rparr>)) s))"

subsection \<open>Order of the entries and unchanged installed skills\<close>

text \<open>
  The collation \<open>localeCompare\<close> belongs to the runtime. ECMAScript requires of it what
  \<open>consistentComparator\<close> says: the sign is reversed when the arguments are swapped, and
  what is not greater is transitive.
\<close>

definition consistentComparator :: "('a \<Rightarrow> 'a \<Rightarrow> int) \<Rightarrow> bool" where
  "consistentComparator cmp =
     ((\<forall>a b. (cmp a b < 0) = (0 < cmp b a))
      \<and> (\<forall>a b c. cmp a b \<le> 0 \<and> cmp b c \<le> 0 \<longrightarrow> cmp a c \<le> 0))"

fun lexicographicLe :: "(string \<Rightarrow> string \<Rightarrow> int) \<Rightarrow> string list \<Rightarrow> string list \<Rightarrow> bool" where
  \<comment> \<open>The lexicographic order of two tuples of texts, each component compared by the
      collation. Stated from the specification, to compare \<open>compareSources\<close> with.\<close>
  "lexicographicLe cmp [] ys = True"
| "lexicographicLe cmp (x # xs) [] = False"
| "lexicographicLe cmp (x # xs) (y # ys) = (cmp x y < 0 \<or> (cmp x y = 0 \<and> lexicographicLe cmp xs ys))"

definition identityTuple :: "LockfileSource \<Rightarrow> string list" where
  \<comment> \<open>\<open>(type, url, ref, digest, installMethod)\<close> of an entry, an absent component being
      the empty text\<close>
  "identityTuple e = [type e, url e, orEmpty (ref e), orEmpty (digest e), installMethod e]"

definition sameReads :: "'w runtime \<Rightarrow> string \<Rightarrow> 'w \<Rightarrow> 'w \<Rightarrow> bool" where
  \<comment> \<open>Every way of reading the path gives the same in both worlds.\<close>
  "sameReads rt p w w' =
     (rtStatSync rt p w = rtStatSync rt p w'
      \<and> rtLstatSync rt p w = rtLstatSync rt p w'
      \<and> rtReaddirSync rt p w = rtReaddirSync rt p w'
      \<and> rtReadFileSync rt p w = rtReadFileSync rt p w')"

definition installedSkillPaths :: "'w runtime \<Rightarrow> string \<Rightarrow> 'w \<Rightarrow> string list" where
  \<comment> \<open>The installed-skill state under a scan root: the five agent directories, their
      children, and each child's \<open>SKILL.md\<close> and provenance sidecar.\<close>
  "installedSkillPaths rt scanRoot w =
     concat (map (\<lambda>config.
                    let agentSkillsDir = pathJoin rt [scanRoot, snd config] in
                    agentSkillsDir #
                    (case rtReaddirSync rt agentSkillsDir w of
                       Inl _ \<Rightarrow> []
                     | Inr entries \<Rightarrow>
                         concat (map (\<lambda>entry.
                                        let skillDir = pathJoin rt [agentSkillsDir, entryName entry] in
                                        [skillDir,
                                         pathJoin rt [skillDir, ''SKILL.md''],
                                         pathJoin rt [skillDir, SOURCE_METADATA_FILENAME]])
                                   entries)))
               AGENT_SKILL_DIRS)"

definition installedStateUnchanged :: "'w runtime \<Rightarrow> string \<Rightarrow> 'w \<Rightarrow> 'w \<Rightarrow> bool" where
  "installedStateUnchanged rt scanRoot w w' =
     list_all (\<lambda>p. sameReads rt p w w') (installedSkillPaths rt scanRoot w)"

definition scanRootOf :: "'w runtime \<Rightarrow> GenerateLockfileOptions \<Rightarrow> string" where
  \<comment> \<open>\<open>scanRoot\<close> of \<open>generateLockfile\<close>\<close>
  "scanRootOf rt options =
     (let base = pathResolve rt (case cwd options of Some c \<Rightarrow> c | None \<Rightarrow> processCwd rt);
          home = pathResolve rt (case homeDir options of Some h \<Rightarrow> h | None \<Rightarrow> base)
      in if scope options = ProjectScope then base else home)"

subsection \<open>A project with two installed skills\<close>

definition sidecarText :: "(string \<times> string) list \<Rightarrow> string" where
  \<comment> \<open>The JSON text of an object whose properties are texts without quotes.\<close>
  "sidecarText props =
     ''{'' @ joinWith '','' (map (\<lambda>prop. [CHR 0x22] @ fst prop @ [CHR 0x22] @ '':''
                                          @ [CHR 0x22] @ snd prop @ [CHR 0x22]) props) @ ''}''"

definition sidecarValue :: "(string \<times> string) list \<Rightarrow> json" where
  "sidecarValue props = JObject (map (\<lambda>prop. (fst prop, JString (snd prop))) props)"

definition skillMarkdown :: "string \<Rightarrow> string" where
  "skillMarkdown declared = ''---\<newline>name: '' @ declared @ ''\<newline>description: d\<newline>---\<newline>''"

definition lockScript :: "string list \<Rightarrow> (string \<times> string) list \<Rightarrow> (string \<times> string) list \<Rightarrow> script" where
  \<comment> \<open>The skills directory of \<open>claude\<close> lists the given directories; the skills \<open>alpha\<close> and
      \<open>beta\<close> carry the given sidecars.\<close>
  "lockScript listing alphaProps betaProps =
     \<lparr> fetchAnswer = (\<lambda>address. Inl ''offline''),
       execAnswer = (\<lambda>cmd args. Inl None),
       readdirAnswer = (\<lambda>p. if p = ''/proj/.claude/skills''
                             then Inr (map (\<lambda>n. DirEntry n []) listing)
                             else Inl ''ENOENT''),
       readFileAnswer = (\<lambda>p. if p = ''/proj/.claude/skills/alpha/SKILL.md'' then Inr (skillMarkdown ''alpha'')
                              else if p = ''/proj/.claude/skills/beta/SKILL.md'' then Inr (skillMarkdown ''beta'')
                              else if p = ''/proj/.claude/skills/alpha/.skillet-source.json''
                              then Inr (sidecarText alphaProps)
                              else if p = ''/proj/.claude/skills/beta/.skillet-source.json''
                              then Inr (sidecarText betaProps)
                              else Inl ''ENOENT''),
       jsonAnswer = (\<lambda>t. if t = sidecarText alphaProps then Some (sidecarValue alphaProps)
                          else if t = sidecarText betaProps then Some (sidecarValue betaProps)
                          else None),
       yamlAnswer = (\<lambda>t. if t = ''name: alpha\<newline>description: d''
                          then Inr (JObject [(''name'', JString ''alpha''), (''description'', JString ''d'')])
                          else if t = ''name: beta\<newline>description: d''
                          then Inr (JObject [(''name'', JString ''beta''), (''description'', JString ''d'')])
                          else Inl ''not YAML'') \<rparr>"

definition lockWorld :: world where
  "lockWorld =
     [(''/proj'', IsDirectory),
      (''/proj/.claude/skills'', IsDirectory),
      (''/proj/.claude/skills/alpha'', IsDirectory),
      (''/proj/.claude/skills/alpha/SKILL.md'', IsFile),
      (''/proj/.claude/skills/alpha/.skillet-source.json'', IsFile),
      (''/proj/.claude/skills/beta'', IsDirectory),
      (''/proj/.claude/skills/beta/SKILL.md'', IsFile),
      (''/proj/.claude/skills/beta/.skillet-source.json'', IsFile)]"

definition lockOptions :: GenerateLockfileOptions where
  "lockOptions = \<lparr> scope = ProjectScope, cwd = Some ''/proj'', homeDir = None \<rparr>"

text \<open>
  Two sidecars of different upstream repositories, and the document expected for a
  project whose skill \<open>alpha\<close> comes from the first and \<open>beta\<close> from the second.
\<close>

definition fromZ :: "(string \<times> string) list" where
  "fromZ = [(''type'', ''git''), (''url'', ''https://example.com/z''), (''installMethod'', ''copy'')]"

definition fromA :: "(string \<times> string) list" where
  "fromA = [(''type'', ''git''), (''url'', ''https://example.com/a''), (''installMethod'', ''copy'')]"

definition twoSources :: LockfileDocument where
  "twoSources =
     \<lparr> version = 1,
       sources = [\<lparr> type = ''git'', url = ''https://example.com/a'', ref = None, digest = None,
                    installMethod = ''copy'', skills = [''beta''], agents = [''claude''] \<rparr>,
                  \<lparr> type = ''git'', url = ''https://example.com/z'', ref = None, digest = None,
                    installMethod = ''copy'', skills = [''alpha''], agents = [''claude''] \<rparr>] \<rparr>"

text \<open>
  Two sidecars, of the local repository \<open>/repos/a|b\<close> installed at the ref \<open>main\<close> and of the
  local repository \<open>/repos/a\<close> installed at the ref \<open>b|main\<close>, and the document with the single
  entry that \<open>generateLockfile\<close> makes of the two.
\<close>

definition pipeInUrl :: "(string \<times> string) list" where
  "pipeInUrl = [(''type'', ''git''), (''url'', ''/repos/a|b''), (''ref'', ''main''), (''installMethod'', ''copy'')]"

definition pipeInRef :: "(string \<times> string) list" where
  "pipeInRef = [(''type'', ''git''), (''url'', ''/repos/a''), (''ref'', ''b|main''), (''installMethod'', ''copy'')]"

definition mergedDocument :: LockfileDocument where
  "mergedDocument =
     \<lparr> version = 1,
       sources = [\<lparr> type = ''git'', url = ''/repos/a|b'', ref = Some ''main'', digest = None,
                    installMethod = ''copy'', skills = [''alpha'', ''beta''], agents = [''claude''] \<rparr>] \<rparr>"


section \<open>Verified properties\<close>

subsection \<open>The frontmatter block\<close>

lemma splitLinesFrom_nonempty: "splitLinesFrom acc s \<noteq> []"
  by (induction acc s rule: splitLinesFrom.induct) auto

lemma findEndIndex_None: "(findEndIndex ls i = None) = (\<forall>l\<in>set ls. trim l \<noteq> ''---'')"
  by (induction ls arbitrary: i) auto

lemma findEndIndex_first:
  "\<forall>l\<in>set pre. trim l \<noteq> ''---'' \<Longrightarrow> trim close = ''---'' \<Longrightarrow>
   findEndIndex (pre @ close # post) i = Some (i + length pre)"
  by (induction pre arbitrary: i) auto

text \<open>
  C7, as stated, fails: a text whose first line is empty and whose first non-empty line is
  \<open>---\<close>, followed by frontmatter, a closing \<open>---\<close> and a body, is rejected with the
  missing-opening-delimiter error. \<open>parseSkillMarkdown\<close> calls \<open>splitFrontmatter\<close>
  first and lets its error through, so it rejects the text too.
\<close>

theorem splitFrontmatter_first_line_counterexample:
  "splitLines ''\<newline>---\<newline>name: demo\<newline>description: A demo.\<newline>---\<newline># Demo''
     = ['''', ''---'', ''name: demo'', ''description: A demo.'', ''---'', ''# Demo'']
   \<and> splitFrontmatter ''\<newline>---\<newline>name: demo\<newline>description: A demo.\<newline>---\<newline># Demo''
     = Inl (SkillParseError msgMustStart None)"
  by (simp add: splitFrontmatter_def splitLines_def trim_def isJsSpace_def)

text \<open>
  C7, amended: \<open>splitFrontmatter\<close> looks at the first line of the text, not at the first
  non-empty one, and compares lines after trimming them. If the first line does not trim
  to \<open>---\<close> it fails with the missing-opening-delimiter error; if the first line does
  and no later line trims to \<open>---\<close> it fails with the missing-closing-delimiter error;
  otherwise it succeeds, the frontmatter text being the lines between the first line and
  the first later delimiter line, the body the lines after that one, each joined by a
  newline. The three cases cover every text, so a delimiter error is raised exactly when
  the opening or the closing delimiter, in this sense, is absent.
\<close>

theorem splitFrontmatter_delimiters:
  "(trim (hd (splitLines md)) \<noteq> ''---''
      \<longrightarrow> splitFrontmatter md = Inl (SkillParseError msgMustStart None))
   \<and> (trim (hd (splitLines md)) = ''---'' \<and> (\<forall>l\<in>set (tl (splitLines md)). trim l \<noteq> ''---'')
      \<longrightarrow> splitFrontmatter md = Inl (SkillParseError msgMustClose None))
   \<and> (splitLines md = first # pre @ closing # post \<and> trim first = ''---''
        \<and> (\<forall>l\<in>set pre. trim l \<noteq> ''---'') \<and> trim closing = ''---''
      \<longrightarrow> splitFrontmatter md
            = Inr \<lparr> frontmatterText = joinWith ''\<newline>'' pre, body = joinWith ''\<newline>'' post \<rparr>)"
proof (intro conjI impI)
  assume "trim (hd (splitLines md)) \<noteq> ''---''"
  then show "splitFrontmatter md = Inl (SkillParseError msgMustStart None)"
    by (simp add: splitFrontmatter_def Let_def)
next
  assume h: "trim (hd (splitLines md)) = ''---'' \<and> (\<forall>l\<in>set (tl (splitLines md)). trim l \<noteq> ''---'')"
  have ne: "splitLines md \<noteq> []"
    by (simp add: splitLines_def splitLinesFrom_nonempty)
  from h have "findEndIndex (drop 1 (splitLines md)) 1 = None"
    by (simp add: findEndIndex_None drop_Suc)
  with h ne show "splitFrontmatter md = Inl (SkillParseError msgMustClose None)"
    by (simp add: splitFrontmatter_def Let_def)
next
  assume h: "splitLines md = first # pre @ closing # post \<and> trim first = ''---''
        \<and> (\<forall>l\<in>set pre. trim l \<noteq> ''---'') \<and> trim closing = ''---''"
  then have "findEndIndex (pre @ closing # post) 1 = Some (1 + length pre)"
    by (intro findEndIndex_first) auto
  with h show "splitFrontmatter md
       = Inr \<lparr> frontmatterText = joinWith ''\<newline>'' pre, body = joinWith ''\<newline>'' post \<rparr>"
    by (simp add: splitFrontmatter_def Let_def)
qed

text \<open>The three cases of the amended C7 at three concrete texts.\<close>

theorem splitFrontmatter_delimiters_witness:
  "trim (hd (splitLines ''# Missing frontmatter'')) \<noteq> ''---''
   \<and> splitFrontmatter ''# Missing frontmatter'' = Inl (SkillParseError msgMustStart None)
   \<and> trim (hd (splitLines ''---\<newline>name: demo'')) = ''---''
   \<and> tl (splitLines ''---\<newline>name: demo'') = [''name: demo'']
   \<and> trim ''name: demo'' \<noteq> ''---''
   \<and> splitFrontmatter ''---\<newline>name: demo'' = Inl (SkillParseError msgMustClose None)
   \<and> splitLines ''---\<newline>name: demo\<newline>description: A demo.\<newline> --- \<newline># Demo\<newline>''
       = ''---'' # [''name: demo'', ''description: A demo.''] @ '' --- '' # [''# Demo'', []]
   \<and> trim ''---'' = ''---''
   \<and> trim ''description: A demo.'' \<noteq> ''---''
   \<and> trim '' --- '' = ''---''
   \<and> splitFrontmatter ''---\<newline>name: demo\<newline>description: A demo.\<newline> --- \<newline># Demo\<newline>''
       = Inr \<lparr> frontmatterText = ''name: demo\<newline>description: A demo.'', body = ''# Demo\<newline>'' \<rparr>"
proof -
  have a: "trim (hd (splitLines ''# Missing frontmatter'')) \<noteq> ''---''"
    by (simp add: splitLines_def trim_def isJsSpace_def)
  have b: "trim (hd (splitLines ''---\<newline>name: demo'')) = ''---''
           \<and> tl (splitLines ''---\<newline>name: demo'') = [''name: demo'']
           \<and> trim ''name: demo'' \<noteq> ''---''"
    by (simp add: splitLines_def trim_def isJsSpace_def)
  have c: "splitLines ''---\<newline>name: demo\<newline>description: A demo.\<newline> --- \<newline># Demo\<newline>''
       = ''---'' # [''name: demo'', ''description: A demo.''] @ '' --- '' # [''# Demo'', []]
   \<and> trim ''---'' = ''---''
   \<and> trim ''description: A demo.'' \<noteq> ''---''
   \<and> trim '' --- '' = ''---''"
    by (simp add: splitLines_def trim_def isJsSpace_def)
  from a b c
    splitFrontmatter_delimiters [of "''# Missing frontmatter''"]
    splitFrontmatter_delimiters [of "''---\<newline>name: demo''"]
    splitFrontmatter_delimiters [of
      "''---\<newline>name: demo\<newline>description: A demo.\<newline> --- \<newline># Demo\<newline>''"
      "''---''" "[''name: demo'', ''description: A demo.'']" "'' --- ''" "[''# Demo'', []]"]
  show ?thesis by simp
qed

subsection \<open>Backslashes in entry paths\<close>

lemma backslashesToSlashes_idem: "backslashesToSlashes (backslashesToSlashes e) = backslashesToSlashes e"
  by (simp add: backslashesToSlashes_def)

text \<open>
  C10: both validators replace every backslash by a forward slash before the absolute-path
  and the traversal checks. So the verdict on an entry path is the verdict on its
  forward-slash form (accepted, rejected as absolute, or rejected as a traversal, the error
  naming the entry as it was given); \<open>..\evil\<close> and \<open>a\..\..\b\<close> are rejected like
  \<open>../evil\<close> and \<open>a/../../b\<close>; and the empty entry path is accepted by both.
\<close>

theorem entry_validation_backslashes:
  "(validateArchiveEntryPath e = Inr ())
      = (validateArchiveEntryPath (backslashesToSlashes e) = Inr ())
   \<and> (validateArchiveEntryPath e = Inl (ArchiveResolveError (AbsoluteEntryPath e)))
      = (validateArchiveEntryPath (backslashesToSlashes e)
           = Inl (ArchiveResolveError (AbsoluteEntryPath (backslashesToSlashes e))))
   \<and> (validateArchiveEntryPath e = Inl (ArchiveResolveError (EntryEscapesRoot e)))
      = (validateArchiveEntryPath (backslashesToSlashes e)
           = Inl (ArchiveResolveError (EntryEscapesRoot (backslashesToSlashes e))))
   \<and> (validateTarEntry e = Inr ()) = (validateTarEntry (backslashesToSlashes e) = Inr ())
   \<and> (validateTarEntry e = Inl (OciResolveError (UnsafeAbsolutePath e)))
      = (validateTarEntry (backslashesToSlashes e)
           = Inl (OciResolveError (UnsafeAbsolutePath (backslashesToSlashes e))))
   \<and> (validateTarEntry e = Inl (OciResolveError (UnsafeTraversalPath e)))
      = (validateTarEntry (backslashesToSlashes e)
           = Inl (OciResolveError (UnsafeTraversalPath (backslashesToSlashes e))))
   \<and> validateArchiveEntryPath (''..'' @ [CHR 0x5C] @ ''evil'')
        = Inl (ArchiveResolveError (EntryEscapesRoot (''..'' @ [CHR 0x5C] @ ''evil'')))
   \<and> validateArchiveEntryPath ''../evil'' = Inl (ArchiveResolveError (EntryEscapesRoot ''../evil''))
   \<and> validateArchiveEntryPath (''a'' @ [CHR 0x5C] @ ''..'' @ [CHR 0x5C] @ ''..'' @ [CHR 0x5C] @ ''b'')
        = Inl (ArchiveResolveError
                 (EntryEscapesRoot (''a'' @ [CHR 0x5C] @ ''..'' @ [CHR 0x5C] @ ''..'' @ [CHR 0x5C] @ ''b'')))
   \<and> validateArchiveEntryPath ''a/../../b'' = Inl (ArchiveResolveError (EntryEscapesRoot ''a/../../b''))
   \<and> validateTarEntry (''..'' @ [CHR 0x5C] @ ''evil'')
        = Inl (OciResolveError (UnsafeTraversalPath (''..'' @ [CHR 0x5C] @ ''evil'')))
   \<and> validateTarEntry ''../evil'' = Inl (OciResolveError (UnsafeTraversalPath ''../evil''))
   \<and> validateTarEntry (''a'' @ [CHR 0x5C] @ ''..'' @ [CHR 0x5C] @ ''..'' @ [CHR 0x5C] @ ''b'')
        = Inl (OciResolveError
                 (UnsafeTraversalPath (''a'' @ [CHR 0x5C] @ ''..'' @ [CHR 0x5C] @ ''..'' @ [CHR 0x5C] @ ''b'')))
   \<and> validateTarEntry ''a/../../b'' = Inl (OciResolveError (UnsafeTraversalPath ''a/../../b''))
   \<and> validateArchiveEntryPath [] = Inr ()
   \<and> validateTarEntry [] = Inr ()"
proof -
  have general:
    "(validateArchiveEntryPath e = Inr ())
      = (validateArchiveEntryPath (backslashesToSlashes e) = Inr ())
   \<and> (validateArchiveEntryPath e = Inl (ArchiveResolveError (AbsoluteEntryPath e)))
      = (validateArchiveEntryPath (backslashesToSlashes e)
           = Inl (ArchiveResolveError (AbsoluteEntryPath (backslashesToSlashes e))))
   \<and> (validateArchiveEntryPath e = Inl (ArchiveResolveError (EntryEscapesRoot e)))
      = (validateArchiveEntryPath (backslashesToSlashes e)
           = Inl (ArchiveResolveError (EntryEscapesRoot (backslashesToSlashes e))))
   \<and> (validateTarEntry e = Inr ()) = (validateTarEntry (backslashesToSlashes e) = Inr ())
   \<and> (validateTarEntry e = Inl (OciResolveError (UnsafeAbsolutePath e)))
      = (validateTarEntry (backslashesToSlashes e)
           = Inl (OciResolveError (UnsafeAbsolutePath (backslashesToSlashes e))))
   \<and> (validateTarEntry e = Inl (OciResolveError (UnsafeTraversalPath e)))
      = (validateTarEntry (backslashesToSlashes e)
           = Inl (OciResolveError (UnsafeTraversalPath (backslashesToSlashes e))))"
    by (simp add: validateArchiveEntryPath_def validateTarEntry_def Let_def backslashesToSlashes_idem)
  have examples:
    "validateArchiveEntryPath (''..'' @ [CHR 0x5C] @ ''evil'')
        = Inl (ArchiveResolveError (EntryEscapesRoot (''..'' @ [CHR 0x5C] @ ''evil'')))
   \<and> validateArchiveEntryPath ''../evil'' = Inl (ArchiveResolveError (EntryEscapesRoot ''../evil''))
   \<and> validateArchiveEntryPath (''a'' @ [CHR 0x5C] @ ''..'' @ [CHR 0x5C] @ ''..'' @ [CHR 0x5C] @ ''b'')
        = Inl (ArchiveResolveError
                 (EntryEscapesRoot (''a'' @ [CHR 0x5C] @ ''..'' @ [CHR 0x5C] @ ''..'' @ [CHR 0x5C] @ ''b'')))
   \<and> validateArchiveEntryPath ''a/../../b'' = Inl (ArchiveResolveError (EntryEscapesRoot ''a/../../b''))
   \<and> validateTarEntry (''..'' @ [CHR 0x5C] @ ''evil'')
        = Inl (OciResolveError (UnsafeTraversalPath (''..'' @ [CHR 0x5C] @ ''evil'')))
   \<and> validateTarEntry ''../evil'' = Inl (OciResolveError (UnsafeTraversalPath ''../evil''))
   \<and> validateTarEntry (''a'' @ [CHR 0x5C] @ ''..'' @ [CHR 0x5C] @ ''..'' @ [CHR 0x5C] @ ''b'')
        = Inl (OciResolveError
                 (UnsafeTraversalPath (''a'' @ [CHR 0x5C] @ ''..'' @ [CHR 0x5C] @ ''..'' @ [CHR 0x5C] @ ''b'')))
   \<and> validateTarEntry ''a/../../b'' = Inl (OciResolveError (UnsafeTraversalPath ''a/../../b''))"
    by (simp add: validateArchiveEntryPath_def validateTarEntry_def Let_def backslashesToSlashes_def
        startsWith_def posixNormalize_def splitOn_def escapesRoot_def isAsciiLetter_def)
  have empty: "validateArchiveEntryPath [] = Inr () \<and> validateTarEntry [] = Inr ()"
    by (simp add: validateArchiveEntryPath_def validateTarEntry_def Let_def backslashesToSlashes_def
        startsWith_def posixNormalize_def splitOn_def escapesRoot_def)
  from general examples empty show ?thesis by simp
qed

subsection \<open>The HTTP archive resolver\<close>

lemma readLoop_exceeds:
  "limit < bytes + sum_list (map length cs) \<Longrightarrow> bytes \<le> limit \<Longrightarrow>
   \<exists>k. 0 < k \<and> k \<le> length cs
     \<and> limit < bytes + sum_list (map length (take k cs))
     \<and> bytes + sum_list (map length (take (k - 1) cs)) \<le> limit
     \<and> readLoop limit (map Chunk cs @ rest) chunks bytes (w, tr)
         = (Inl (ArchiveResolveError (DownloadExceedsLimit limit)), (w, tr @ replicate k EvRead))"
proof (induction cs arbitrary: chunks bytes tr)
  case Nil
  then show ?case by simp
next
  case (Cons c cs)
  show ?case
  proof (cases "limit < bytes + length c")
    case True
    with Cons.prems show ?thesis
      by (intro exI [of _ 1]) (simp add: Let_def)
  next
    case False
    with Cons.prems have a: "limit < (bytes + length c) + sum_list (map length cs)"
      and b: "bytes + length c \<le> limit" by simp_all
    from Cons.IH [OF a b, of "chunks @ [c]" "tr @ [EvRead]"]
    obtain k where k: "0 < k" "k \<le> length cs"
      "limit < bytes + length c + sum_list (map length (take k cs))"
      "bytes + length c + sum_list (map length (take (k - 1) cs)) \<le> limit"
      "readLoop limit (map Chunk cs @ rest) (chunks @ [c]) (bytes + length c) (w, tr @ [EvRead])
         = (Inl (ArchiveResolveError (DownloadExceedsLimit limit)), (w, (tr @ [EvRead]) @ replicate k EvRead))"
      by blast
    from k(1) obtain j where j: "k = Suc j" by (cases k) auto
    show ?thesis
      using k False j
      by (intro exI [of _ "Suc k"]) (simp add: Let_def add.assoc replicate_app_Cons_same)
  qed
qed

lemma readLoop_trace:
  "readLoop limit stream chunks bytes s = (r, s') \<Longrightarrow>
   fst s' = fst s \<and> (\<exists>n. snd s' = snd s @ replicate n EvRead)"
proof (induction limit stream chunks bytes s arbitrary: r s' rule: readLoop.induct)
  case (1 limit chunks totalBytes s)
  then show ?case by (auto intro: exI [of _ 1])
next
  case (2 limit m rest chunks totalBytes s)
  then show ?case by (auto intro: exI [of _ 1])
next
  case (3 limit v rest chunks totalBytes s)
  show ?case
  proof (cases "limit < totalBytes + length v")
    case True
    with 3(2) show ?thesis by (auto simp: Let_def intro: exI [of _ 1])
  next
    case False
    with 3(2) have "readLoop limit rest (chunks @ [v]) (totalBytes + length v) (fst s, snd s @ [EvRead]) = (r, s')"
      by (simp add: Let_def)
    from 3(1) [OF refl _ this] False
    obtain n where "fst s' = fst s" "snd s' = (snd s @ [EvRead]) @ replicate n EvRead" by auto
    then show ?thesis by (auto intro: exI [of _ "Suc n"] simp: replicate_app_Cons_same)
  qed
qed

lemma downloadArchive_trace:
  "downloadArchive rt address limit s = (r, s') \<Longrightarrow>
   \<exists>n. snd s' = snd s @ [EvFetch address] @ replicate n EvRead"
  apply (auto simp: downloadArchive_def andThen_def effectCatch_def throw_def ret_def
      split: prod.splits sum.splits if_splits option.splits dest!: readLoop_trace)
  done

lemma startsWith_slash_sanitized:
  "startsWith e ''/'' \<Longrightarrow> startsWith (backslashesToSlashes e) ''/''"
  by (cases e) (auto simp: startsWith_def backslashesToSlashes_def)

lemma hasDriveLetterPrefix_sanitized:
  "hasDriveLetterPrefix e \<Longrightarrow> hasDriveLetterPrefix (backslashesToSlashes e)"
proof (cases e rule: hasDriveLetterPrefix.cases)
  case (1 a b rest)
  assume "hasDriveLetterPrefix e"
  with 1 have "isAsciiLetter a" and "b = CHR '':''" by simp_all
  moreover from \<open>isAsciiLetter a\<close> have "a \<noteq> CHR 0x5C"
    by (auto simp: isAsciiLetter_def)
  ultimately show ?thesis using 1 by (simp add: backslashesToSlashes_def)
qed simp_all

lemma validateArchiveEntryPath_unsafe:
  assumes "startsWith e ''/'' \<or> hasDriveLetterPrefix e
         \<or> posixNormalize (backslashesToSlashes e) = ''..''
         \<or> startsWith (posixNormalize (backslashesToSlashes e)) ''../''"
  shows "validateArchiveEntryPath e = Inl (ArchiveResolveError (AbsoluteEntryPath e))
         \<or> validateArchiveEntryPath e = Inl (ArchiveResolveError (EntryEscapesRoot e))"
proof (cases "backslashesToSlashes e = []")
  case True
  then have "e = []" by (simp add: backslashesToSlashes_def)
  with assms show ?thesis
    by (simp add: startsWith_def backslashesToSlashes_def posixNormalize_def)
next
  case nonempty: False
  show ?thesis
  proof (cases "startsWith (backslashesToSlashes e) ''/'' \<or> hasDriveLetterPrefix (backslashesToSlashes e)")
    case True
    with nonempty show ?thesis by (simp add: validateArchiveEntryPath_def Let_def)
  next
    case False
    with assms startsWith_slash_sanitized [of e] hasDriveLetterPrefix_sanitized [of e]
    have "escapesRoot (posixNormalize (backslashesToSlashes e))"
      by (auto simp: escapesRoot_def)
    with False nonempty show ?thesis by (simp add: validateArchiveEntryPath_def Let_def)
  qed
qed

lemma validateArchiveEntries_unsafe:
  assumes "e \<in> set entries"
    and "startsWith e ''/'' \<or> hasDriveLetterPrefix e
         \<or> posixNormalize (backslashesToSlashes e) = ''..''
         \<or> startsWith (posixNormalize (backslashesToSlashes e)) ''../''"
  shows "\<exists>x. x \<in> set entries
            \<and> (validateArchiveEntries entries = Inl (ArchiveResolveError (AbsoluteEntryPath x))
                 \<or> validateArchiveEntries entries = Inl (ArchiveResolveError (EntryEscapesRoot x)))"
  using assms
proof (induction entries)
  case Nil
  then show ?case by simp
next
  case (Cons a entries)
  show ?case
  proof (cases "validateArchiveEntryPath a")
    case (Inl err)
    then show ?thesis
      by (auto simp: validateArchiveEntryPath_def Let_def split: if_splits)
  next
    case (Inr u)
    with validateArchiveEntryPath_unsafe [OF Cons.prems(2)] have "e \<noteq> a" by auto
    with Cons.prems have "e \<in> set entries" by simp
    from Cons.IH [OF this Cons.prems(2)] Inr show ?thesis by auto
  qed
qed

lemmas prog_defs =
  andThen_def ret_def throw_def liftE_def effect_def effectCatch_def observe_def
  mkdirSync_def mkdtempSync_def writeFileSync_def

lemmas archive_run_defs =
  resolveHttpArchive_def downloadArchive_def listArchiveEntries_def runCommand_def
  extractArchive_def computeDirectorySize_def normalizeContentPath_def detectArchiveFormat_def
  entryLines_def splitLines_def trim_def isJsSpace_def toLowerCase_def toLowerChar_def
  endsWith_def startsWith_def validateArchiveEntryPath_def backslashesToSlashes_def
  posixNormalize_def splitOn_def escapesRoot_def isAsciiLetter_def
  scriptedRuntime_def archiveScript_def
  DEFAULT_MAX_DOWNLOAD_BYTES_def DEFAULT_MAX_ENTRIES_def DEFAULT_MAX_EXTRACTED_BYTES_def

text \<open>
  C1 at an entry that the validation lets through. To \<open>tar\<close> on a POSIX system, as to
  \<open>path.posix.normalize\<close>, a backslash is an ordinary character of a name: the entry
  \<open>pkg\x/../../evil.txt\<close> has the segments \<open>pkg\x\<close>, \<open>..\<close>, \<open>..\<close> and \<open>evil.txt\<close>, its
  normalized form is \<open>../evil.txt\<close>, and extracting it writes \<open>evil.txt\<close> beside the
  extraction root. \<open>validateArchiveEntryPath\<close> replaces the backslash by a slash before
  it normalizes, reads \<open>pkg/x/../../evil.txt\<close>, finds \<open>evil.txt\<close> and accepts the entry, and
  so does \<open>validateTarEntry\<close> for the layer of an OCI artifact. An entry list that holds
  this entry passes the validation, and \<open>resolveHttpArchive\<close> goes on to create the
  extraction directory and to run the extraction command on the archive.
\<close>

theorem backslash_segment_traversal_accepted:
  "posixNormalize (''pkg'' @ [CHR 0x5C] @ ''x/../../evil.txt'') = ''../evil.txt''
   \<and> validateArchiveEntryPath (''pkg'' @ [CHR 0x5C] @ ''x/../../evil.txt'') = Inr ()
   \<and> validateArchiveEntries [''SKILL.md'', ''pkg'' @ [CHR 0x5C] @ ''x/../../evil.txt''] = Inr ()
   \<and> validateTarEntry (''pkg'' @ [CHR 0x5C] @ ''x/../../evil.txt'') = Inr ()
   \<and> take 9 (snd (snd (resolveHttpArchive
          (scriptedRuntime (archiveScript [Chunk [0x1f, 0x8b, 0x08]]
             (''SKILL.md\<newline>pkg'' @ [CHR 0x5C] @ ''x/../../evil.txt'')))
          ''https://example.com/skill.tar.gz''
          \<lparr> tempRoot = Some ''/work'', maxDownloadBytes = Some 16, maxEntries = None,
            maxExtractedBytes = None \<rparr>
          ([], []))))
     = [EvMkdir ''/work'', EvMkdtemp ''/work/skillet-archive-'',
        EvFetch ''https://example.com/skill.tar.gz'', EvRead, EvRead,
        EvWriteFile ''/work/skillet-archive-XXXXXX/archive.tar.gz'',
        EvExec ''tar'' [''-tzf'', ''/work/skillet-archive-XXXXXX/archive.tar.gz''],
        EvMkdir ''/work/skillet-archive-XXXXXX/extract'',
        EvExec ''tar'' [''-xzf'', ''/work/skillet-archive-XXXXXX/archive.tar.gz'', ''-C'',
                       ''/work/skillet-archive-XXXXXX/extract'']]"
proof -
  have normal: "posixNormalize (''pkg'' @ [CHR 0x5C] @ ''x/../../evil.txt'') = ''../evil.txt''"
    by (simp add: posixNormalize_def splitOn_def)
  have entry: "validateArchiveEntryPath (''pkg'' @ [CHR 0x5C] @ ''x/../../evil.txt'') = Inr ()"
    by (simp add: validateArchiveEntryPath_def backslashesToSlashes_def posixNormalize_def splitOn_def
        escapesRoot_def startsWith_def isAsciiLetter_def Let_def)
  have entries: "validateArchiveEntries [''SKILL.md'', ''pkg'' @ [CHR 0x5C] @ ''x/../../evil.txt''] = Inr ()"
    by (simp add: validateArchiveEntryPath_def backslashesToSlashes_def posixNormalize_def splitOn_def
        escapesRoot_def startsWith_def isAsciiLetter_def Let_def)
  have layer: "validateTarEntry (''pkg'' @ [CHR 0x5C] @ ''x/../../evil.txt'') = Inr ()"
    by (simp add: validateTarEntry_def backslashesToSlashes_def posixNormalize_def splitOn_def
        escapesRoot_def startsWith_def isAsciiLetter_def Let_def)
  have run: "take 9 (snd (snd (resolveHttpArchive
          (scriptedRuntime (archiveScript [Chunk [0x1f, 0x8b, 0x08]]
             (''SKILL.md\<newline>pkg'' @ [CHR 0x5C] @ ''x/../../evil.txt'')))
          ''https://example.com/skill.tar.gz''
          \<lparr> tempRoot = Some ''/work'', maxDownloadBytes = Some 16, maxEntries = None,
            maxExtractedBytes = None \<rparr>
          ([], []))))
     = [EvMkdir ''/work'', EvMkdtemp ''/work/skillet-archive-'',
        EvFetch ''https://example.com/skill.tar.gz'', EvRead, EvRead,
        EvWriteFile ''/work/skillet-archive-XXXXXX/archive.tar.gz'',
        EvExec ''tar'' [''-tzf'', ''/work/skillet-archive-XXXXXX/archive.tar.gz''],
        EvMkdir ''/work/skillet-archive-XXXXXX/extract'',
        EvExec ''tar'' [''-xzf'', ''/work/skillet-archive-XXXXXX/archive.tar.gz'', ''-C'',
                       ''/work/skillet-archive-XXXXXX/extract'']]"
    by (simp add: prog_defs archive_run_defs Let_def)
  show ?thesis
    by (intro conjI) (rule normal entry entries layer run)+
qed

text \<open>
  What the validation does reject, it rejects in time. The traversal test is made on the
  entry path after its backslashes have been replaced by forward slashes. Once
  \<open>listArchiveEntries\<close> has returned the entry list, if some entry starts with \<open>/\<close>, or has
  a drive-letter prefix, or the POSIX-normalized form of its forward-slash form is \<open>..\<close>
  or begins with \<open>../\<close>, then \<open>resolveHttpArchive\<close> fails with an \<open>ArchiveResolveError\<close>
  (for the entry count when that exceeds its limit, otherwise for an unsafe entry of the
  list), and it stops in the state reached by the listing: the trace ends with the listing
  command, so neither the extraction directory has been created nor an extraction command
  run.
\<close>

theorem unsafe_entry_fails_before_extraction:
  assumes root: "root = pathResolve rt (case tempRoot options of Some t \<Rightarrow> t | None \<Rightarrow> osTmpdir rt)"
    and limit: "limit = (case maxDownloadBytes options of Some n \<Rightarrow> n | None \<Rightarrow> DEFAULT_MAX_DOWNLOAD_BYTES)"
    and entryLimit: "entryLimit = (case maxEntries options of Some n \<Rightarrow> n | None \<Rightarrow> DEFAULT_MAX_ENTRIES)"
    and mk: "mkdirSync rt root s0 = (Inr (), s1)"
    and tmp: "mkdtempSync rt (pathJoin rt [root, ''skillet-archive-'']) s1 = (Inr workDir, s2)"
    and dl: "downloadArchive rt sourceUrl limit s2 = (Inr downloaded, s3)"
    and fmt: "detectArchiveFormat (downloadedUrl downloaded) (contentType downloaded) (buffer downloaded) = Inr fmt"
    and archive: "archive = pathJoin rt [workDir, if fmt = Zip then ''archive.zip'' else ''archive.tar.gz'']"
    and wr: "writeFileSync rt archive (buffer downloaded) s3 = (Inr (), s4)"
    and ls: "listArchiveEntries rt archive fmt s4 = (Inr entries, s5)"
    and mem: "e \<in> set entries"
    and unsafe: "startsWith e ''/'' \<or> hasDriveLetterPrefix e
         \<or> posixNormalize (backslashesToSlashes e) = ''..''
         \<or> startsWith (posixNormalize (backslashesToSlashes e)) ''../''"
  shows "\<exists>err n. resolveHttpArchive rt sourceUrl options s0 = (Inl (ArchiveResolveError err), s5)
           \<and> (err = EntryCountExceedsLimit entryLimit \<and> length entries > entryLimit
                \<or> (\<exists>x. x \<in> set entries \<and> (err = AbsoluteEntryPath x \<or> err = EntryEscapesRoot x)))
           \<and> snd s5 = snd s0 @ [EvMkdir root, EvMkdtemp (pathJoin rt [root, ''skillet-archive-'']),
                                 EvFetch sourceUrl] @ replicate n EvRead
                         @ [EvWriteFile archive,
                            EvExec (if fmt = Zip then ''unzip'' else ''tar'')
                                   (if fmt = Zip then [''-Z1'', archive] else [''-tzf'', archive])]"
proof -
  from validateArchiveEntries_unsafe [OF mem unsafe]
  obtain x where xin: "x \<in> set entries"
    and x: "validateArchiveEntries entries = Inl (ArchiveResolveError (AbsoluteEntryPath x))
      \<or> validateArchiveEntries entries = Inl (ArchiveResolveError (EntryEscapesRoot x))"
    by blast
  have res: "resolveHttpArchive rt sourceUrl options s0 =
      (if length entries > entryLimit
       then (Inl (ArchiveResolveError (EntryCountExceedsLimit entryLimit)), s5)
       else (case validateArchiveEntries entries of
               Inl err \<Rightarrow> (Inl err, s5)
             | Inr u \<Rightarrow> undefined))" if "isl (validateArchiveEntries entries)"
    using that mk tmp dl fmt wr ls
    unfolding resolveHttpArchive_def Let_def root [symmetric] limit [symmetric]
      entryLimit [symmetric]
    by (auto simp: andThen_def liftE_def throw_def archive [symmetric] split: sum.splits)
  from x have isl: "isl (validateArchiveEntries entries)" by auto
  from mk have t1: "snd s1 = snd s0 @ [EvMkdir root]"
    by (auto simp: mkdirSync_def effect_def effectCatch_def split: prod.splits sum.splits)
  from tmp have t2: "snd s2 = snd s1 @ [EvMkdtemp (pathJoin rt [root, ''skillet-archive-''])]"
    by (auto simp: mkdtempSync_def effect_def effectCatch_def split: prod.splits sum.splits)
  from downloadArchive_trace [OF dl]
  obtain n where t3: "snd s3 = snd s2 @ [EvFetch sourceUrl] @ replicate n EvRead" by blast
  from wr have t4: "snd s4 = snd s3 @ [EvWriteFile archive]"
    by (auto simp: writeFileSync_def effect_def effectCatch_def split: prod.splits sum.splits)
  from ls have t5: "snd s5 = snd s4 @ [EvExec (if fmt = Zip then ''unzip'' else ''tar'')
                                   (if fmt = Zip then [''-Z1'', archive] else [''-tzf'', archive])]"
    by (auto simp: listArchiveEntries_def runCommand_def andThen_def ret_def effectCatch_def Let_def
        split: prod.splits sum.splits if_splits)
  show ?thesis
  proof (cases "length entries > entryLimit")
    case True
    with res [OF isl] t1 t2 t3 t4 t5 show ?thesis by auto
  next
    case False
    with res [OF isl] x xin t1 t2 t3 t4 t5 show ?thesis by auto
  qed
qed

text \<open>The rejection on a run whose archive lists \<open>SKILL.md\<close> and \<open>../evil.txt\<close>.\<close>

theorem unsafe_entry_fails_before_extraction_witness:
  "mkdirSync (scriptedRuntime (archiveScript [Chunk [0x1f, 0x8b, 0x08]] ''SKILL.md\<newline>../evil.txt''))
       ''/work'' ([], [])
     = (Inr (), ([(''/work'', IsDirectory)], [EvMkdir ''/work'']))
   \<and> listArchiveEntries (scriptedRuntime (archiveScript [Chunk [0x1f, 0x8b, 0x08]] ''SKILL.md\<newline>../evil.txt''))
       ''/work/skillet-archive-XXXXXX/archive.tar.gz'' TarGz
       ([(''/work/skillet-archive-XXXXXX/archive.tar.gz'', IsFile),
         (''/work/skillet-archive-XXXXXX'', IsDirectory), (''/work'', IsDirectory)],
        [EvMkdir ''/work'', EvMkdtemp ''/work/skillet-archive-'',
         EvFetch ''https://example.com/skill.tar.gz'', EvRead, EvRead,
         EvWriteFile ''/work/skillet-archive-XXXXXX/archive.tar.gz''])
     = (Inr [''SKILL.md'', ''../evil.txt''],
        ([(''/work/skillet-archive-XXXXXX/archive.tar.gz'', IsFile),
          (''/work/skillet-archive-XXXXXX'', IsDirectory), (''/work'', IsDirectory)],
         [EvMkdir ''/work'', EvMkdtemp ''/work/skillet-archive-'',
          EvFetch ''https://example.com/skill.tar.gz'', EvRead, EvRead,
          EvWriteFile ''/work/skillet-archive-XXXXXX/archive.tar.gz'',
          EvExec ''tar'' [''-tzf'', ''/work/skillet-archive-XXXXXX/archive.tar.gz'']]))
   \<and> ''../evil.txt'' \<in> set [''SKILL.md'', ''../evil.txt'']
   \<and> startsWith (posixNormalize (backslashesToSlashes ''../evil.txt'')) ''../''
   \<and> (\<exists>err. resolveHttpArchive
          (scriptedRuntime (archiveScript [Chunk [0x1f, 0x8b, 0x08]] ''SKILL.md\<newline>../evil.txt''))
          ''https://example.com/skill.tar.gz''
          \<lparr> tempRoot = Some ''/work'', maxDownloadBytes = Some 16, maxEntries = None,
            maxExtractedBytes = None \<rparr>
          ([], [])
        = (Inl (ArchiveResolveError err),
           ([(''/work/skillet-archive-XXXXXX/archive.tar.gz'', IsFile),
             (''/work/skillet-archive-XXXXXX'', IsDirectory), (''/work'', IsDirectory)],
            [EvMkdir ''/work'', EvMkdtemp ''/work/skillet-archive-'',
             EvFetch ''https://example.com/skill.tar.gz'', EvRead, EvRead,
             EvWriteFile ''/work/skillet-archive-XXXXXX/archive.tar.gz'',
             EvExec ''tar'' [''-tzf'', ''/work/skillet-archive-XXXXXX/archive.tar.gz'']])))"
proof -
  let ?rt = "scriptedRuntime (archiveScript [Chunk [0x1f, 0x8b, 0x08]] ''SKILL.md\<newline>../evil.txt'')"
  let ?options = "\<lparr> tempRoot = Some ''/work'', maxDownloadBytes = Some 16, maxEntries = None,
            maxExtractedBytes = None \<rparr>"
  let ?w2 = "[(''/work/skillet-archive-XXXXXX'', IsDirectory), (''/work'', IsDirectory)]"
  let ?w4 = "(''/work/skillet-archive-XXXXXX/archive.tar.gz'', IsFile) # ?w2"
  let ?t2 = "[EvMkdir ''/work'', EvMkdtemp ''/work/skillet-archive-'']"
  let ?t3 = "?t2 @ [EvFetch ''https://example.com/skill.tar.gz'', EvRead, EvRead]"
  let ?t4 = "?t3 @ [EvWriteFile ''/work/skillet-archive-XXXXXX/archive.tar.gz'']"
  let ?t5 = "?t4 @ [EvExec ''tar'' [''-tzf'', ''/work/skillet-archive-XXXXXX/archive.tar.gz'']]"
  let ?d = "\<lparr> buffer = [0x1f, 0x8b, 0x08], contentType = ''application/gzip'',
             downloadedUrl = ''https://example.com/skill.tar.gz'' \<rparr>"
  have root: "''/work'' = pathResolve ?rt (case tempRoot ?options of Some t \<Rightarrow> t | None \<Rightarrow> osTmpdir ?rt)"
    by (simp add: scriptedRuntime_def)
  have limit: "16 = (case maxDownloadBytes ?options of Some n \<Rightarrow> n | None \<Rightarrow> DEFAULT_MAX_DOWNLOAD_BYTES)"
    by simp
  have entryLimit: "10000 = (case maxEntries ?options of Some n \<Rightarrow> n | None \<Rightarrow> DEFAULT_MAX_ENTRIES)"
    by (simp add: DEFAULT_MAX_ENTRIES_def)
  have mk: "mkdirSync ?rt ''/work'' ([], []) = (Inr (), ([(''/work'', IsDirectory)], [EvMkdir ''/work'']))"
    by (simp add: prog_defs scriptedRuntime_def)
  have tmp: "mkdtempSync ?rt (pathJoin ?rt [''/work'', ''skillet-archive-''])
               ([(''/work'', IsDirectory)], [EvMkdir ''/work''])
             = (Inr ''/work/skillet-archive-XXXXXX'', (?w2, ?t2))"
    by (simp add: prog_defs scriptedRuntime_def)
  have dl: "downloadArchive ?rt ''https://example.com/skill.tar.gz'' 16 (?w2, ?t2) = (Inr ?d, (?w2, ?t3))"
    by (simp add: prog_defs archive_run_defs Let_def)
  have fmt: "detectArchiveFormat (downloadedUrl ?d) (contentType ?d) (buffer ?d) = Inr TarGz"
    by (simp add: archive_run_defs Let_def)
  have archive: "''/work/skillet-archive-XXXXXX/archive.tar.gz''
      = pathJoin ?rt [''/work/skillet-archive-XXXXXX'', if TarGz = Zip then ''archive.zip'' else ''archive.tar.gz'']"
    by (simp add: scriptedRuntime_def)
  have wr: "writeFileSync ?rt ''/work/skillet-archive-XXXXXX/archive.tar.gz'' (buffer ?d) (?w2, ?t3)
      = (Inr (), (?w4, ?t4))"
    by (simp add: prog_defs scriptedRuntime_def)
  have ls: "listArchiveEntries ?rt ''/work/skillet-archive-XXXXXX/archive.tar.gz'' TarGz (?w4, ?t4)
      = (Inr [''SKILL.md'', ''../evil.txt''], (?w4, ?t5))"
    by (simp add: prog_defs archive_run_defs Let_def)
  have mem: "''../evil.txt'' \<in> set [''SKILL.md'', ''../evil.txt'']" by simp
  have starts: "startsWith (posixNormalize (backslashesToSlashes ''../evil.txt'')) ''../''"
    by (simp add: archive_run_defs)
  then have unsafe: "startsWith ''../evil.txt'' ''/'' \<or> hasDriveLetterPrefix ''../evil.txt''
         \<or> posixNormalize (backslashesToSlashes ''../evil.txt'') = ''..''
         \<or> startsWith (posixNormalize (backslashesToSlashes ''../evil.txt'')) ''../''"
    by blast
  from unsafe_entry_fails_before_extraction
    [OF root limit entryLimit mk tmp dl fmt archive wr ls mem unsafe]
  have "\<exists>err. resolveHttpArchive ?rt ''https://example.com/skill.tar.gz'' ?options ([], [])
          = (Inl (ArchiveResolveError err), (?w4, ?t5))"
    by blast
  with mk ls mem starts show ?thesis by simp
qed

text \<open>
  C4: when the body of the response delivers chunks whose lengths add up to more than the
  download limit, \<open>resolveHttpArchive\<close> fails with the \<open>ArchiveResolveError\<close> of the
  download limit at the read \<open>k\<close> whose chunk first takes the running count above the
  limit (the count after \<open>k - 1\<close> chunks is still within it), whatever the stream holds
  after that. Up to that point the run has created the temporary directories, fetched and
  read \<open>k\<close> times: nothing has been written.
\<close>

theorem download_cap_aborts_midstream:
  assumes root: "root = pathResolve rt (case tempRoot options of Some t \<Rightarrow> t | None \<Rightarrow> osTmpdir rt)"
    and limit: "limit = (case maxDownloadBytes options of Some n \<Rightarrow> n | None \<Rightarrow> DEFAULT_MAX_DOWNLOAD_BYTES)"
    and mk: "rtMkdirSync rt root w0 = (Inr (), w1)"
    and tmp: "rtMkdtempSync rt (pathJoin rt [root, ''skillet-archive-'']) w1 = (Inr workDir, w2)"
    and fetch: "rtFetch rt sourceUrl w2 = (Inr response, w3)"
    and ok: "responseOk response"
    and body: "responseBody response = Some (map Chunk cs @ rest)"
    and exceeds: "limit < sum_list (map length cs)"
  shows "\<exists>k. 0 < k \<and> k \<le> length cs
           \<and> limit < sum_list (map length (take k cs))
           \<and> sum_list (map length (take (k - 1) cs)) \<le> limit
           \<and> resolveHttpArchive rt sourceUrl options (w0, tr)
               = (Inl (ArchiveResolveError (DownloadExceedsLimit limit)),
                  (w3, tr @ [EvMkdir root, EvMkdtemp (pathJoin rt [root, ''skillet-archive-'']),
                            EvFetch sourceUrl] @ replicate k EvRead))"
proof -
  let ?tr3 = "tr @ [EvMkdir root, EvMkdtemp (pathJoin rt [root, ''skillet-archive-'']), EvFetch sourceUrl]"
  from exceeds have "limit < 0 + sum_list (map length cs)" by simp
  from readLoop_exceeds [OF this, of rest "[]" w3 ?tr3]
  obtain k where k: "0 < k" "k \<le> length cs" "limit < sum_list (map length (take k cs))"
    "sum_list (map length (take (k - 1) cs)) \<le> limit"
    "readLoop limit (map Chunk cs @ rest) [] 0 (w3, ?tr3)
       = (Inl (ArchiveResolveError (DownloadExceedsLimit limit)), (w3, ?tr3 @ replicate k EvRead))"
    by auto
  have "resolveHttpArchive rt sourceUrl options (w0, tr)
      = (Inl (ArchiveResolveError (DownloadExceedsLimit limit)), (w3, ?tr3 @ replicate k EvRead))"
    unfolding resolveHttpArchive_def Let_def root [symmetric] limit [symmetric]
    using mk tmp fetch ok body k(5)
    by (simp add: prog_defs downloadArchive_def)
  with k show ?thesis by auto
qed

text \<open>C4 on a body of three chunks of 10, 10 and 1 bytes with a limit of 16 bytes.\<close>

theorem download_cap_aborts_midstream_witness:
  "rtFetch (scriptedRuntime (archiveScript
              [Chunk (replicate 10 0), Chunk (replicate 10 1), Chunk [2]] ''SKILL.md''))
       ''https://example.com/skill.tar.gz''
       [(''/work/skillet-archive-XXXXXX'', IsDirectory), (''/work'', IsDirectory)]
     = (Inr \<lparr> responseOk = True, responseStatus = 200, responseStatusText = ''OK'',
              responseBody = Some (map Chunk [replicate 10 0, replicate 10 1] @ [Chunk [2]]),
              responseText = Inl ''body used'', responseBytes = Inl ''body used'',
              responseContentType = Some ''application/gzip'', responseDigest = None,
              responseUrl = ''https://example.com/skill.tar.gz'' \<rparr>,
        [(''/work/skillet-archive-XXXXXX'', IsDirectory), (''/work'', IsDirectory)])
   \<and> (16::nat) < sum_list (map length [replicate 10 (0::byte), replicate 10 1])
   \<and> (\<exists>k. 0 < k \<and> k \<le> 2
        \<and> resolveHttpArchive
             (scriptedRuntime (archiveScript
                [Chunk (replicate 10 0), Chunk (replicate 10 1), Chunk [2]] ''SKILL.md''))
             ''https://example.com/skill.tar.gz''
             \<lparr> tempRoot = Some ''/work'', maxDownloadBytes = Some 16, maxEntries = None,
               maxExtractedBytes = None \<rparr>
             ([], [])
           = (Inl (ArchiveResolveError (DownloadExceedsLimit 16)),
              ([(''/work/skillet-archive-XXXXXX'', IsDirectory), (''/work'', IsDirectory)],
               [EvMkdir ''/work'', EvMkdtemp ''/work/skillet-archive-'',
                EvFetch ''https://example.com/skill.tar.gz''] @ replicate k EvRead)))"
proof -
  let ?rt = "scriptedRuntime (archiveScript
                [Chunk (replicate 10 0), Chunk (replicate 10 1), Chunk [2]] ''SKILL.md'')"
  let ?options = "\<lparr> tempRoot = Some ''/work'', maxDownloadBytes = Some 16, maxEntries = None,
            maxExtractedBytes = None \<rparr>"
  let ?w2 = "[(''/work/skillet-archive-XXXXXX'', IsDirectory), (''/work'', IsDirectory)]"
  let ?response = "\<lparr> responseOk = True, responseStatus = 200, responseStatusText = ''OK'',
              responseBody = Some (map Chunk [replicate 10 0, replicate 10 1] @ [Chunk [2]]),
              responseText = Inl ''body used'', responseBytes = Inl ''body used'',
              responseContentType = Some ''application/gzip'', responseDigest = None,
              responseUrl = ''https://example.com/skill.tar.gz'' \<rparr>"
  have root: "''/work'' = pathResolve ?rt (case tempRoot ?options of Some t \<Rightarrow> t | None \<Rightarrow> osTmpdir ?rt)"
    by (simp add: scriptedRuntime_def)
  have limit: "16 = (case maxDownloadBytes ?options of Some n \<Rightarrow> n | None \<Rightarrow> DEFAULT_MAX_DOWNLOAD_BYTES)"
    by simp
  have mk: "rtMkdirSync ?rt ''/work'' [] = (Inr (), [(''/work'', IsDirectory)])"
    by (simp add: scriptedRuntime_def)
  have tmp: "rtMkdtempSync ?rt (pathJoin ?rt [''/work'', ''skillet-archive-'']) [(''/work'', IsDirectory)]
      = (Inr ''/work/skillet-archive-XXXXXX'', ?w2)"
    by (simp add: scriptedRuntime_def)
  have fetch: "rtFetch ?rt ''https://example.com/skill.tar.gz'' ?w2 = (Inr ?response, ?w2)"
    by (simp add: scriptedRuntime_def archiveScript_def)
  have ok: "responseOk ?response" by simp
  have body: "responseBody ?response = Some (map Chunk [replicate 10 0, replicate 10 1] @ [Chunk [2]])"
    by simp
  have exceeds: "(16::nat) < sum_list (map length [replicate 10 (0::byte), replicate 10 1])"
    by simp
  from download_cap_aborts_midstream [OF root limit mk tmp fetch ok body exceeds, of "[]"]
  have "\<exists>k. 0 < k \<and> k \<le> 2
        \<and> resolveHttpArchive ?rt ''https://example.com/skill.tar.gz'' ?options ([], [])
           = (Inl (ArchiveResolveError (DownloadExceedsLimit 16)),
              (?w2, [EvMkdir ''/work'', EvMkdtemp ''/work/skillet-archive-'',
                EvFetch ''https://example.com/skill.tar.gz''] @ replicate k EvRead))"
    by (auto simp: scriptedRuntime_def)
  with fetch exceeds show ?thesis by simp
qed

subsection \<open>The installer\<close>

lemma andThen_Inr:
  "andThen m f s = (Inr r, s') \<Longrightarrow> \<exists>a s1. m s = (Inr a, s1) \<and> f a s1 = (Inr r, s')"
  by (auto simp: andThen_def split: prod.splits sum.splits)

lemma installIntoTarget_method:
  "installIntoTarget rt stored installed copyPreferred symlink s = (Inr how, s') \<Longrightarrow>
   how = Symlink \<or> how = Copy"
  by (cases how) simp_all

lemmas install_run_defs =
  installSkill_def installIntoTarget_def replaceSymlinkAtomically_def replaceDirectoryAtomically_def
  assertReplaceableInstallPath_def removePathIfExists_def randomSuffix_def digestSourceId_def
  isDirectory_def tryCatch_def sample_def installConflictMessage_def
  scriptedRuntime_def idleScript_def installOptions_def installWorld_def splitOn_def


text \<open>
  C8, amended: when the install path \<open>targetSkillsDir/skillName\<close> is occupied by an entry
  that is neither a directory nor a symbolic link (the target skills directory then being a
  directory), \<open>installSkill\<close> fails with an \<open>InstallConflictError\<close> and has changed
  nothing: the world and the trace are those it started from, so nothing was copied into
  the storage root. The error carries the occupied install path when the source skill path
  is a directory; when it is not, the check of the source comes first and the error carries
  the source skill path.
\<close>

theorem install_conflict_before_any_change:
  assumes source: "source = pathResolve rt (sourceSkillPath options)"
    and target: "target = pathResolve rt (targetSkillsDir options)"
    and installed: "installed = pathJoin rt [target, pathBasename rt source]"
    and targetDir: "isDirectory rt target w"
    and exists: "rtExistsSync rt installed w"
    and lstat: "rtLstatSync rt installed w = Inr entry"
    and kind: "statKind entry \<noteq> IsDirectory \<and> statKind entry \<noteq> IsSymbolicLink"
  shows "installSkill rt options (w, tr)
         = (if isDirectory rt source w
            then (Inl (InstallConflictError (installConflictMessage installed) installed), (w, tr))
            else (Inl (InstallConflictError (''Source skill path is not a directory: '' @ source) source),
                  (w, tr)))"
  using targetDir exists lstat kind
  unfolding installSkill_def Let_def source [symmetric] target [symmetric] installed [symmetric]
  by (simp add: assertReplaceableInstallPath_def andThen_def observe_def throw_def)

text \<open>
  C9: whenever \<open>installSkill\<close> returns a result, its \<open>changed\<close> field is true and its
  method is \<open>symlink\<close> with a message that starts with \<open>symlinked\<close>, or \<open>copy\<close> with a
  message that starts with \<open>copied\<close>. Nothing in the run compares the source with what is
  installed, so this holds for a second install of the same content as well.
\<close>

theorem install_result_reports_changed:
  assumes "installSkill rt options s = (Inr r, s')"
  shows "changed r
         \<and> (method' r = Symlink \<and> message r = ''symlinked '' @ skillName r @ '' to '' @ installedPath r
             \<or> method' r = Copy \<and> message r = ''copied '' @ skillName r @ '' to '' @ installedPath r)"
proof -
  let ?source = "pathResolve rt (sourceSkillPath options)"
  let ?target = "pathResolve rt (targetSkillsDir options)"
  let ?name = "pathBasename rt ?source"
  let ?stored = "pathJoin rt [pathResolve rt (storageRoot options), digestSourceId rt (sourceId options), ?name]"
  let ?installed = "pathJoin rt [?target, ?name]"
  from assms have run:
    "andThen (assertReplaceableInstallPath rt ?installed) (\<lambda>_.
     andThen (mkdirSync rt ?target) (\<lambda>_.
     andThen (replaceDirectoryAtomically rt ?source ?stored) (\<lambda>_.
     andThen (installIntoTarget rt ?stored ?installed (preferCopy options = Some True) (symlinkFn options))
       (\<lambda>how.
          let action = (if how = Symlink then ''symlinked'' else ''copied'') in
          ret \<lparr> skillName = ?name, storagePath = ?stored, installedPath = ?installed, method' = how,
                changed = True, message = action @ '' '' @ ?name @ '' to '' @ ?installed \<rparr>)))) s
     = (Inr r, s')"
    by (simp add: installSkill_def Let_def throw_def split: if_splits)
  from andThen_Inr [OF run] obtain s1 where
    "andThen (mkdirSync rt ?target) (\<lambda>_.
     andThen (replaceDirectoryAtomically rt ?source ?stored) (\<lambda>_.
     andThen (installIntoTarget rt ?stored ?installed (preferCopy options = Some True) (symlinkFn options))
       (\<lambda>how.
          let action = (if how = Symlink then ''symlinked'' else ''copied'') in
          ret \<lparr> skillName = ?name, storagePath = ?stored, installedPath = ?installed, method' = how,
                changed = True, message = action @ '' '' @ ?name @ '' to '' @ ?installed \<rparr>))) s1
     = (Inr r, s')" by blast
  from andThen_Inr [OF this] obtain s2 where
    "andThen (replaceDirectoryAtomically rt ?source ?stored) (\<lambda>_.
     andThen (installIntoTarget rt ?stored ?installed (preferCopy options = Some True) (symlinkFn options))
       (\<lambda>how.
          let action = (if how = Symlink then ''symlinked'' else ''copied'') in
          ret \<lparr> skillName = ?name, storagePath = ?stored, installedPath = ?installed, method' = how,
                changed = True, message = action @ '' '' @ ?name @ '' to '' @ ?installed \<rparr>)) s2
     = (Inr r, s')" by blast
  from andThen_Inr [OF this] obtain s3 where
    "andThen (installIntoTarget rt ?stored ?installed (preferCopy options = Some True) (symlinkFn options))
       (\<lambda>how.
          let action = (if how = Symlink then ''symlinked'' else ''copied'') in
          ret \<lparr> skillName = ?name, storagePath = ?stored, installedPath = ?installed, method' = how,
                changed = True, message = action @ '' '' @ ?name @ '' to '' @ ?installed \<rparr>) s3
     = (Inr r, s')" by blast
  from andThen_Inr [OF this] obtain how where
    r: "r = \<lparr> skillName = ?name, storagePath = ?stored, installedPath = ?installed, method' = how,
              changed = True,
              message = (if how = Symlink then ''symlinked'' else ''copied'') @ '' '' @ ?name @ '' to '' @ ?installed \<rparr>"
    by (auto simp: ret_def Let_def)
  show ?thesis
    by (cases how) (simp_all add: r)
qed

text \<open>
  C8, as stated, fails: with the install path occupied by a regular file and a source skill
  path that is not a directory, the \<open>InstallConflictError\<close> carries the source skill path,
  not the occupied install path.
\<close>

theorem install_conflict_source_path_counterexample:
  "rtExistsSync (scriptedRuntime idleScript) ''/proj/.claude/skills/alpha''
       [(''/proj/.claude/skills/alpha'', IsFile), (''/proj/.claude/skills'', IsDirectory)]
   \<and> rtLstatSync (scriptedRuntime idleScript) ''/proj/.claude/skills/alpha''
       [(''/proj/.claude/skills/alpha'', IsFile), (''/proj/.claude/skills'', IsDirectory)]
     = Inr \<lparr> statKind = IsFile, statSize = 0 \<rparr>
   \<and> installSkill (scriptedRuntime idleScript) installOptions
       ([(''/proj/.claude/skills/alpha'', IsFile), (''/proj/.claude/skills'', IsDirectory)], [])
     = (Inl (InstallConflictError ''Source skill path is not a directory: /src/alpha'' ''/src/alpha''),
        ([(''/proj/.claude/skills/alpha'', IsFile), (''/proj/.claude/skills'', IsDirectory)], []))"
  by (simp add: prog_defs install_run_defs Let_def)

text \<open>The amended C8 on a target directory where a regular file is named like the skill.\<close>

theorem install_conflict_before_any_change_witness:
  "isDirectory (scriptedRuntime idleScript) ''/proj/.claude/skills''
       ((''/proj/.claude/skills/alpha'', IsFile) # (''/proj/.claude/skills'', IsDirectory) # installWorld)
   \<and> rtExistsSync (scriptedRuntime idleScript) ''/proj/.claude/skills/alpha''
       ((''/proj/.claude/skills/alpha'', IsFile) # (''/proj/.claude/skills'', IsDirectory) # installWorld)
   \<and> rtLstatSync (scriptedRuntime idleScript) ''/proj/.claude/skills/alpha''
       ((''/proj/.claude/skills/alpha'', IsFile) # (''/proj/.claude/skills'', IsDirectory) # installWorld)
     = Inr \<lparr> statKind = IsFile, statSize = 0 \<rparr>
   \<and> installSkill (scriptedRuntime idleScript) installOptions
       ((''/proj/.claude/skills/alpha'', IsFile) # (''/proj/.claude/skills'', IsDirectory) # installWorld, [])
     = (Inl (InstallConflictError
              ''Install conflict at /proj/.claude/skills/alpha: existing path is not a directory or symlink''
              ''/proj/.claude/skills/alpha''),
        ((''/proj/.claude/skills/alpha'', IsFile) # (''/proj/.claude/skills'', IsDirectory) # installWorld, []))"
proof -
  let ?rt = "scriptedRuntime idleScript"
  let ?w = "(''/proj/.claude/skills/alpha'', IsFile) # (''/proj/.claude/skills'', IsDirectory) # installWorld"
  have source: "''/src/alpha'' = pathResolve ?rt (sourceSkillPath installOptions)"
    by (simp add: install_run_defs)
  have target: "''/proj/.claude/skills'' = pathResolve ?rt (targetSkillsDir installOptions)"
    by (simp add: install_run_defs)
  have installed: "''/proj/.claude/skills/alpha''
      = pathJoin ?rt [''/proj/.claude/skills'', pathBasename ?rt ''/src/alpha'']"
    by (simp add: install_run_defs)
  have targetDir: "isDirectory ?rt ''/proj/.claude/skills'' ?w"
    by (simp add: install_run_defs)
  have exists: "rtExistsSync ?rt ''/proj/.claude/skills/alpha'' ?w"
    by (simp add: install_run_defs)
  have lstat: "rtLstatSync ?rt ''/proj/.claude/skills/alpha'' ?w = Inr \<lparr> statKind = IsFile, statSize = 0 \<rparr>"
    by (simp add: install_run_defs)
  have kind: "statKind \<lparr> statKind = IsFile, statSize = 0 \<rparr> \<noteq> IsDirectory
      \<and> statKind \<lparr> statKind = IsFile, statSize = 0 \<rparr> \<noteq> IsSymbolicLink"
    by simp
  have sourceDir: "isDirectory ?rt ''/src/alpha'' ?w"
    by (simp add: install_run_defs)
  from install_conflict_before_any_change [OF source target installed targetDir exists lstat kind, of "[]"]
    sourceDir targetDir exists lstat
  show ?thesis by (simp add: installConflictMessage_def)
qed

text \<open>C9 on an install and on the same install run again in the world the first one left.\<close>

theorem install_result_reports_changed_witness:
  "installSkill (scriptedRuntime idleScript) installOptions (installWorld, [])
     = (Inr \<lparr> skillName = ''alpha'',
              storagePath = ''/store/9f86d081884c7d65/alpha'',
              installedPath = ''/proj/.claude/skills/alpha'',
              method' = Symlink,
              changed = True,
              message = ''symlinked alpha to /proj/.claude/skills/alpha'' \<rparr>,
        snd (installSkill (scriptedRuntime idleScript) installOptions (installWorld, [])))
   \<and> fst (installSkill (scriptedRuntime idleScript) installOptions
            (snd (installSkill (scriptedRuntime idleScript) installOptions (installWorld, []))))
     = Inr \<lparr> skillName = ''alpha'',
             storagePath = ''/store/9f86d081884c7d65/alpha'',
             installedPath = ''/proj/.claude/skills/alpha'',
             method' = Symlink,
             changed = True,
             message = ''symlinked alpha to /proj/.claude/skills/alpha'' \<rparr>
   \<and> changed \<lparr> skillName = ''alpha'',
             storagePath = ''/store/9f86d081884c7d65/alpha'',
             installedPath = ''/proj/.claude/skills/alpha'',
             method' = Symlink,
             changed = True,
             message = ''symlinked alpha to /proj/.claude/skills/alpha'' \<rparr>"
proof -
  let ?rt = "scriptedRuntime idleScript"
  let ?r = "\<lparr> skillName = ''alpha'',
              storagePath = ''/store/9f86d081884c7d65/alpha'',
              installedPath = ''/proj/.claude/skills/alpha'',
              method' = Symlink,
              changed = True,
              message = ''symlinked alpha to /proj/.claude/skills/alpha'' \<rparr>"
  have first: "fst (installSkill ?rt installOptions (installWorld, [])) = Inr ?r"
    by (simp add: prog_defs install_run_defs Let_def)
  then have run1: "installSkill ?rt installOptions (installWorld, [])
      = (Inr ?r, snd (installSkill ?rt installOptions (installWorld, [])))"
    by (metis prod.collapse)
  have second: "fst (installSkill ?rt installOptions (snd (installSkill ?rt installOptions (installWorld, []))))
      = Inr ?r"
    by (simp add: prog_defs install_run_defs Let_def)
  from install_result_reports_changed [OF run1] have "changed ?r" by blast
  with run1 second show ?thesis by simp
qed

subsection \<open>The OCI resolver\<close>

text \<open>
  C6: once the manifest has been fetched and parsed, if it is not a JSON object whose
  \<open>artifactType\<close> is the string \<open>application/vnd.skillet.skill.v1+tar\<close> (the field may
  be missing, or hold another string or another kind of value), \<open>resolveOciSource\<close>
  fails with an \<open>OciResolveError\<close>: the one for a manifest that is not an object, or the
  one for an unsupported artifact type. Nothing about the layers is assumed, and the run
  stops in the state the manifest request left: no layer is requested, nothing is written.
\<close>

theorem foreign_artifact_type_rejected:
  assumes parsedRef: "parseOciReference source = Inr parsedRef"
    and scheme: "scheme = (if insecureHttp options = Some True \<or> isLocalRegistry (registry parsedRef)
                           then ''http'' else ''https'')"
    and root: "root = pathResolve rt (case ociTempRoot options of Some t \<Rightarrow> t | None \<Rightarrow> osTmpdir rt)"
    and mk: "mkdirSync rt root s0 = (Inr (), s1)"
    and tmp: "mkdtempSync rt (pathJoin rt [root, ''skillet-oci-'']) s1 = (Inr workDir, s2)"
    and fetch: "fetchWithErrors rt
                  (scheme @ ''://'' @ registry parsedRef @ ''/v2/'' @ repository parsedRef @ ''/manifests/'' @ reference parsedRef)
                  s2 = (Inr manifestResponse, s3)"
    and body: "responseText manifestResponse = Inr manifestText"
    and json: "jsonParse rt manifestText = Some manifest"
    and foreign: "\<forall>manifestRecord. manifest = JObject manifestRecord
                    \<longrightarrow> map_of manifestRecord ''artifactType'' \<noteq> Some (JString SKILLET_ARTIFACT_TYPE)"
  shows "\<exists>e. resolveOciSource rt source options s0 = (Inl (OciResolveError e), s3)
           \<and> (e = ManifestNotObject \<and> (\<forall>manifestRecord. manifest \<noteq> JObject manifestRecord)
                \<or> (\<exists>manifestRecord. manifest = JObject manifestRecord
                      \<and> e = UnsupportedArtifactType (map_of manifestRecord ''artifactType'')))"
proof (cases manifest)
  case (JObject manifestRecord)
  with foreign have "map_of manifestRecord ''artifactType'' \<noteq> Some (JString SKILLET_ARTIFACT_TYPE)"
    by simp
  with JObject parsedRef mk tmp fetch body json
  have "resolveOciSource rt source options s0
      = (Inl (OciResolveError (UnsupportedArtifactType (map_of manifestRecord ''artifactType''))), s3)"
    unfolding resolveOciSource_def Let_def scheme root
    by (simp add: andThen_def liftE_def throw_def observe_def split del: if_split)
  with JObject show ?thesis by simp
qed (use parsedRef mk tmp fetch body json in
      \<open>simp_all add: resolveOciSource_def Let_def scheme root
         andThen_def liftE_def throw_def observe_def split del: if_split\<close>)

lemmas oci_run_defs =
  resolveOciSource_def parseOciReference_def fetchWithErrors_def isLocalRegistry_def
  lastIndexOfChar_def splitOn_def trim_def isJsSpace_def startsWith_def
  scriptedRuntime_def ociScript_def imageManifest_def SKILLET_ARTIFACT_TYPE_def

text \<open>C6 on a manifest that declares an image configuration and has a well-formed layer.\<close>

theorem foreign_artifact_type_rejected_witness:
  "parseOciReference ''oci://registry.example.com/skills/demo:1.0''
     = Inr \<lparr> registry = ''registry.example.com'', repository = ''skills/demo'',
             referenceType = TagReference, reference = ''1.0'' \<rparr>
   \<and> jsonParse (scriptedRuntime (ociScript imageManifest)) ''{manifest}'' = Some imageManifest
   \<and> imageManifest
       = JObject [(''schemaVersion'', JNumber ''2''),
                  (''artifactType'', JString ''application/vnd.oci.image.config.v1+json''),
                  (''layers'', JArray [JObject [(''digest'', JString ''sha256:0123abcd'')]])]
   \<and> map_of [(''schemaVersion'', JNumber ''2''),
              (''artifactType'', JString ''application/vnd.oci.image.config.v1+json''),
              (''layers'', JArray [JObject [(''digest'', JString ''sha256:0123abcd'')]])]
         ''artifactType''
       \<noteq> Some (JString SKILLET_ARTIFACT_TYPE)
   \<and> resolveOciSource (scriptedRuntime (ociScript imageManifest))
         ''oci://registry.example.com/skills/demo:1.0''
         \<lparr> ociTempRoot = Some ''/work'', insecureHttp = None \<rparr> ([], [])
       = (Inl (OciResolveError (UnsupportedArtifactType
                 (Some (JString ''application/vnd.oci.image.config.v1+json'')))),
          ([(''/work/skillet-oci-XXXXXX'', IsDirectory), (''/work'', IsDirectory)],
           [EvMkdir ''/work'', EvMkdtemp ''/work/skillet-oci-'',
            EvFetch ''https://registry.example.com/v2/skills/demo/manifests/1.0'']))"
proof -
  let ?rt = "scriptedRuntime (ociScript imageManifest)"
  let ?options = "\<lparr> ociTempRoot = Some ''/work'', insecureHttp = None \<rparr>"
  let ?ref = "\<lparr> registry = ''registry.example.com'', repository = ''skills/demo'',
             referenceType = TagReference, reference = ''1.0'' \<rparr>"
  let ?fields = "[(''schemaVersion'', JNumber ''2''),
              (''artifactType'', JString ''application/vnd.oci.image.config.v1+json''),
              (''layers'', JArray [JObject [(''digest'', JString ''sha256:0123abcd'')]])]"
  let ?response = "\<lparr> responseOk = True, responseStatus = 200, responseStatusText = ''OK'',
                      responseBody = None, responseText = Inr ''{manifest}'',
                      responseBytes = Inr [],
                      responseContentType = Some ''application/vnd.oci.image.manifest.v1+json'',
                      responseDigest = None,
                      responseUrl = ''https://registry.example.com/v2/skills/demo/manifests/1.0'' \<rparr>"
  let ?w2 = "[(''/work/skillet-oci-XXXXXX'', IsDirectory), (''/work'', IsDirectory)]"
  let ?s3 = "(?w2, [EvMkdir ''/work'', EvMkdtemp ''/work/skillet-oci-'',
            EvFetch ''https://registry.example.com/v2/skills/demo/manifests/1.0''])"
  have ref: "parseOciReference ''oci://registry.example.com/skills/demo:1.0'' = Inr ?ref"
    by (simp add: oci_run_defs Let_def)
  have scheme: "''https'' = (if insecureHttp ?options = Some True \<or> isLocalRegistry (registry ?ref)
                           then ''http'' else ''https'')"
    by (simp add: oci_run_defs)
  have root: "''/work'' = pathResolve ?rt (case ociTempRoot ?options of Some t \<Rightarrow> t | None \<Rightarrow> osTmpdir ?rt)"
    by (simp add: scriptedRuntime_def)
  have mk: "mkdirSync ?rt ''/work'' ([], []) = (Inr (), ([(''/work'', IsDirectory)], [EvMkdir ''/work'']))"
    by (simp add: prog_defs scriptedRuntime_def)
  have tmp: "mkdtempSync ?rt (pathJoin ?rt [''/work'', ''skillet-oci-''])
               ([(''/work'', IsDirectory)], [EvMkdir ''/work''])
             = (Inr ''/work/skillet-oci-XXXXXX'', (?w2, [EvMkdir ''/work'', EvMkdtemp ''/work/skillet-oci-'']))"
    by (simp add: prog_defs scriptedRuntime_def)
  have fetch: "fetchWithErrors ?rt
                 (''https'' @ ''://'' @ registry ?ref @ ''/v2/'' @ repository ?ref @ ''/manifests/'' @ reference ?ref)
                 (?w2, [EvMkdir ''/work'', EvMkdtemp ''/work/skillet-oci-''])
               = (Inr ?response, ?s3)"
    by (simp add: prog_defs oci_run_defs)
  have body: "responseText ?response = Inr ''{manifest}''" by simp
  have json: "jsonParse ?rt ''{manifest}'' = Some imageManifest"
    by (simp add: scriptedRuntime_def ociScript_def)
  have shape: "imageManifest = JObject ?fields" by (simp add: imageManifest_def)
  have other: "map_of ?fields ''artifactType'' \<noteq> Some (JString SKILLET_ARTIFACT_TYPE)"
    by (simp add: SKILLET_ARTIFACT_TYPE_def)
  have foreign: "\<forall>manifestRecord. imageManifest = JObject manifestRecord
      \<longrightarrow> map_of manifestRecord ''artifactType'' \<noteq> Some (JString SKILLET_ARTIFACT_TYPE)"
    by (auto simp: imageManifest_def SKILLET_ARTIFACT_TYPE_def)
  from foreign_artifact_type_rejected [OF ref scheme root mk tmp fetch body json foreign]
  obtain e where run: "resolveOciSource ?rt ''oci://registry.example.com/skills/demo:1.0'' ?options ([], [])
      = (Inl (OciResolveError e), ?s3)"
    and e: "e = ManifestNotObject \<and> (\<forall>manifestRecord. imageManifest \<noteq> JObject manifestRecord)
         \<or> (\<exists>manifestRecord. imageManifest = JObject manifestRecord
               \<and> e = UnsupportedArtifactType (map_of manifestRecord ''artifactType''))"
    by blast
  from e have "e = UnsupportedArtifactType (Some (JString ''application/vnd.oci.image.config.v1+json''))"
    unfolding imageManifest_def by auto
  with run have final: "resolveOciSource ?rt ''oci://registry.example.com/skills/demo:1.0'' ?options ([], [])
       = (Inl (OciResolveError (UnsupportedArtifactType
                 (Some (JString ''application/vnd.oci.image.config.v1+json'')))), ?s3)"
    by (simp only:)
  show ?thesis
    by (intro conjI) (rule ref json shape other final)+
qed

subsection \<open>The check of a git source\<close>

lemma dropWhile_field:
  assumes lead: "list_all P lead" and first: "hash \<noteq> []" and field: "list_all (\<lambda>c. \<not> P c) hash"
  shows "dropWhile P (lead @ hash @ tail) = hash @ tail"
proof -
  from first obtain h hs where hash: "hash = h # hs" by (cases hash) auto
  with field have "\<not> P h" by simp
  hence "dropWhile P (hash @ tail) = hash @ tail" by (simp add: hash)
  moreover from lead have "dropWhile P (lead @ hash @ tail) = dropWhile P (hash @ tail)"
    by (intro dropWhile_append2) (simp add: list_all_iff)
  ultimately show ?thesis by simp
qed

lemma trim_field:
  assumes lead: "list_all isJsSpace lead"
    and first: "hash \<noteq> []"
    and field: "list_all (\<lambda>c. \<not> isJsSpace c) hash"
    and tail: "tail = [] \<or> isJsSpace (hd tail)"
  shows "\<exists>rest. trim (lead @ hash @ tail) = hash @ rest \<and> (rest = [] \<or> isJsSpace (hd rest))"
proof -
  let ?rest = "rev (dropWhile isJsSpace (rev tail))"
  have front: "dropWhile isJsSpace (lead @ hash @ tail) = hash @ tail"
    by (rule dropWhile_field [OF lead first field])
  from field have reversed: "list_all (\<lambda>c. \<not> isJsSpace c) (rev hash)" by (simp add: list_all_iff)
  from first have "rev hash \<noteq> []" by simp
  have "dropWhile isJsSpace (rev tail @ rev hash) = dropWhile isJsSpace (rev tail) @ rev hash"
  proof (cases "list_all isJsSpace (rev tail)")
    case True
    from dropWhile_field [OF True \<open>rev hash \<noteq> []\<close> reversed, of "[]"] True
    show ?thesis by (simp add: list_all_iff)
  next
    case False
    then obtain x where "x \<in> set (rev tail)" "\<not> isJsSpace x" by (auto simp: list_all_iff)
    thus ?thesis by (rule dropWhile_append1)
  qed
  hence trimmed: "trim (lead @ hash @ tail) = hash @ ?rest"
    by (simp add: trim_def front)
  have "rev tail = takeWhile isJsSpace (rev tail) @ dropWhile isJsSpace (rev tail)" by simp
  hence "tail = ?rest @ rev (takeWhile isJsSpace (rev tail))"
    by (metis rev_append rev_rev_ident)
  hence same: "hd ?rest = hd tail \<and> tail \<noteq> []" if "?rest \<noteq> []"
    using that by (metis hd_append2 append_is_Nil_conv)
  have "?rest = [] \<or> isJsSpace (hd ?rest)"
  proof (cases "?rest = []")
    case True
    thus ?thesis by (rule disjI1)
  next
    case False
    from same [OF False] tail have "isJsSpace (hd ?rest)" by (simp only:) blast
    thus ?thesis by (rule disjI2)
  qed
  with trimmed show ?thesis by blast
qed

lemma dropWhile_all: "list_all P s \<Longrightarrow> dropWhile P s = []"
  by (induction s) auto

lemma trim_blank: "list_all isJsSpace s \<Longrightarrow> trim s = []"
  by (simp add: trim_def dropWhile_all)

lemma splitLinesFrom_field:
  "list_all (\<lambda>c. \<not> isJsSpace c) hash \<Longrightarrow> splitLinesFrom acc (hash @ t) = splitLinesFrom (rev hash @ acc) t"
proof (induction hash arbitrary: acc)
  case Nil
  show ?case by simp
next
  case (Cons c hs)
  hence c: "c \<noteq> CHR 0x0A" "c \<noteq> CHR 0x0D" and hs: "list_all (\<lambda>c. \<not> isJsSpace c) hs"
    by (auto simp: isJsSpace_def)
  show ?case
  proof (cases "hs @ t")
    case Nil
    with c show ?thesis by simp
  next
    case (Cons d ds)
    have "splitLinesFrom acc ((c # hs) @ t) = splitLinesFrom (c # acc) (hs @ t)"
      using c by (simp add: Cons)
    also have "\<dots> = splitLinesFrom (rev hs @ c # acc) t" by (rule Cons.IH [OF hs])
    finally show ?thesis by simp
  qed
qed

lemma splitLinesFrom_starts: "\<exists>v rest. splitLinesFrom acc s = (rev acc @ v) # rest"
proof (induction acc s rule: splitLinesFrom.induct)
  case (1 acc)
  show ?case by simp
next
  case (2 acc c)
  show ?case by simp
next
  case (3 acc c d cs)
  show ?case
  proof (cases "c = CHR 0x0A \<or> (c = CHR 0x0D \<and> d = CHR 0x0A)")
    case True
    thus ?thesis by auto
  next
    case False
    with 3 obtain v rest where "splitLinesFrom (c # acc) (d # cs) = (rev (c # acc) @ v) # rest"
      by blast
    with False have "splitLinesFrom acc (c # d # cs) = (rev acc @ (c # v)) # rest" by simp
    thus ?thesis by blast
  qed
qed

lemma splitLinesFrom_after_field:
  assumes "t = [] \<or> isJsSpace (hd t)"
  shows "\<exists>u rest. splitLinesFrom acc t = (rev acc @ u) # rest \<and> (u = [] \<or> isJsSpace (hd u))"
proof (cases t)
  case Nil
  thus ?thesis by simp
next
  case (Cons c cs)
  with assms have space: "isJsSpace c" by simp
  show ?thesis
  proof (cases cs)
    case Nil
    with Cons space show ?thesis by simp
  next
    case inner: (Cons d ds)
    show ?thesis
    proof (cases "c = CHR 0x0A \<or> (c = CHR 0x0D \<and> d = CHR 0x0A)")
      case True
      with Cons inner show ?thesis by auto
    next
      case False
      from splitLinesFrom_starts [of "c # acc" "d # ds"]
      obtain v rest where "splitLinesFrom (c # acc) (d # ds) = (rev (c # acc) @ v) # rest" by blast
      with False Cons inner have "splitLinesFrom acc t = (rev acc @ (c # v)) # rest" by simp
      with space show ?thesis by (intro exI [of _ "c # v"] exI [of _ rest]) simp
    qed
  qed
qed

lemma takeWhile_field:
  assumes "list_all (\<lambda>c. \<not> isJsSpace c) hash" and "u = [] \<or> isJsSpace (hd u)"
  shows "takeWhile (\<lambda>c. \<not> isJsSpace c) (hash @ u) = hash"
proof -
  from assms(2) have "takeWhile (\<lambda>c. \<not> isJsSpace c) u = []" by (cases u) auto
  with assms(1) show ?thesis by (simp add: takeWhile_append2 list_all_iff)
qed

lemma first_field_of_output:
  assumes lead: "list_all isJsSpace lead"
    and first: "hash \<noteq> []"
    and field: "list_all (\<lambda>c. \<not> isJsSpace c) hash"
    and tail: "tail = [] \<or> isJsSpace (hd tail)"
  shows "\<exists>line. find (\<lambda>line. length (trim line) > 0) (splitLines (trim (lead @ hash @ tail))) = Some line
           \<and> takeWhile (\<lambda>c. \<not> isJsSpace c) line = hash"
proof -
  from trim_field [OF lead first field tail]
  obtain rest where trimmed: "trim (lead @ hash @ tail) = hash @ rest"
    and rest: "rest = [] \<or> isJsSpace (hd rest)" by blast
  from splitLinesFrom_after_field [OF rest, of "rev hash"]
  obtain u more where split: "splitLinesFrom (rev hash) rest = (hash @ u) # more"
    and u: "u = [] \<or> isJsSpace (hd u)" by auto
  have lines: "splitLines (trim (lead @ hash @ tail)) = (hash @ u) # more"
    using splitLinesFrom_field [OF field, of "[]" rest] split
    by (simp add: splitLines_def trimmed)
  from trim_field [OF _ first field u, of "[]"] first
  have "length (trim (hash @ u)) > 0" by auto
  with lines takeWhile_field [OF field u] show ?thesis by simp
qed

lemma getLatestGitDigest_field:
  assumes exec: "rtExecFileSync rt ''git''
                   [''ls-remote'', remote, case pinned of Some r \<Rightarrow> if length r > 0 then r else ''HEAD'' | None \<Rightarrow> ''HEAD'']
                   (fst s)
                 = (Inr (lead @ hash @ tail), w')"
    and lead: "list_all isJsSpace lead"
    and first: "hash \<noteq> []"
    and field: "list_all (\<lambda>c. \<not> isJsSpace c) hash"
    and tail: "tail = [] \<or> isJsSpace (hd tail)"
  shows "getLatestGitDigest rt remote pinned s
         = (if length hash < 40
            then Inl (PlainError (''Unexpected git ls-remote output for '' @ remote))
            else Inr hash,
            (w', snd s @ [EvExec ''git'' [''ls-remote'', remote,
                                        case pinned of Some r \<Rightarrow> if length r > 0 then r else ''HEAD''
                                        | None \<Rightarrow> ''HEAD'']]))"
proof -
  from first_field_of_output [OF lead first field tail]
  obtain line where found: "find (\<lambda>line. length (trim line) > 0) (splitLines (trim (lead @ hash @ tail))) = Some line"
    and taken: "takeWhile (\<lambda>c. \<not> isJsSpace c) line = hash" by blast
  from exec found taken first show ?thesis
    by (simp add: getLatestGitDigest_def runGit_def andThen_def effectCatch_def ret_def throw_def Let_def)
qed

lemma getLatestGitDigest_blank:
  assumes exec: "rtExecFileSync rt ''git''
                   [''ls-remote'', remote, case pinned of Some r \<Rightarrow> if length r > 0 then r else ''HEAD'' | None \<Rightarrow> ''HEAD'']
                   (fst s)
                 = (Inr printed, w')"
    and blank: "list_all isJsSpace printed"
  shows "getLatestGitDigest rt remote pinned s
         = (Inl (PlainError (''Unable to resolve latest git digest for '' @ remote @ '' (''
                              @ (case pinned of Some r \<Rightarrow> if length r > 0 then r else ''HEAD'' | None \<Rightarrow> ''HEAD'')
                              @ '')'')),
            (w', snd s @ [EvExec ''git'' [''ls-remote'', remote,
                                        case pinned of Some r \<Rightarrow> if length r > 0 then r else ''HEAD''
                                        | None \<Rightarrow> ''HEAD'']]))"
proof -
  have "trim [] = []" by (simp add: trim_def)
  with exec trim_blank [OF blank] show ?thesis
    by (simp add: getLatestGitDigest_def runGit_def andThen_def effectCatch_def ret_def throw_def Let_def
        splitLines_def)
qed

lemma getLatestGitDigest_failed:
  assumes exec: "rtExecFileSync rt ''git''
                   [''ls-remote'', remote, case pinned of Some r \<Rightarrow> if length r > 0 then r else ''HEAD'' | None \<Rightarrow> ''HEAD'']
                   (fst s)
                 = (Inl err, w')"
  shows "getLatestGitDigest rt remote pinned s
         = (Inl (PlainError (''git ls-remote '' @ remote @ '' ''
                              @ (case pinned of Some r \<Rightarrow> if length r > 0 then r else ''HEAD'' | None \<Rightarrow> ''HEAD'')
                              @ '' failed''
                              @ (case err of
                                   Some t \<Rightarrow> if trim t \<noteq> [] then '': '' @ trim t else []
                                 | None \<Rightarrow> []))),
            (w', snd s @ [EvExec ''git'' [''ls-remote'', remote,
                                        case pinned of Some r \<Rightarrow> if length r > 0 then r else ''HEAD''
                                        | None \<Rightarrow> ''HEAD'']]))"
  using exec
  by (simp add: getLatestGitDigest_def runGit_def andThen_def effectCatch_def ret_def throw_def Let_def
      split: option.splits)


lemma output_forms:
  "list_all isJsSpace printed
   \<or> (\<exists>lead hash tail. printed = lead @ hash @ tail \<and> list_all isJsSpace lead \<and> hash \<noteq> []
          \<and> list_all (\<lambda>c. \<not> isJsSpace c) hash \<and> (tail = [] \<or> isJsSpace (hd tail)))"
proof (cases "list_all isJsSpace printed")
  case True
  thus ?thesis by (rule disjI1)
next
  case False
  let ?lead = "takeWhile isJsSpace printed"
  let ?rest = "dropWhile isJsSpace printed"
  let ?hash = "takeWhile (\<lambda>c. \<not> isJsSpace c) ?rest"
  let ?tail = "dropWhile (\<lambda>c. \<not> isJsSpace c) ?rest"
  from False have rest: "?rest \<noteq> []" by (simp add: list_all_iff)
  hence "\<not> isJsSpace (hd ?rest)" by (rule hd_dropWhile)
  with rest have hash: "?hash \<noteq> []" by (cases ?rest) auto
  have tail: "?tail = [] \<or> isJsSpace (hd ?tail)"
    using hd_dropWhile [of "\<lambda>c. \<not> isJsSpace c" ?rest] by blast
  have "printed = ?lead @ ?hash @ ?tail" by simp
  moreover have "list_all isJsSpace ?lead" by (auto simp: list_all_iff dest: set_takeWhileD)
  moreover have "list_all (\<lambda>c. \<not> isJsSpace c) ?hash" by (auto simp: list_all_iff dest: set_takeWhileD)
  ultimately show ?thesis using hash tail by blast
qed

text \<open>
  C5, amended. \<open>checkSource\<close> on an entry of type \<open>git\<close> runs \<open>git ls-remote\<close> with the
  entry's url and its ref, or \<open>HEAD\<close> when no ref (or an empty one) is recorded, and always
  returns a result, in the state the command left. What the command prints decides the
  result. Every output is either blank or made of white space, a first field without white
  space, and a rest that is empty or begins with white space. When the first field has at
  least 40 characters it is the commit hash taken from the output: it is reported as the
  latest digest, and the status is \<open>outdated\<close> when a digest is recorded and differs from
  it, \<open>up-to-date\<close> otherwise, in particular when no digest is recorded. When the first
  field is shorter, when the output is blank and when the command fails, the status is
  \<open>error\<close> with the message of the failure and no latest digest, whether or not a digest
  is recorded.
\<close>

theorem git_check_status:
  assumes git: "type source = ''git''"
    and args: "args = [''ls-remote'', url source,
                       case ref source of Some r \<Rightarrow> if length r > 0 then r else ''HEAD'' | None \<Rightarrow> ''HEAD'']"
  shows "(\<forall>lead hash tail w'.
            rtExecFileSync rt ''git'' args (fst s) = (Inr (lead @ hash @ tail), w')
            \<and> list_all isJsSpace lead \<and> hash \<noteq> [] \<and> list_all (\<lambda>c. \<not> isJsSpace c) hash
            \<and> (tail = [] \<or> isJsSpace (hd tail))
          \<longrightarrow> checkSource rt source s
              = (Inr (if length hash < 40
                      then \<lparr> status = CheckFailed, latestDigest = None,
                             statusMessage = Some (''Unexpected git ls-remote output for '' @ url source) \<rparr>
                      else \<lparr> status = (if digestRecorded (digest source) \<and> digest source \<noteq> Some hash
                                       then Outdated else UpToDate),
                             latestDigest = Some hash, statusMessage = None \<rparr>),
                 (w', snd s @ [EvExec ''git'' args])))
         \<and> (\<forall>printed w'.
               rtExecFileSync rt ''git'' args (fst s) = (Inr printed, w') \<and> list_all isJsSpace printed
             \<longrightarrow> checkSource rt source s
                 = (Inr \<lparr> status = CheckFailed, latestDigest = None,
                          statusMessage = Some (''Unable to resolve latest git digest for '' @ url source
                                                  @ '' ('' @ last args @ '')'') \<rparr>,
                    (w', snd s @ [EvExec ''git'' args])))
         \<and> (\<forall>err w'.
               rtExecFileSync rt ''git'' args (fst s) = (Inl err, w')
             \<longrightarrow> checkSource rt source s
                 = (Inr \<lparr> status = CheckFailed, latestDigest = None,
                          statusMessage = Some (''git ls-remote '' @ url source @ '' '' @ last args
                                                  @ '' failed''
                                                  @ (case err of
                                                       Some t \<Rightarrow> if trim t \<noteq> [] then '': '' @ trim t else []
                                                     | None \<Rightarrow> [])) \<rparr>,
                    (w', snd s @ [EvExec ''git'' args])))
         \<and> (\<forall>printed. list_all isJsSpace printed
               \<or> (\<exists>lead hash tail. printed = lead @ hash @ tail \<and> list_all isJsSpace lead \<and> hash \<noteq> []
                      \<and> list_all (\<lambda>c. \<not> isJsSpace c) hash \<and> (tail = [] \<or> isJsSpace (hd tail))))"
proof (intro conjI allI impI)
  fix lead hash tail w'
  assume "rtExecFileSync rt ''git'' args (fst s) = (Inr (lead @ hash @ tail), w')
            \<and> list_all isJsSpace lead \<and> hash \<noteq> [] \<and> list_all (\<lambda>c. \<not> isJsSpace c) hash
            \<and> (tail = [] \<or> isJsSpace (hd tail))"
  hence exec: "rtExecFileSync rt ''git'' args (fst s) = (Inr (lead @ hash @ tail), w')"
    and lead: "list_all isJsSpace lead" and first: "hash \<noteq> []"
    and field: "list_all (\<lambda>c. \<not> isJsSpace c) hash" and tail: "tail = [] \<or> isJsSpace (hd tail)"
    by simp_all
  from getLatestGitDigest_field [OF exec [unfolded args] lead first field tail]
  show "checkSource rt source s
      = (Inr (if length hash < 40
              then \<lparr> status = CheckFailed, latestDigest = None,
                     statusMessage = Some (''Unexpected git ls-remote output for '' @ url source) \<rparr>
              else \<lparr> status = (if digestRecorded (digest source) \<and> digest source \<noteq> Some hash
                               then Outdated else UpToDate),
                     latestDigest = Some hash, statusMessage = None \<rparr>),
         (w', snd s @ [EvExec ''git'' args]))"
    using git by (auto simp: checkSource_def tryCatch_def andThen_def ret_def args)
next
  fix printed w'
  assume "rtExecFileSync rt ''git'' args (fst s) = (Inr printed, w') \<and> list_all isJsSpace printed"
  hence exec: "rtExecFileSync rt ''git'' args (fst s) = (Inr printed, w')"
    and blank: "list_all isJsSpace printed" by simp_all
  from getLatestGitDigest_blank [OF exec [unfolded args] blank]
  show "checkSource rt source s
      = (Inr \<lparr> status = CheckFailed, latestDigest = None,
               statusMessage = Some (''Unable to resolve latest git digest for '' @ url source
                                       @ '' ('' @ last args @ '')'') \<rparr>,
         (w', snd s @ [EvExec ''git'' args]))"
    using git by (simp add: checkSource_def tryCatch_def andThen_def ret_def args)
next
  fix err w'
  assume exec: "rtExecFileSync rt ''git'' args (fst s) = (Inl err, w')"
  from getLatestGitDigest_failed [OF exec [unfolded args]]
  show "checkSource rt source s
      = (Inr \<lparr> status = CheckFailed, latestDigest = None,
               statusMessage = Some (''git ls-remote '' @ url source @ '' '' @ last args
                                       @ '' failed''
                                       @ (case err of
                                            Some t \<Rightarrow> if trim t \<noteq> [] then '': '' @ trim t else []
                                          | None \<Rightarrow> [])) \<rparr>,
         (w', snd s @ [EvExec ''git'' args]))"
    using git by (simp add: checkSource_def tryCatch_def andThen_def ret_def args)
next
  fix printed
  show "list_all isJsSpace printed
        \<or> (\<exists>lead hash tail. printed = lead @ hash @ tail \<and> list_all isJsSpace lead \<and> hash \<noteq> []
               \<and> list_all (\<lambda>c. \<not> isJsSpace c) hash \<and> (tail = [] \<or> isJsSpace (hd tail)))"
    by (rule output_forms)
qed

lemmas check_run_defs =
  checkSource_def getLatestGitDigest_def runGit_def tryCatch_def digestRecorded_def
  splitLines_def trim_def isJsSpace_def
  scriptedRuntime_def gitScript_def upstreamHead_def unpinnedSource_def staleSource_def

text \<open>
  C5, as stated, fails where the query fails: the entry has no recorded digest, \<open>git\<close>
  cannot reach the remote, and the status is \<open>error\<close>, not \<open>up-to-date\<close>, with no upstream
  digest to report.
\<close>

theorem git_check_unreachable_remote_counterexample:
  "type unpinnedSource = ''git''
   \<and> digest unpinnedSource = None
   \<and> checkSource (scriptedRuntime (gitScript (Inl (Some ''fatal: unable to access the remote\<newline>''))))
        unpinnedSource ([], [])
      = (Inr \<lparr> status = CheckFailed, latestDigest = None,
               statusMessage = Some (''git ls-remote https://example.com/skills.git HEAD failed: ''
                                       @ ''fatal: unable to access the remote'') \<rparr>,
         ([], [EvExec ''git'' [''ls-remote'', ''https://example.com/skills.git'', ''HEAD'']]))"
  by (simp add: prog_defs check_run_defs Let_def)

text \<open>
  The amended C5 on five runs: an entry without ref and digest and a remote at
  \<open>upstreamHead\<close>; an entry pinned to \<open>main\<close> whose recorded digest differs from that hash;
  a first field of six characters; a blank output; and a remote that cannot be reached.
\<close>

theorem git_check_status_witness:
  "type unpinnedSource = ''git''
   \<and> type staleSource = ''git''
   \<and> list_all (\<lambda>c. \<not> isJsSpace c) upstreamHead
   \<and> length upstreamHead = 40
   \<and> checkSource (scriptedRuntime (gitScript (Inr (upstreamHead @ [CHR 0x09] @ ''HEAD\<newline>''))))
        unpinnedSource ([], [])
      = (Inr \<lparr> status = UpToDate, latestDigest = Some upstreamHead, statusMessage = None \<rparr>,
         ([], [EvExec ''git'' [''ls-remote'', ''https://example.com/skills.git'', ''HEAD'']]))
   \<and> checkSource (scriptedRuntime (gitScript (Inr (upstreamHead @ [CHR 0x09] @ ''refs/heads/main\<newline>''))))
        staleSource ([], [])
      = (Inr \<lparr> status = Outdated, latestDigest = Some upstreamHead, statusMessage = None \<rparr>,
         ([], [EvExec ''git'' [''ls-remote'', ''https://example.com/skills.git'', ''main'']]))
   \<and> checkSource (scriptedRuntime (gitScript (Inr (''4b825d'' @ [CHR 0x09] @ ''HEAD\<newline>''))))
        unpinnedSource ([], [])
      = (Inr \<lparr> status = CheckFailed, latestDigest = None,
               statusMessage = Some ''Unexpected git ls-remote output for https://example.com/skills.git'' \<rparr>,
         ([], [EvExec ''git'' [''ls-remote'', ''https://example.com/skills.git'', ''HEAD'']]))
   \<and> checkSource (scriptedRuntime (gitScript (Inr ''\<newline>''))) staleSource ([], [])
      = (Inr \<lparr> status = CheckFailed, latestDigest = None,
               statusMessage = Some ''Unable to resolve latest git digest for https://example.com/skills.git (main)'' \<rparr>,
         ([], [EvExec ''git'' [''ls-remote'', ''https://example.com/skills.git'', ''main'']]))
   \<and> checkSource (scriptedRuntime (gitScript (Inl None))) staleSource ([], [])
      = (Inr \<lparr> status = CheckFailed, latestDigest = None,
               statusMessage = Some ''git ls-remote https://example.com/skills.git main failed'' \<rparr>,
         ([], [EvExec ''git'' [''ls-remote'', ''https://example.com/skills.git'', ''main'']]))"
proof -
  let ?printed1 = "upstreamHead @ [CHR 0x09] @ ''HEAD\<newline>''"
  let ?printed2 = "upstreamHead @ [CHR 0x09] @ ''refs/heads/main\<newline>''"
  let ?printed3 = "''4b825d'' @ [CHR 0x09] @ ''HEAD\<newline>''"
  let ?head = "[''ls-remote'', ''https://example.com/skills.git'', ''HEAD'']"
  let ?main = "[''ls-remote'', ''https://example.com/skills.git'', ''main'']"
  have g1: "type unpinnedSource = ''git''" by (simp add: unpinnedSource_def)
  have g2: "type staleSource = ''git''" by (simp add: staleSource_def)
  have a1: "?head = [''ls-remote'', url unpinnedSource,
                     case ref unpinnedSource of Some r \<Rightarrow> if length r > 0 then r else ''HEAD''
                     | None \<Rightarrow> ''HEAD'']"
    by (simp add: unpinnedSource_def)
  have a2: "?main = [''ls-remote'', url staleSource,
                     case ref staleSource of Some r \<Rightarrow> if length r > 0 then r else ''HEAD''
                     | None \<Rightarrow> ''HEAD'']"
    by (simp add: staleSource_def)
  have field: "list_all (\<lambda>c. \<not> isJsSpace c) upstreamHead"
    by (simp add: upstreamHead_def isJsSpace_def)
  have size: "length upstreamHead = 40" by (simp add: upstreamHead_def)
  have first: "upstreamHead \<noteq> []" by (simp add: upstreamHead_def)

  have h1: "rtExecFileSync (scriptedRuntime (gitScript (Inr ?printed1))) ''git'' ?head (fst ([] :: world, [] :: event list))
              = (Inr ([] @ upstreamHead @ ([CHR 0x09] @ ''HEAD\<newline>'')), [])
            \<and> list_all isJsSpace [] \<and> upstreamHead \<noteq> [] \<and> list_all (\<lambda>c. \<not> isJsSpace c) upstreamHead
            \<and> ([CHR 0x09] @ ''HEAD\<newline>'' = [] \<or> isJsSpace (hd ([CHR 0x09] @ ''HEAD\<newline>'')))"
    using field first by (simp add: scriptedRuntime_def gitScript_def isJsSpace_def)
  from git_check_status [OF g1 a1, of "scriptedRuntime (gitScript (Inr ?printed1))" "([], [])",
      THEN conjunct1, rule_format, OF h1]
  have r1: "checkSource (scriptedRuntime (gitScript (Inr ?printed1))) unpinnedSource ([], [])
      = (Inr \<lparr> status = UpToDate, latestDigest = Some upstreamHead, statusMessage = None \<rparr>, ([], [EvExec ''git'' ?head]))"
    by (simp add: size digestRecorded_def unpinnedSource_def)

  have h2: "rtExecFileSync (scriptedRuntime (gitScript (Inr ?printed2))) ''git'' ?main (fst ([] :: world, [] :: event list))
              = (Inr ([] @ upstreamHead @ ([CHR 0x09] @ ''refs/heads/main\<newline>'')), [])
            \<and> list_all isJsSpace [] \<and> upstreamHead \<noteq> [] \<and> list_all (\<lambda>c. \<not> isJsSpace c) upstreamHead
            \<and> ([CHR 0x09] @ ''refs/heads/main\<newline>'' = [] \<or> isJsSpace (hd ([CHR 0x09] @ ''refs/heads/main\<newline>'')))"
    using field first by (simp add: scriptedRuntime_def gitScript_def isJsSpace_def)
  from git_check_status [OF g2 a2, of "scriptedRuntime (gitScript (Inr ?printed2))" "([], [])",
      THEN conjunct1, rule_format, OF h2]
  have r2: "checkSource (scriptedRuntime (gitScript (Inr ?printed2))) staleSource ([], [])
      = (Inr \<lparr> status = Outdated, latestDigest = Some upstreamHead, statusMessage = None \<rparr>, ([], [EvExec ''git'' ?main]))"
    by (simp add: size digestRecorded_def staleSource_def upstreamHead_def)

  have h3: "rtExecFileSync (scriptedRuntime (gitScript (Inr ?printed3))) ''git'' ?head (fst ([] :: world, [] :: event list))
              = (Inr ([] @ ''4b825d'' @ ([CHR 0x09] @ ''HEAD\<newline>'')), [])
            \<and> list_all isJsSpace [] \<and> ''4b825d'' \<noteq> [] \<and> list_all (\<lambda>c. \<not> isJsSpace c) ''4b825d''
            \<and> ([CHR 0x09] @ ''HEAD\<newline>'' = [] \<or> isJsSpace (hd ([CHR 0x09] @ ''HEAD\<newline>'')))"
    by (simp add: scriptedRuntime_def gitScript_def isJsSpace_def)
  from git_check_status [OF g1 a1, of "scriptedRuntime (gitScript (Inr ?printed3))" "([], [])",
      THEN conjunct1, rule_format, OF h3]
  have r3: "checkSource (scriptedRuntime (gitScript (Inr ?printed3))) unpinnedSource ([], [])
      = (Inr \<lparr> status = CheckFailed, latestDigest = None,
               statusMessage = Some ''Unexpected git ls-remote output for https://example.com/skills.git'' \<rparr>,
         ([], [EvExec ''git'' ?head]))"
    by (simp add: unpinnedSource_def)

  have h4: "rtExecFileSync (scriptedRuntime (gitScript (Inr ''\<newline>''))) ''git'' ?main (fst ([] :: world, [] :: event list))
              = (Inr ''\<newline>'', [])
            \<and> list_all isJsSpace ''\<newline>''"
    by (simp add: scriptedRuntime_def gitScript_def isJsSpace_def)
  from git_check_status [OF g2 a2, of "scriptedRuntime (gitScript (Inr ''\<newline>''))" "([], [])",
      THEN conjunct2, THEN conjunct1, rule_format, OF h4]
  have r4: "checkSource (scriptedRuntime (gitScript (Inr ''\<newline>''))) staleSource ([], [])
      = (Inr \<lparr> status = CheckFailed, latestDigest = None,
               statusMessage = Some ''Unable to resolve latest git digest for https://example.com/skills.git (main)'' \<rparr>,
         ([], [EvExec ''git'' ?main]))"
    by (simp add: staleSource_def)

  have h5: "rtExecFileSync (scriptedRuntime (gitScript (Inl None))) ''git'' ?main (fst ([] :: world, [] :: event list))
              = (Inl None, [])"
    by (simp add: scriptedRuntime_def gitScript_def)
  from git_check_status [OF g2 a2, of "scriptedRuntime (gitScript (Inl None))" "([], [])",
      THEN conjunct2, THEN conjunct2, THEN conjunct1, rule_format, OF h5]
  have r5: "checkSource (scriptedRuntime (gitScript (Inl None))) staleSource ([], [])
      = (Inr \<lparr> status = CheckFailed, latestDigest = None,
               statusMessage = Some ''git ls-remote https://example.com/skills.git main failed'' \<rparr>,
         ([], [EvExec ''git'' ?main]))"
    by (simp add: staleSource_def)
  show ?thesis
    by (intro conjI) (rule g1 g2 field size r1 r2 r3 r4 r5)+
qed

subsection \<open>The lockfile generator\<close>

lemma set_insertBy: "set (insertBy cmp x xs) = insert x (set xs)"
  by (induction xs) auto

lemma set_sortBy: "set (sortBy cmp xs) = set xs"
  by (induction xs) (auto simp: set_insertBy)

lemma sorted_insertBy:
  assumes cmp: "consistentComparator cmp"
    and xs: "sorted_wrt (\<lambda>a b. cmp a b \<le> 0) xs"
  shows "sorted_wrt (\<lambda>a b. cmp a b \<le> 0) (insertBy cmp x xs)"
  using xs
proof (induction xs)
  case Nil
  show ?case by simp
next
  case (Cons y ys)
  from cmp have swap: "\<And>a b. (cmp a b < 0) = (0 < cmp b a)"
    and trans: "\<And>a b c. cmp a b \<le> 0 \<Longrightarrow> cmp b c \<le> 0 \<Longrightarrow> cmp a c \<le> 0"
    unfolding consistentComparator_def by blast+
  show ?case
  proof (cases "cmp x y \<le> 0")
    case True
    with Cons.prems trans show ?thesis by auto
  next
    case False
    hence "cmp y x \<le> 0" using swap [of y x] by simp
    with False Cons show ?thesis by (auto simp: set_insertBy)
  qed
qed

lemma sorted_sortBy:
  "consistentComparator cmp \<Longrightarrow> sorted_wrt (\<lambda>a b. cmp a b \<le> 0) (sortBy cmp xs)"
  by (induction xs) (simp_all add: sorted_insertBy)

lemma consistent_facts:
  assumes cmp: "consistentComparator cmp"
  shows "(cmp a b = 0) = (cmp b a = 0)"
    and "cmp a b = 0 \<Longrightarrow> cmp b c = 0 \<Longrightarrow> cmp a c = 0"
    and "cmp a b < 0 \<Longrightarrow> cmp b c \<le> 0 \<Longrightarrow> cmp a c < 0"
    and "cmp a b \<le> 0 \<Longrightarrow> cmp b c < 0 \<Longrightarrow> cmp a c < 0"
proof -
  from cmp have swap: "\<And>a b. (cmp a b < 0) = (0 < cmp b a)"
    and trans: "\<And>a b c. cmp a b \<le> 0 \<Longrightarrow> cmp b c \<le> 0 \<Longrightarrow> cmp a c \<le> 0"
    unfolding consistentComparator_def by blast+
  show sym: "(cmp a b = 0) = (cmp b a = 0)" for a b
    using swap [of a b] swap [of b a] by linarith
  have ge: "0 \<le> cmp a b \<longleftrightarrow> cmp b a \<le> 0" for a b
    using swap [of a b] swap [of b a] by linarith
  show "cmp a b = 0 \<Longrightarrow> cmp b c = 0 \<Longrightarrow> cmp a c = 0"
    using trans [of a b c] trans [of c b a] sym [of a b] sym [of b c] ge [of a c] by simp
  show "cmp a b < 0 \<Longrightarrow> cmp b c \<le> 0 \<Longrightarrow> cmp a c < 0"
    using trans [of a b c] trans [of b c a] sym [of a c] swap [of a b] by force
  show "cmp a b \<le> 0 \<Longrightarrow> cmp b c < 0 \<Longrightarrow> cmp a c < 0"
    using trans [of a b c] trans [of c a b] sym [of a c] swap [of b c] by force
qed

lemma consistent_lex:
  assumes f: "consistentComparator f" and g: "consistentComparator g"
  shows "consistentComparator (\<lambda>a b. if f a b \<noteq> 0 then f a b else g a b)"
proof -
  from f have fswap: "\<And>a b. (f a b < 0) = (0 < f b a)"
    and ftrans: "\<And>a b c. f a b \<le> 0 \<Longrightarrow> f b c \<le> 0 \<Longrightarrow> f a c \<le> 0"
    unfolding consistentComparator_def by blast+
  from g have gswap: "\<And>a b. (g a b < 0) = (0 < g b a)"
    and gtrans: "\<And>a b c. g a b \<le> 0 \<Longrightarrow> g b c \<le> 0 \<Longrightarrow> g a c \<le> 0"
    unfolding consistentComparator_def by blast+
  have swap: "((if f a b \<noteq> 0 then f a b else g a b) < 0) = (0 < (if f b a \<noteq> 0 then f b a else g b a))"
    for a b
    using fswap [of a b] gswap [of a b] consistent_facts(1) [OF f, of a b] by auto
  have trans: "(if f a c \<noteq> 0 then f a c else g a c) \<le> 0"
    if ab: "(if f a b \<noteq> 0 then f a b else g a b) \<le> 0"
      and bc: "(if f b c \<noteq> 0 then f b c else g b c) \<le> 0" for a b c
  proof -
    consider "f a b < 0" "f b c \<le> 0" | "f a b = 0" "f b c < 0"
      | "f a b = 0" "f b c = 0" "g a b \<le> 0" "g b c \<le> 0"
      using ab bc by (auto split: if_splits) 
    thus ?thesis
    proof cases
      case 1
      from consistent_facts(3) [OF f 1] show ?thesis by simp
    next
      case 2
      hence "f a b \<le> 0" by simp
      from consistent_facts(4) [OF f this 2(2)] show ?thesis by simp
    next
      case 3
      from consistent_facts(2) [OF f 3(1) 3(2)] gtrans [OF 3(3) 3(4)] show ?thesis by simp
    qed
  qed
  show ?thesis unfolding consistentComparator_def using swap trans by blast
qed

lemma consistent_proj:
  "consistentComparator cmp \<Longrightarrow> consistentComparator (\<lambda>a b. cmp (p a) (p b))"
  unfolding consistentComparator_def by blast

lemma consistent_zero: "consistentComparator (\<lambda>a b. 0)"
  by (simp add: consistentComparator_def)

lemma consistent_compareSources:
  assumes cmp: "consistentComparator (localeCompare rt)"
  shows "consistentComparator (compareSources rt)"
proof -
  have eq: "compareSources rt
      = (\<lambda>a b. if localeCompare rt (type a) (type b) \<noteq> 0 then localeCompare rt (type a) (type b) else
           (if localeCompare rt (url a) (url b) \<noteq> 0 then localeCompare rt (url a) (url b) else
           (if localeCompare rt (orEmpty (ref a)) (orEmpty (ref b)) \<noteq> 0
            then localeCompare rt (orEmpty (ref a)) (orEmpty (ref b)) else
           (if localeCompare rt (orEmpty (digest a)) (orEmpty (digest b)) \<noteq> 0
            then localeCompare rt (orEmpty (digest a)) (orEmpty (digest b)) else
           (if localeCompare rt (installMethod a) (installMethod b) \<noteq> 0
            then localeCompare rt (installMethod a) (installMethod b) else 0)))))"
    by (intro ext) (simp add: compareSources_def)
  show ?thesis
    unfolding eq
    by (intro consistent_lex consistent_zero consistent_proj [OF cmp])
qed

lemma compareSources_lexicographic:
  "(compareSources rt a b \<le> 0)
     = lexicographicLe (localeCompare rt) (identityTuple a) (identityTuple b)"
  by (auto simp: compareSources_def identityTuple_def)


lemma readSourceMetadata_unchanged:
  "sameReads rt (pathJoin rt [skillDir, SOURCE_METADATA_FILENAME]) w w'
   \<Longrightarrow> readSourceMetadata rt skillDir w = readSourceMetadata rt skillDir w'"
  by (simp add: readSourceMetadata_def sameReads_def isFile_def Let_def)

lemma processSkillDir_unchanged:
  assumes dir: "sameReads rt skillDir w w'"
    and descriptor: "sameReads rt (pathJoin rt [skillDir, ''SKILL.md'']) w w'"
    and sidecar: "sameReads rt (pathJoin rt [skillDir, SOURCE_METADATA_FILENAME]) w w'"
  shows "processSkillDir rt agent skillDir w grouped = processSkillDir rt agent skillDir w' grouped"
proof -
  from dir have lstat: "rtLstatSync rt skillDir w = rtLstatSync rt skillDir w'"
    by (simp add: sameReads_def)
  from descriptor
  have stat: "rtStatSync rt (pathJoin rt [skillDir, ''SKILL.md'']) w
      = rtStatSync rt (pathJoin rt [skillDir, ''SKILL.md'']) w'"
    and content: "rtReadFileSync rt (pathJoin rt [skillDir, ''SKILL.md'']) w
      = rtReadFileSync rt (pathJoin rt [skillDir, ''SKILL.md'']) w'"
    by (simp_all add: sameReads_def)
  show ?thesis
    unfolding processSkillDir_def Let_def isFile_def lstat stat content readSourceMetadata_unchanged [OF sidecar]
    by (rule refl)
qed

lemma processSkillDirs_unchanged:
  assumes "\<forall>skillDir\<in>set dirs.
             sameReads rt skillDir w w'
             \<and> sameReads rt (pathJoin rt [skillDir, ''SKILL.md'']) w w'
             \<and> sameReads rt (pathJoin rt [skillDir, SOURCE_METADATA_FILENAME]) w w'"
  shows "processSkillDirs rt agent dirs w grouped = processSkillDirs rt agent dirs w' grouped"
  using assms
proof (induction dirs arbitrary: grouped)
  case Nil
  show ?case by simp
next
  case (Cons skillDir rest)
  hence "processSkillDir rt agent skillDir w grouped = processSkillDir rt agent skillDir w' grouped"
    by (simp add: processSkillDir_unchanged)
  with Cons show ?case by (simp split: sum.splits)
qed

lemma listSkillDirectories_unchanged:
  assumes dir: "sameReads rt agentSkillsDir w w'"
    and children: "\<And>entries entry. rtReaddirSync rt agentSkillsDir w = Inr entries \<Longrightarrow> entry \<in> set entries
                     \<Longrightarrow> sameReads rt (pathJoin rt [agentSkillsDir, entryName entry]) w w'"
  shows "listSkillDirectories rt agentSkillsDir w = listSkillDirectories rt agentSkillsDir w'"
proof -
  from dir have listed: "rtReaddirSync rt agentSkillsDir w' = rtReaddirSync rt agentSkillsDir w"
    by (simp add: sameReads_def)
  show ?thesis
  proof (cases "rtReaddirSync rt agentSkillsDir w")
    case (Inl m)
    thus ?thesis by (simp add: listSkillDirectories_def listed)
  next
    case (Inr entries)
    have "filter (\<lambda>entry. isDirectoryEntry entry
                             \<or> (isSymbolicLinkEntry entry
                                 \<and> isDirectory rt (pathJoin rt [agentSkillsDir, entryName entry]) w)) entries
        = filter (\<lambda>entry. isDirectoryEntry entry
                             \<or> (isSymbolicLinkEntry entry
                                 \<and> isDirectory rt (pathJoin rt [agentSkillsDir, entryName entry]) w')) entries"
      using children [OF Inr] by (intro filter_cong) (auto simp: sameReads_def isDirectory_def)
    with Inr show ?thesis by (simp add: listSkillDirectories_def listed)
  qed
qed

lemma listSkillDirectories_children:
  assumes "listSkillDirectories rt agentSkillsDir w = Inr dirs"
    and "skillDir \<in> set dirs"
  shows "\<exists>entries entry. rtReaddirSync rt agentSkillsDir w = Inr entries \<and> entry \<in> set entries
            \<and> skillDir = pathJoin rt [agentSkillsDir, entryName entry]"
  using assms by (auto simp: listSkillDirectories_def set_sortBy split: sum.splits)

lemma scanAgents_unchanged:
  assumes dirs: "\<And>config. config \<in> set configs
                   \<Longrightarrow> sameReads rt (pathJoin rt [scanRoot, snd config]) w w'"
    and children: "\<And>config entries entry. config \<in> set configs
        \<Longrightarrow> rtReaddirSync rt (pathJoin rt [scanRoot, snd config]) w = Inr entries
        \<Longrightarrow> entry \<in> set entries
        \<Longrightarrow> sameReads rt (pathJoin rt [pathJoin rt [scanRoot, snd config], entryName entry]) w w'
            \<and> sameReads rt (pathJoin rt [pathJoin rt [pathJoin rt [scanRoot, snd config],
                                                      entryName entry], ''SKILL.md'']) w w'
            \<and> sameReads rt (pathJoin rt [pathJoin rt [pathJoin rt [scanRoot, snd config],
                                                      entryName entry],
                                         SOURCE_METADATA_FILENAME]) w w'"
  shows "scanAgents rt scanRoot configs w grouped = scanAgents rt scanRoot configs w' grouped"
  using dirs children
proof (induction configs arbitrary: grouped)
  case Nil
  show ?case by simp
next
  case (Cons config rest)
  obtain agent relativePath where config: "config = (agent, relativePath)" by (cases config)
  let ?dir = "pathJoin rt [scanRoot, relativePath]"
  from Cons.prems(1) [of config] config have dir: "sameReads rt ?dir w w'" by simp
  have inside: "sameReads rt (pathJoin rt [?dir, entryName entry]) w w'
            \<and> sameReads rt (pathJoin rt [pathJoin rt [?dir, entryName entry], ''SKILL.md'']) w w'
            \<and> sameReads rt (pathJoin rt [pathJoin rt [?dir, entryName entry], SOURCE_METADATA_FILENAME]) w w'"
    if "rtReaddirSync rt ?dir w = Inr entries" and "entry \<in> set entries" for entries entry
    using Cons.prems(2) [of config entries entry] config that by simp
  from dir have isdir: "isDirectory rt ?dir w' = isDirectory rt ?dir w"
    by (simp add: sameReads_def isDirectory_def)
  have listing: "listSkillDirectories rt ?dir w' = listSkillDirectories rt ?dir w"
    using dir inside by (intro listSkillDirectories_unchanged [symmetric]) auto
  have found: "processSkillDirs rt agent dirs w' grouped = processSkillDirs rt agent dirs w grouped"
    if "listSkillDirectories rt ?dir w = Inr dirs" for dirs
  proof (rule processSkillDirs_unchanged [symmetric], rule ballI)
    fix skillDir
    assume "skillDir \<in> set dirs"
    from listSkillDirectories_children [OF that this] inside
    show "sameReads rt skillDir w w'
          \<and> sameReads rt (pathJoin rt [skillDir, ''SKILL.md'']) w w'
          \<and> sameReads rt (pathJoin rt [skillDir, SOURCE_METADATA_FILENAME]) w w'"
      by blast
  qed
  have rest: "scanAgents rt scanRoot rest w' g = scanAgents rt scanRoot rest w g" for g
  proof (rule Cons.IH [symmetric])
    fix c
    assume "c \<in> set rest"
    thus "sameReads rt (pathJoin rt [scanRoot, snd c]) w w'" by (intro Cons.prems(1)) simp
  next
    fix c entries entry
    assume "c \<in> set rest" "rtReaddirSync rt (pathJoin rt [scanRoot, snd c]) w = Inr entries"
      "entry \<in> set entries"
    thus "sameReads rt (pathJoin rt [pathJoin rt [scanRoot, snd c], entryName entry]) w w'
            \<and> sameReads rt (pathJoin rt [pathJoin rt [pathJoin rt [scanRoot, snd c],
                                                      entryName entry], ''SKILL.md'']) w w'
            \<and> sameReads rt (pathJoin rt [pathJoin rt [pathJoin rt [scanRoot, snd c],
                                                      entryName entry],
                                         SOURCE_METADATA_FILENAME]) w w'"
      by (intro Cons.prems(2)) simp_all
  qed
  show ?case
  proof (cases "listSkillDirectories rt ?dir w")
    case (Inl e)
    thus ?thesis by (simp add: config bindE_def Let_def isdir listing rest)
  next
    case (Inr dirs)
    thus ?thesis
      by (simp add: config bindE_def Let_def isdir listing rest found [OF Inr] split: sum.splits)
  qed
qed

lemma installedStateUnchanged_scan:
  assumes same: "installedStateUnchanged rt scanRoot w w'"
  shows "scanAgents rt scanRoot AGENT_SKILL_DIRS w grouped = scanAgents rt scanRoot AGENT_SKILL_DIRS w' grouped"
proof (rule scanAgents_unchanged)
  fix config
  assume "config \<in> set AGENT_SKILL_DIRS"
  with same show "sameReads rt (pathJoin rt [scanRoot, snd config]) w w'"
    unfolding installedStateUnchanged_def installedSkillPaths_def list_all_iff
    by (auto simp: Let_def)
next
  fix config entries entry
  assume config: "config \<in> set AGENT_SKILL_DIRS"
    and listed: "rtReaddirSync rt (pathJoin rt [scanRoot, snd config]) w = Inr entries"
    and entry: "entry \<in> set entries"
  let ?skillDir = "pathJoin rt [pathJoin rt [scanRoot, snd config], entryName entry]"
  have "{?skillDir, pathJoin rt [?skillDir, ''SKILL.md''], pathJoin rt [?skillDir, SOURCE_METADATA_FILENAME]}
      \<subseteq> set (installedSkillPaths rt scanRoot w)"
    unfolding installedSkillPaths_def using config listed entry
    by (auto simp: Let_def intro!: bexI [of _ config] bexI [of _ entry])
  with same show "sameReads rt ?skillDir w w'
      \<and> sameReads rt (pathJoin rt [?skillDir, ''SKILL.md'']) w w'
      \<and> sameReads rt (pathJoin rt [?skillDir, SOURCE_METADATA_FILENAME]) w w'"
    unfolding installedStateUnchanged_def list_all_iff by auto
qed

lemma generateLockfile_scanned:
  "\<exists>out. \<forall>st grouped.
     scanAgents rt (scanRootOf rt options) AGENT_SKILL_DIRS (fst st) [] = Inr grouped
     \<longrightarrow> generateLockfile rt options st
         = andThen (mkdirSync rt (pathDirname rt out))
             (\<lambda>_. andThen
                (writeFileSync rt out
                   (utf8Encode (yamlStringify rt (documentValue
                      \<lparr> version = 1,
                        sources = sortBy (compareSources rt)
                                    (map (\<lambda>kv. normalizeGroup rt (snd kv)) grouped) \<rparr>))))
                (\<lambda>_. ret \<lparr> outputPath = out,
                            yaml = yamlStringify rt (documentValue
                                     \<lparr> version = 1,
                                       sources = sortBy (compareSources rt)
                                                   (map (\<lambda>kv. normalizeGroup rt (snd kv)) grouped) \<rparr>),
                            lockfile = \<lparr> version = 1,
                                         sources = sortBy (compareSources rt)
                                                     (map (\<lambda>kv. normalizeGroup rt (snd kv)) grouped) \<rparr> \<rparr>))
             st"
  by (intro exI [of _ "if scope options = ProjectScope
                       then pathJoin rt [pathResolve rt (case cwd options of Some c \<Rightarrow> c | None \<Rightarrow> processCwd rt),
                                         ''skillet.lock.yaml'']
                       else pathJoin rt [pathResolve rt
                                           (case homeDir options of
                                              Some h \<Rightarrow> h
                                            | None \<Rightarrow> pathResolve rt (case cwd options of Some c \<Rightarrow> c
                                                                        | None \<Rightarrow> processCwd rt)),
                                         ''.skillet'', ''skillet.lock.yaml'']"])
     (simp add: generateLockfile_def scanRootOf_def Let_def)

lemma written_result:
  "andThen m (\<lambda>_. andThen n (\<lambda>_. ret x)) s = (Inr r, s') \<Longrightarrow> r = x"
  by (auto simp: andThen_def ret_def split: prod.splits sum.splits)

text \<open>
  C2. The code compares texts with \<open>localeCompare\<close>, the collation of the runtime, taken
  here to be a consistent comparator; the order of texts is the order of that collation
  (the order of code units for a runtime that collates by code units). When
  \<open>generateLockfile\<close> returns a result, the entries of its document are in the
  lexicographic order of their tuples (type, url, ref, digest, installMethod), compared
  component by component, an absent ref or digest counting as the empty text; the skills
  and the agents of every entry are in order; the YAML returned is the serialization of
  that document; and the run is the creation of the directory of the output path
  followed by the writing of the UTF-8 bytes of that YAML to the output path. Run again
  in any state where the installed-skill state reads the same (the five agent
  directories, their children, and the \<open>SKILL.md\<close> and the sidecar of each child),
  \<open>generateLockfile\<close> is again the creation of that directory followed by the writing of
  the same bytes to the same path, and what it returns is this very result.
\<close>

theorem lockfile_sorted_and_reproducible:
  assumes collation: "consistentComparator (localeCompare rt)"
    and first: "generateLockfile rt options s = (Inr r, s')"
    and unchanged: "installedStateUnchanged rt (scanRootOf rt options) (fst s) w2"
  shows "sorted_wrt (\<lambda>a b. lexicographicLe (localeCompare rt) (identityTuple a) (identityTuple b))
           (sources (lockfile r))
         \<and> (\<forall>e\<in>set (sources (lockfile r)).
               sorted_wrt (\<lambda>a b. localeCompare rt a b \<le> 0) (skills e)
               \<and> sorted_wrt (\<lambda>a b. localeCompare rt a b \<le> 0) (agents e))
         \<and> yaml r = yamlStringify rt (documentValue (lockfile r))
         \<and> generateLockfile rt options s
             = andThen (mkdirSync rt (pathDirname rt (outputPath r)))
                 (\<lambda>_. andThen (writeFileSync rt (outputPath r) (utf8Encode (yaml r))) (\<lambda>_. ret r)) s
         \<and> generateLockfile rt options (w2, t2)
             = andThen (mkdirSync rt (pathDirname rt (outputPath r)))
                 (\<lambda>_. andThen (writeFileSync rt (outputPath r) (utf8Encode (yaml r))) (\<lambda>_. ret r)) (w2, t2)"
proof -
  let ?root = "scanRootOf rt options"
  from first obtain grouped where scan: "scanAgents rt ?root AGENT_SKILL_DIRS (fst s) [] = Inr grouped"
    by (auto simp: generateLockfile_def scanRootOf_def Let_def split: sum.splits)
  let ?doc = "\<lparr> version = 1,
               sources = sortBy (compareSources rt) (map (\<lambda>kv. normalizeGroup rt (snd kv)) grouped) \<rparr>"
  from generateLockfile_scanned [of rt options]
  obtain out where unfolded: "\<And>st. scanAgents rt ?root AGENT_SKILL_DIRS (fst st) [] = Inr grouped
      \<Longrightarrow> generateLockfile rt options st
          = andThen (mkdirSync rt (pathDirname rt out))
              (\<lambda>_. andThen (writeFileSync rt out (utf8Encode (yamlStringify rt (documentValue ?doc))))
                 (\<lambda>_. ret \<lparr> outputPath = out, yaml = yamlStringify rt (documentValue ?doc),
                             lockfile = ?doc \<rparr>))
              st"
    by blast
  from first unfolded [OF scan]
  have r: "r = \<lparr> outputPath = out, yaml = yamlStringify rt (documentValue ?doc), lockfile = ?doc \<rparr>"
    by (intro written_result [of _ _ _ s r s']) simp
  have "sorted_wrt (\<lambda>a b. compareSources rt a b \<le> 0) (sources ?doc)"
    using sorted_sortBy [OF consistent_compareSources [OF collation]] by simp
  hence sorted: "sorted_wrt (\<lambda>a b. lexicographicLe (localeCompare rt) (identityTuple a) (identityTuple b))
      (sources (lockfile r))"
    by (simp add: r compareSources_lexicographic)
  have inner: "\<forall>e\<in>set (sources (lockfile r)).
      sorted_wrt (\<lambda>a b. localeCompare rt a b \<le> 0) (skills e)
      \<and> sorted_wrt (\<lambda>a b. localeCompare rt a b \<le> 0) (agents e)"
    by (auto simp: r set_sortBy normalizeGroup_def sorted_sortBy [OF collation])
  have rendered: "yaml r = yamlStringify rt (documentValue (lockfile r))"
    by (simp add: r)
  have run: "generateLockfile rt options s
      = andThen (mkdirSync rt (pathDirname rt (outputPath r)))
          (\<lambda>_. andThen (writeFileSync rt (outputPath r) (utf8Encode (yaml r))) (\<lambda>_. ret r)) s"
    using unfolded [OF scan] by (simp add: r)
  from installedStateUnchanged_scan [OF unchanged] scan
  have "scanAgents rt ?root AGENT_SKILL_DIRS (fst (w2, t2)) [] = Inr grouped" by simp
  from unfolded [OF this]
  have again: "generateLockfile rt options (w2, t2)
      = andThen (mkdirSync rt (pathDirname rt (outputPath r)))
          (\<lambda>_. andThen (writeFileSync rt (outputPath r) (utf8Encode (yaml r))) (\<lambda>_. ret r)) (w2, t2)"
    by (simp add: r)
  from sorted inner rendered run again show ?thesis by blast
qed


lemma compareCodeUnits_swap: "(compareCodeUnits a b < 0) = (0 < compareCodeUnits b a)"
  by (induction a b rule: compareCodeUnits.induct) auto

lemma compareCodeUnits_trans:
  "compareCodeUnits a b \<le> 0 \<Longrightarrow> compareCodeUnits b c \<le> 0 \<Longrightarrow> compareCodeUnits a c \<le> 0"
proof (induction a arbitrary: b c)
  case Nil
  show ?case by (cases c) simp_all
next
  case (Cons x xs)
  from Cons.prems obtain y ys where b: "b = y # ys" by (cases b) auto
  from Cons.prems b obtain z zs where c: "c = z # zs" by (cases c) auto
  from Cons.prems Cons.IH [of ys zs] show ?case
    unfolding b c by (auto split: if_splits)
qed

lemma compareCodeUnits_consistent: "consistentComparator compareCodeUnits"
  unfolding consistentComparator_def
  using compareCodeUnits_swap compareCodeUnits_trans by blast

lemmas lock_run_defs =
  generateLockfile_def scanRootOf_def AGENT_SKILL_DIRS_def SOURCE_METADATA_FILENAME_def
  listSkillDirectories_def processSkillDir_def readSourceMetadata_def readOptionalString_def
  noMetadata_def isFile_def isDirectory_def groupKey_def orEmpty_def setAdd_def truthy_def
  normalizeGroup_def compareSources_def documentValue_def sourceValue_def utf8Encode_def
  mkdirSync_def writeFileSync_def bindE_def
  parseSkillMarkdown_def splitFrontmatter_def splitLines_def trim_def isJsSpace_def
  readStringField_def readAllowedTools_def normalizeMetadata_def validateName_def
  matchesNamePattern_def isLowerAlnum_def splitOn_def validateDescription_def
  validateCompatibility_def deriveExpectedName_def parseError_def
  scriptedRuntime_def lockScript_def lockWorld_def lockOptions_def sidecarText_def
  sidecarValue_def skillMarkdown_def

text \<open>
  C2 on the project of two skills: the directory lists \<open>beta\<close> before \<open>alpha\<close>, the
  sidecar of \<open>alpha\<close> names the repository \<open>z\<close> and that of \<open>beta\<close> the repository \<open>a\<close>.
  The entry of \<open>a\<close> comes first in the document, and the run repeated in the world that
  the first run left returns the same result.
\<close>

theorem lockfile_sorted_and_reproducible_witness:
  "consistentComparator (localeCompare (scriptedRuntime (lockScript [''beta'', ''alpha''] fromZ fromA)))
   \<and> generateLockfile (scriptedRuntime (lockScript [''beta'', ''alpha''] fromZ fromA)) lockOptions
        (lockWorld, [])
      = (Inr \<lparr> outputPath = ''/proj/skillet.lock.yaml'',
               yaml = renderValue (documentValue twoSources),
               lockfile = twoSources \<rparr>,
         ((''/proj/skillet.lock.yaml'', IsFile) # lockWorld,
          [EvMkdir ''/proj'', EvWriteFile ''/proj/skillet.lock.yaml'']))
   \<and> installedStateUnchanged (scriptedRuntime (lockScript [''beta'', ''alpha''] fromZ fromA)) ''/proj''
        lockWorld ((''/proj/skillet.lock.yaml'', IsFile) # lockWorld)
   \<and> sorted_wrt (\<lambda>a b. lexicographicLe compareCodeUnits (identityTuple a) (identityTuple b))
        (sources twoSources)
   \<and> map url (sources twoSources) = [''https://example.com/a'', ''https://example.com/z'']
   \<and> fst (generateLockfile (scriptedRuntime (lockScript [''beta'', ''alpha''] fromZ fromA)) lockOptions
          ((''/proj/skillet.lock.yaml'', IsFile) # lockWorld,
           [EvMkdir ''/proj'', EvWriteFile ''/proj/skillet.lock.yaml'']))
      = Inr \<lparr> outputPath = ''/proj/skillet.lock.yaml'',
              yaml = renderValue (documentValue twoSources),
              lockfile = twoSources \<rparr>"
proof -
  let ?rt = "scriptedRuntime (lockScript [''beta'', ''alpha''] fromZ fromA)"
  let ?r = "\<lparr> outputPath = ''/proj/skillet.lock.yaml'', yaml = renderValue (documentValue twoSources),
             lockfile = twoSources \<rparr>"
  let ?after = "(''/proj/skillet.lock.yaml'', IsFile) # lockWorld"
  let ?trace = "[EvMkdir ''/proj'', EvWriteFile ''/proj/skillet.lock.yaml'']"
  have collation: "consistentComparator (localeCompare ?rt)"
    by (simp add: scriptedRuntime_def compareCodeUnits_consistent)
  have first: "generateLockfile ?rt lockOptions (lockWorld, []) = (Inr ?r, (?after, ?trace))"
    by (simp add: lock_run_defs prog_defs fromZ_def fromA_def twoSources_def Let_def)
  have root: "scanRootOf ?rt lockOptions = ''/proj''"
    by (simp add: scanRootOf_def scriptedRuntime_def lockOptions_def)
  have same: "installedStateUnchanged ?rt ''/proj'' lockWorld ?after"
    by (simp add: installedStateUnchanged_def installedSkillPaths_def sameReads_def
        AGENT_SKILL_DIRS_def SOURCE_METADATA_FILENAME_def scriptedRuntime_def lockScript_def
        lockWorld_def Let_def)
  from same root have unchanged: "installedStateUnchanged ?rt (scanRootOf ?rt lockOptions)
      (fst (lockWorld, [] :: event list)) ?after"
    by simp
  have cmp: "localeCompare ?rt = compareCodeUnits" by (simp add: scriptedRuntime_def)
  note run = lockfile_sorted_and_reproducible [OF collation first unchanged, of ?trace]
  from run have "sorted_wrt (\<lambda>a b. lexicographicLe (localeCompare ?rt) (identityTuple a) (identityTuple b))
      (sources (lockfile ?r))" by (rule conjunct1)
  hence sorted: "sorted_wrt (\<lambda>a b. lexicographicLe compareCodeUnits (identityTuple a) (identityTuple b))
      (sources twoSources)"
    by (simp only: cmp GenerateLockfileResult.simps)
  have order: "map url (sources twoSources) = [''https://example.com/a'', ''https://example.com/z'']"
    by (simp add: twoSources_def)
  from run have "generateLockfile ?rt lockOptions (?after, ?trace)
      = andThen (mkdirSync ?rt (pathDirname ?rt (outputPath ?r)))
          (\<lambda>_. andThen (writeFileSync ?rt (outputPath ?r) (utf8Encode (yaml ?r))) (\<lambda>_. ret ?r))
          (?after, ?trace)"
    by (elim conjE)
  hence second: "fst (generateLockfile ?rt lockOptions (?after, ?trace)) = Inr ?r"
    by (simp add: prog_defs mkdirSync_def writeFileSync_def scriptedRuntime_def)
  show ?thesis
    by (intro conjI) (rule collation first same sorted order second)+
qed

text \<open>
  C3 at two installed skills of different provenance that end in one entry. The sidecar
  of \<open>alpha\<close> records the repository \<open>/repos/a|b\<close> at the ref \<open>main\<close>, that of \<open>beta\<close> the
  repository \<open>/repos/a\<close> at the ref \<open>b|main\<close>: the tuples differ in url and in ref. The key
  joins the components with \<open>|\<close> and is \<open>git|/repos/a|b|main||copy\<close> for both, so \<open>beta\<close> is
  added to the group of \<open>alpha\<close>, and the document has the single entry of
  \<open>/repos/a|b\<close> at \<open>main\<close> with both skills.
\<close>

theorem grouping_key_collision:
  "readSourceMetadata (scriptedRuntime (lockScript [''alpha'', ''beta''] pipeInUrl pipeInRef))
     ''/proj/.claude/skills/alpha'' lockWorld
   = \<lparr> metaType = Some ''git'', metaUrl = Some ''/repos/a|b'', metaRef = Some ''main'',
       metaDigest = None, metaInstallMethod = Some ''copy'' \<rparr>
   \<and> readSourceMetadata (scriptedRuntime (lockScript [''alpha'', ''beta''] pipeInUrl pipeInRef))
       ''/proj/.claude/skills/beta'' lockWorld
     = \<lparr> metaType = Some ''git'', metaUrl = Some ''/repos/a'', metaRef = Some ''b|main'',
         metaDigest = None, metaInstallMethod = Some ''copy'' \<rparr>
   \<and> groupKey \<lparr> type = ''git'', url = ''/repos/a|b'', ref = Some ''main'', digest = None,
                installMethod = ''copy'' \<rparr>
     = ''git|/repos/a|b|main||copy''
   \<and> groupKey \<lparr> type = ''git'', url = ''/repos/a'', ref = Some ''b|main'', digest = None,
                installMethod = ''copy'' \<rparr>
     = ''git|/repos/a|b|main||copy''
   \<and> fst (generateLockfile (scriptedRuntime (lockScript [''alpha'', ''beta''] pipeInUrl pipeInRef))
          lockOptions (lockWorld, []))
     = Inr \<lparr> outputPath = ''/proj/skillet.lock.yaml'',
             yaml = renderValue (documentValue mergedDocument),
             lockfile = mergedDocument \<rparr>"
proof -
  let ?rt = "scriptedRuntime (lockScript [''alpha'', ''beta''] pipeInUrl pipeInRef)"
  have alpha: "readSourceMetadata ?rt ''/proj/.claude/skills/alpha'' lockWorld
      = \<lparr> metaType = Some ''git'', metaUrl = Some ''/repos/a|b'', metaRef = Some ''main'',
          metaDigest = None, metaInstallMethod = Some ''copy'' \<rparr>"
    by (simp add: lock_run_defs pipeInUrl_def pipeInRef_def Let_def)
  have beta: "readSourceMetadata ?rt ''/proj/.claude/skills/beta'' lockWorld
      = \<lparr> metaType = Some ''git'', metaUrl = Some ''/repos/a'', metaRef = Some ''b|main'',
          metaDigest = None, metaInstallMethod = Some ''copy'' \<rparr>"
    by (simp add: lock_run_defs pipeInUrl_def pipeInRef_def Let_def)
  have key1: "groupKey \<lparr> type = ''git'', url = ''/repos/a|b'', ref = Some ''main'', digest = None,
                         installMethod = ''copy'' \<rparr> = ''git|/repos/a|b|main||copy''"
    by (simp add: groupKey_def orEmpty_def)
  have key2: "groupKey \<lparr> type = ''git'', url = ''/repos/a'', ref = Some ''b|main'', digest = None,
                         installMethod = ''copy'' \<rparr> = ''git|/repos/a|b|main||copy''"
    by (simp add: groupKey_def orEmpty_def)
  have run: "fst (generateLockfile ?rt lockOptions (lockWorld, []))
      = Inr \<lparr> outputPath = ''/proj/skillet.lock.yaml'',
              yaml = renderValue (documentValue mergedDocument),
              lockfile = mergedDocument \<rparr>"
    by (simp add: lock_run_defs prog_defs pipeInUrl_def pipeInRef_def mergedDocument_def Let_def)
  show ?thesis
    by (intro conjI) (rule alpha beta key1 key2 run)+
qed

end
